theory Spec2Isabelle
  imports Complex_Main "HOL-Library.Monad_Syntax"
begin

section \<open>Conventions of the embedding\<close>

text \<open>
  The development embeds the parts of \<^verbatim>\<open>src/src/mapHandler.cpp\<close> (class
  \<^verbatim>\<open>MapHandler\<close>) that own the covisibility matrix, the landmark containers, the
  loop-closure bookkeeping and the accept/reject logic of the optimizers.

  \<^item> A \<^verbatim>\<open>std::vector\<close> is a list; a pointer that may be \<^verbatim>\<open>NULL\<close> is an
    \<open>option\<close>; a \<^verbatim>\<open>std::map\<close> is a partial function.
  \<^item> Every function that indexes a vector returns an \<open>option\<close>: \<open>None\<close> stands for
    the runs in which the C++ program has no defined result (\<^verbatim>\<open>operator[]\<close> out
    of range, dereference of \<^verbatim>\<open>NULL\<close>, \<^verbatim>\<open>std::map::at\<close> on a missing key,
    growing a vector while iterating over it).
  \<^item> A \<^verbatim>\<open>double\<close> is a \<open>real\<close> and an Eigen vector a list of reals; the order
    comparisons of the source are the comparisons of \<open>real\<close>. Rounding and overflow are
    outside the embedding. Where the source divides by a count that can be zero, the
    quotient and what is computed from it are values of the type \<open>double\<close> below, which
    has the infinities and NaN.
  \<^item> The \<^verbatim>\<open>int\<close> counters of the matrix are unbounded integers (the source never
    approaches the 32-bit range with them).
  \<^item> Keyframe indices are never negative in the source and are natural numbers here;
    landmark indices keep the sentinel \<open>-1\<close> and are integers.
\<close>

type_synonym vec = "real list"
type_synonym mat = "real list list"
type_synonym descr = "nat list"

definition vec_at :: "'a list \<Rightarrow> nat \<Rightarrow> 'a option" where
  "vec_at xs i = (if i < length xs then Some (xs ! i) else None)"

definition idx_at :: "'a list \<Rightarrow> int \<Rightarrow> 'a option" where
  "idx_at xs i = (if 0 \<le> i \<and> nat i < length xs then Some (xs ! nat i) else None)"

text \<open>\<^verbatim>\<open>v.norm()\<close> and \<^verbatim>\<open>v / v.norm()\<close> of Eigen.\<close>

definition norm_vec :: "vec \<Rightarrow> real" where
  "norm_vec v = sqrt (sum_list (map (\<lambda>x. x * x) v))"

definition normalized :: "vec \<Rightarrow> vec" where
  "normalized v = map (\<lambda>x. x / norm_vec v) v"

text \<open>\<^verbatim>\<open>T.block(0,0,3,3) * p + T.col(3).head(3)\<close> for a 4x4 pose \<open>T\<close>.\<close>

definition transform_point :: "mat \<Rightarrow> vec \<Rightarrow> vec" where
  "transform_point T p =
     map (\<lambda>i. T ! i ! 0 * p ! 0 + T ! i ! 1 * p ! 1 + T ! i ! 2 * p ! 2 + T ! i ! 3) [0, 1, 2]"

text \<open>\<^verbatim>\<open>Matrix4d::Identity()\<close>.\<close>

definition identity_pose :: mat where
  "identity_pose = [[1, 0, 0, 0], [0, 1, 0, 0], [0, 0, 1, 0], [0, 0, 0, 1]]"

text \<open>The camera (\<^verbatim>\<open>cam\<close>) is declared outside the file: its projection of a point of
  the camera frame to the image, \<^verbatim>\<open>getFx()\<close>, \<^verbatim>\<open>getWidth()\<close> and \<^verbatim>\<open>getHeight()\<close>.\<close>

record Camera =
  projection :: "vec \<Rightarrow> vec"
  getFx :: real
  getWidth :: real
  getHeight :: real

text \<open>The values of an IEEE 754 \<^verbatim>\<open>double\<close>, without rounding.\<close>

datatype double = Finite real | PlusInfinity | MinusInfinity | NaN

text \<open>\<^verbatim>\<open>x / n\<close> for a finite \<open>x\<close> and an \<^verbatim>\<open>int\<close> \<open>n\<close>, which the division converts to
  \<^verbatim>\<open>double\<close>: a non-zero number over zero is an infinity of its sign, and zero over zero
  is NaN.\<close>

definition double_div :: "real \<Rightarrow> int \<Rightarrow> double" where
  "double_div x n =
     (if n \<noteq> 0 then Finite (x / real_of_int n)
      else if 0 < x then PlusInfinity
      else if x < 0 then MinusInfinity
      else NaN)"

text \<open>\<^verbatim>\<open>a - b\<close>: NaN when an operand is NaN or when the two are the same infinity.\<close>

fun double_sub :: "double \<Rightarrow> double \<Rightarrow> double" where
  "double_sub (Finite x) (Finite y) = Finite (x - y)"
| "double_sub NaN b = NaN"
| "double_sub a NaN = NaN"
| "double_sub PlusInfinity PlusInfinity = NaN"
| "double_sub MinusInfinity MinusInfinity = NaN"
| "double_sub PlusInfinity b = PlusInfinity"
| "double_sub MinusInfinity b = MinusInfinity"
| "double_sub (Finite x) PlusInfinity = MinusInfinity"
| "double_sub (Finite x) MinusInfinity = PlusInfinity"

text \<open>\<^verbatim>\<open>abs(a)\<close>.\<close>

fun double_abs :: "double \<Rightarrow> double" where
  "double_abs (Finite x) = Finite \<bar>x\<bar>"
| "double_abs PlusInfinity = PlusInfinity"
| "double_abs MinusInfinity = PlusInfinity"
| "double_abs NaN = NaN"

text \<open>\<^verbatim>\<open>a < b\<close>, false when an operand is NaN; \<^verbatim>\<open>a > b\<close> is \<open>double_less b a\<close>.\<close>

fun double_less :: "double \<Rightarrow> double \<Rightarrow> bool" where
  "double_less (Finite x) (Finite y) \<longleftrightarrow> x < y"
| "double_less NaN b \<longleftrightarrow> False"
| "double_less a NaN \<longleftrightarrow> False"
| "double_less PlusInfinity b \<longleftrightarrow> False"
| "double_less a MinusInfinity \<longleftrightarrow> False"
| "double_less MinusInfinity b \<longleftrightarrow> True"
| "double_less (Finite x) PlusInfinity \<longleftrightarrow> True"


section \<open>The covisibility count matrix\<close>

text \<open>\<^verbatim>\<open>vector<vector<int>> full_graph\<close>.\<close>

type_synonym graph = "int list list"

text \<open>One statement \<^verbatim>\<open>full_graph[i][j] = f(full_graph[i][j])\<close>.\<close>

definition cell_upd :: "(int \<Rightarrow> int) \<Rightarrow> graph \<Rightarrow> nat \<Rightarrow> nat \<Rightarrow> graph option" where
  "cell_upd f g i j =
     (if i < length g \<and> j < length (g ! i)
      then Some (g[i := (g ! i)[j := f (g ! i ! j)]])
      else None)"

text \<open>The statement pair \<^verbatim>\<open>full_graph[a][b]++; full_graph[b][a]++;\<close> and its
  decrementing and zeroing siblings.\<close>

definition pair_upd :: "(int \<Rightarrow> int) \<Rightarrow> graph \<Rightarrow> nat \<Rightarrow> nat \<Rightarrow> graph option" where
  "pair_upd f g a b = do { g1 \<leftarrow> cell_upd f g a b; cell_upd f g1 b a }"

definition graph_inc :: "graph \<Rightarrow> nat \<Rightarrow> nat \<Rightarrow> graph option" where
  "graph_inc g a b = pair_upd (\<lambda>x. x + 1) g a b"

definition graph_dec :: "graph \<Rightarrow> nat \<Rightarrow> nat \<Rightarrow> graph option" where
  "graph_dec g a b = pair_upd (\<lambda>x. x - 1) g a b"

definition graph_zero :: "graph \<Rightarrow> nat \<Rightarrow> nat \<Rightarrow> graph option" where
  "graph_zero g a b = pair_upd (\<lambda>x. 0) g a b"

text \<open>Matching, lines 347-352, 569-574, 671-676, 786-791 and 910-915:
  \<^verbatim>\<open>for (int obs : kf_obs_list) if (obs != kf2_idx) { full_graph[kf2_idx][obs]++; full_graph[obs][kf2_idx]++; }\<close>\<close>

fun inc_guarded :: "graph \<Rightarrow> nat \<Rightarrow> nat list \<Rightarrow> graph option" where
  "inc_guarded g kf2_idx [] = Some g"
| "inc_guarded g kf2_idx (obs # rest) =
     (if obs \<noteq> kf2_idx
      then do { g' \<leftarrow> graph_inc g kf2_idx obs; inc_guarded g' kf2_idx rest }
      else inc_guarded g kf2_idx rest)"

text \<open>Observation removal, lines 2246-2254, 2307-2315, 2930-2938, 2991-2999:
  \<^verbatim>\<open>for (i...) { idx = kf_obs_list[i]; if (kf_obs != idx) { full_graph[kf_obs][idx]--; full_graph[idx][kf_obs]--; } }\<close>\<close>

fun dec_guarded :: "graph \<Rightarrow> nat \<Rightarrow> nat list \<Rightarrow> graph option" where
  "dec_guarded g kf_obs [] = Some g"
| "dec_guarded g kf_obs (idx # rest) =
     (if kf_obs \<noteq> idx
      then do { g' \<leftarrow> graph_dec g kf_obs idx; dec_guarded g' kf_obs rest }
      else dec_guarded g kf_obs rest)"

text \<open>Loop-closure fusion, lines 5560-5564, 5577-5581 and the inner loop 5629-5634:
  \<^verbatim>\<open>for (kf in list) { full_graph[kf][other]++; full_graph[other][kf]++; }\<close>, with no
  test that \<^verbatim>\<open>kf != other\<close>.\<close>

fun inc_each :: "graph \<Rightarrow> nat list \<Rightarrow> nat \<Rightarrow> graph option" where
  "inc_each g [] other = Some g"
| "inc_each g (kf # rest) other = do { g' \<leftarrow> graph_inc g kf other; inc_each g' rest other }"

text \<open>\<^verbatim>\<open>removeRedundantKFs\<close>, lines 4036-4040:
  \<^verbatim>\<open>for (k = 0; k < full_graph.size()-1; k++) { full_graph[kf_idx][k] = 0; full_graph[k][kf_idx] = 0; }\<close>\<close>

fun zero_cols :: "graph \<Rightarrow> nat \<Rightarrow> nat list \<Rightarrow> graph option" where
  "zero_cols g kf [] = Some g"
| "zero_cols g kf (k # rest) = do { g' \<leftarrow> graph_zero g kf k; zero_cols g' kf rest }"

definition zero_keyframe :: "graph \<Rightarrow> nat \<Rightarrow> graph option" where
  "zero_keyframe g kf = (if g = [] then None else zero_cols g kf [0..<length g - 1])"

text \<open>\<^verbatim>\<open>std::vector::resize(n)\<close> with value-initialised new elements, and
  \<^verbatim>\<open>expandGraphs\<close> (lines 992-998), which adds one row and one column.\<close>

definition resize :: "nat \<Rightarrow> 'a \<Rightarrow> 'a list \<Rightarrow> 'a list" where
  "resize n z xs = take n xs @ replicate (n - length xs) z"

definition expandGraphs :: "graph \<Rightarrow> graph" where
  "expandGraphs g = (let g_size = length g + 1 in map (resize g_size 0) (resize g_size [] g))"

text \<open>\<^verbatim>\<open>initialize\<close>, lines 72-74.\<close>

definition initial_graph :: graph where
  "initial_graph = [[0]]"

text \<open>The invariant of the data model: the matrix is square and \<open>M[i][j] = M[j][i]\<close>.\<close>

definition symmetric :: "graph \<Rightarrow> bool" where
  "symmetric g \<longleftrightarrow>
     list_all (\<lambda>row. length row = length g) g \<and>
     list_all (\<lambda>i. list_all (\<lambda>j. g ! i ! j = g ! j ! i) [0..<length g]) [0..<length g]"

text \<open>The matrices the program can build: every place of the source that writes to
  \<^verbatim>\<open>full_graph\<close> is one of the rules.\<close>

inductive graph_reach :: "graph \<Rightarrow> bool" where
  initial: "graph_reach initial_graph"
| expand: "graph_reach g \<Longrightarrow> graph_reach (expandGraphs g)"
| new_landmark: "graph_reach g \<Longrightarrow> graph_inc g a b = Some g' \<Longrightarrow> graph_reach g'"
| new_observation: "graph_reach g \<Longrightarrow> inc_guarded g kf2_idx obs = Some g' \<Longrightarrow> graph_reach g'"
| removed_observation: "graph_reach g \<Longrightarrow> dec_guarded g kf_obs obs = Some g' \<Longrightarrow> graph_reach g'"
| fused_observations: "graph_reach g \<Longrightarrow> inc_each g obs other = Some g' \<Longrightarrow> graph_reach g'"
| removed_keyframe: "graph_reach g \<Longrightarrow> zero_keyframe g kf = Some g' \<Longrightarrow> graph_reach g'"


section \<open>The map store\<close>

text \<open>The fields of the frontend's features that \<^verbatim>\<open>MapHandler\<close> reads or writes:
  \<^verbatim>\<open>idx\<close> is the landmark the feature observes, or \<open>-1\<close>.\<close>

record PointFeature =
  pt_idx :: int
  pt_pl :: vec
  pt_P :: vec

record LineFeature =
  ls_idx :: int
  ls_sP :: vec
  ls_eP :: vec
  ls_le :: vec
  ls_spl :: vec
  ls_epl :: vec
  ls_spl_obs :: vec
  ls_epl_obs :: vec

record StereoFrame =
  stereo_pt :: "PointFeature option list"
  stereo_ls :: "LineFeature option list"
  pdesc_l :: "descr list"
  ldesc_l :: "descr list"

record KeyFrame =
  kf_idx :: nat
  T_kf_w :: mat
  kf_local :: bool
  stereo_frame :: StereoFrame

text \<open>A landmark and its parallel per-observation lists.\<close>

record MapPoint =
  mp_idx :: int
  point3D :: vec
  mp_desc_list :: "descr list"
  mp_obs_list :: "vec list"
  mp_dir_list :: "vec list"
  mp_kf_obs_list :: "nat list"
  mp_local :: bool
  mp_inlier :: bool

record MapLine =
  ml_idx :: int
  line3D :: vec
  NDw :: vec
  orthNDw :: vec
  ml_desc_list :: "descr list"
  ml_obs_list :: "vec list"
  ml_pts_list :: "vec list"
  ml_dir_list :: "vec list"
  ml_kf_obs_list :: "nat list"
  ml_local :: bool
  ml_inlier :: bool

text \<open>Modelled from the spec: the constructors and the observation appenders of
  \<^verbatim>\<open>MapPoint\<close> and \<^verbatim>\<open>MapLine\<close> are declared outside \<^verbatim>\<open>mapHandler.cpp\<close>. The spec
  gives a landmark parallel, insertion-ordered lists with one entry per observation, the
  first entry being the observation of the creating keyframe; a new observation appends
  one entry to each list. The representative descriptor and the median direction, which
  \<^verbatim>\<open>updateAverageDescDir\<close> recomputes, are derived values and are not stored here.\<close>

definition new_MapPoint :: "int \<Rightarrow> vec \<Rightarrow> descr \<Rightarrow> nat \<Rightarrow> vec \<Rightarrow> vec \<Rightarrow> MapPoint" where
  "new_MapPoint idx P3d desc kf obs dir =
     \<lparr>mp_idx = idx, point3D = P3d, mp_desc_list = [desc], mp_obs_list = [obs],
      mp_dir_list = [dir], mp_kf_obs_list = [kf], mp_local = False, mp_inlier = True\<rparr>"

definition addMapPointObservation :: "MapPoint \<Rightarrow> descr \<Rightarrow> nat \<Rightarrow> vec \<Rightarrow> vec \<Rightarrow> MapPoint" where
  "addMapPointObservation mp desc kf obs dir =
     mp\<lparr>mp_desc_list := mp_desc_list mp @ [desc], mp_obs_list := mp_obs_list mp @ [obs],
        mp_dir_list := mp_dir_list mp @ [dir], mp_kf_obs_list := mp_kf_obs_list mp @ [kf]\<rparr>"

definition new_MapLine :: "int \<Rightarrow> vec \<Rightarrow> descr \<Rightarrow> nat \<Rightarrow> vec \<Rightarrow> vec \<Rightarrow> vec \<Rightarrow> MapLine" where
  "new_MapLine idx L3D desc kf obs dir pts =
     \<lparr>ml_idx = idx, line3D = L3D, NDw = [], orthNDw = [], ml_desc_list = [desc],
      ml_obs_list = [obs], ml_pts_list = [pts], ml_dir_list = [dir], ml_kf_obs_list = [kf],
      ml_local = False, ml_inlier = True\<rparr>"

definition addMapLineObservation :: "MapLine \<Rightarrow> descr \<Rightarrow> nat \<Rightarrow> vec \<Rightarrow> vec \<Rightarrow> vec \<Rightarrow> MapLine" where
  "addMapLineObservation ml desc kf obs dir pts =
     ml\<lparr>ml_desc_list := ml_desc_list ml @ [desc], ml_obs_list := ml_obs_list ml @ [obs],
        ml_pts_list := ml_pts_list ml @ [pts], ml_dir_list := ml_dir_list ml @ [dir],
        ml_kf_obs_list := ml_kf_obs_list ml @ [kf]\<rparr>"

text \<open>Modelled from the spec: the overload of \<^verbatim>\<open>addMapLineObservation\<close> with three
  arguments, which \<^verbatim>\<open>matchMap2KFLines\<close> calls when \<^verbatim>\<open>USE_LINE_PLUKER\<close> is defined
  (line 905), is declared outside \<^verbatim>\<open>mapHandler.cpp\<close> as well. It is given the
  descriptor, the keyframe and the four endpoint coordinates, and appends them to their
  lists.\<close>

definition addMapLineObservation_pts :: "MapLine \<Rightarrow> descr \<Rightarrow> nat \<Rightarrow> vec \<Rightarrow> MapLine" where
  "addMapLineObservation_pts ml desc kf pts =
     ml\<lparr>ml_desc_list := ml_desc_list ml @ [desc], ml_pts_list := ml_pts_list ml @ [pts],
        ml_kf_obs_list := ml_kf_obs_list ml @ [kf]\<rparr>"

text \<open>The data-model invariant of a landmark: its lists are parallel.\<close>

definition mp_aligned :: "MapPoint \<Rightarrow> bool" where
  "mp_aligned mp \<longleftrightarrow>
     length (mp_obs_list mp) = length (mp_desc_list mp) \<and>
     length (mp_dir_list mp) = length (mp_desc_list mp) \<and>
     length (mp_kf_obs_list mp) = length (mp_desc_list mp)"

text \<open>The members of \<^verbatim>\<open>MapHandler\<close>. A loop edge (\<^verbatim>\<open>Vector3i\<close>) is the pair of keyframes
  and the marker that is 1 while the edge is not optimized; a correspondence
  (\<^verbatim>\<open>Vector4i\<close>) is \<open>(lm_idx0, lm_ldx0, lm_idx1, lm_ldx1)\<close>: the landmark and the
  feature position on the earlier keyframe, then on the later one.\<close>

datatype LCState = LC_IDLE | LC_ACTIVE | LC_READY

type_synonym Vector3i = "nat \<times> nat \<times> int"
type_synonym Vector4i = "int \<times> nat \<times> int \<times> nat"

record MapHandler =
  map_keyframes :: "KeyFrame option list"
  map_points :: "MapPoint option list"
  map_lines :: "MapLine option list"
  map_points_kf_idx :: "nat \<Rightarrow> int list option"
  map_lines_kf_idx :: "nat \<Rightarrow> int list option"
  full_graph :: graph
  max_pt_idx :: int
  max_ls_idx :: int
  max_kf_idx :: int
  lc_idx_list :: "Vector3i list"
  lc_pt_idxs :: "Vector4i list list"
  lc_ls_idxs :: "Vector4i list list"
  lc_state :: LCState

text \<open>\<^verbatim>\<open>map_keyframes[k]->\<close>: the keyframe behind the pointer.\<close>

definition keyframe_at :: "MapHandler \<Rightarrow> nat \<Rightarrow> KeyFrame option" where
  "keyframe_at s k = (case vec_at (map_keyframes s) k of Some (Some kf) \<Rightarrow> Some kf | _ \<Rightarrow> None)"

text \<open>\<^verbatim>\<open>map_keyframes[k]->stereo_frame->stereo_pt[l]->idx = v\<close> and the same for
  \<^verbatim>\<open>stereo_ls\<close>.\<close>

definition set_stereo_pt_idx :: "MapHandler \<Rightarrow> nat \<Rightarrow> nat \<Rightarrow> int \<Rightarrow> MapHandler option" where
  "set_stereo_pt_idx s k l v = do {
     kf \<leftarrow> keyframe_at s k;
     fo \<leftarrow> vec_at (stereo_pt (stereo_frame kf)) l;
     f \<leftarrow> fo;
     Some (s\<lparr>map_keyframes := (map_keyframes s)
       [k := Some (kf\<lparr>stereo_frame := (stereo_frame kf)
          \<lparr>stereo_pt := (stereo_pt (stereo_frame kf))[l := Some (f\<lparr>pt_idx := v\<rparr>)]\<rparr>\<rparr>)]\<rparr>)
   }"

definition set_stereo_ls_idx :: "MapHandler \<Rightarrow> nat \<Rightarrow> nat \<Rightarrow> int \<Rightarrow> MapHandler option" where
  "set_stereo_ls_idx s k l v = do {
     kf \<leftarrow> keyframe_at s k;
     fo \<leftarrow> vec_at (stereo_ls (stereo_frame kf)) l;
     f \<leftarrow> fo;
     Some (s\<lparr>map_keyframes := (map_keyframes s)
       [k := Some (kf\<lparr>stereo_frame := (stereo_frame kf)
          \<lparr>stereo_ls := (stereo_ls (stereo_frame kf))[l := Some (f\<lparr>ls_idx := v\<rparr>)]\<rparr>\<rparr>)]\<rparr>)
   }"


section \<open>Loop-closure landmark fusion: point correspondences\<close>

text \<open>\<^verbatim>\<open>loopClosureFuseLandmarks\<close>, lines 5552-5566: only the later keyframe's feature
  has a landmark. The observation of keyframe \<^verbatim>\<open>kf_prev_idx\<close> is appended, and the
  matrix is incremented between every observer in the list and \<^verbatim>\<open>kf_curr_idx\<close>.\<close>

definition fuse_pt_attach_prev :: "MapHandler \<Rightarrow> nat \<Rightarrow> nat \<Rightarrow> nat \<Rightarrow> int \<Rightarrow> MapHandler option" where
  "fuse_pt_attach_prev s kf_prev_idx kf_curr_idx lm_ldx0 lm_idx1 = do {
     kfp \<leftarrow> keyframe_at s kf_prev_idx;
     f0 \<leftarrow> vec_at (stereo_pt (stereo_frame kfp)) lm_ldx0;
     case f0 of None \<Rightarrow> Some s | Some pf \<Rightarrow> do {
       m1 \<leftarrow> idx_at (map_points s) lm_idx1;
       case m1 of None \<Rightarrow> Some s | Some mp \<Rightarrow> do {
         s1 \<leftarrow> set_stereo_pt_idx s kf_prev_idx lm_ldx0 lm_idx1;
         desc \<leftarrow> vec_at (pdesc_l (stereo_frame kfp)) lm_ldx0;
         let dir = normalized (pt_P pf);
             mp' = addMapPointObservation mp desc (kf_idx kfp) (pt_pl pf) dir
         in do {
           g \<leftarrow> inc_each (full_graph s1) (mp_kf_obs_list mp') kf_curr_idx;
           Some (s1\<lparr>map_points := (map_points s1)[nat lm_idx1 := Some mp'], full_graph := g\<rparr>)
         }
       }
     }
   }"

text \<open>Lines 5567-5583: only the earlier keyframe's feature has a landmark.\<close>

definition fuse_pt_attach_curr :: "MapHandler \<Rightarrow> nat \<Rightarrow> nat \<Rightarrow> int \<Rightarrow> nat \<Rightarrow> MapHandler option" where
  "fuse_pt_attach_curr s kf_prev_idx kf_curr_idx lm_idx0 lm_ldx1 = do {
     kfc \<leftarrow> keyframe_at s kf_curr_idx;
     f1 \<leftarrow> vec_at (stereo_pt (stereo_frame kfc)) lm_ldx1;
     case f1 of None \<Rightarrow> Some s | Some pf \<Rightarrow> do {
       m0 \<leftarrow> idx_at (map_points s) lm_idx0;
       case m0 of None \<Rightarrow> Some s | Some mp \<Rightarrow> do {
         s1 \<leftarrow> set_stereo_pt_idx s kf_curr_idx lm_ldx1 lm_idx0;
         desc \<leftarrow> vec_at (pdesc_l (stereo_frame kfc)) lm_ldx1;
         let dir = normalized (pt_P pf);
             mp' = addMapPointObservation mp desc (kf_idx kfc) (pt_pl pf) dir
         in do {
           g \<leftarrow> inc_each (full_graph s1) (mp_kf_obs_list mp') kf_prev_idx;
           Some (s1\<lparr>map_points := (map_points s1)[nat lm_idx0 := Some mp'], full_graph := g\<rparr>)
         }
       }
     }
   }"

text \<open>Lines 5585-5610: neither feature has a landmark; one is created at
  \<^verbatim>\<open>max_pt_idx\<close>, anchored at the earlier keyframe, with both observations.\<close>

definition fuse_pt_create :: "MapHandler \<Rightarrow> nat \<Rightarrow> nat \<Rightarrow> nat \<Rightarrow> nat \<Rightarrow> MapHandler option" where
  "fuse_pt_create s kf_prev_idx kf_curr_idx lm_ldx0 lm_ldx1 = do {
     kfp \<leftarrow> keyframe_at s kf_prev_idx;
     f0 \<leftarrow> vec_at (stereo_pt (stereo_frame kfp)) lm_ldx0;
     case f0 of None \<Rightarrow> Some s | Some pf0 \<Rightarrow> do {
       kfc \<leftarrow> keyframe_at s kf_curr_idx;
       f1 \<leftarrow> vec_at (stereo_pt (stereo_frame kfc)) lm_ldx1;
       case f1 of None \<Rightarrow> Some s | Some pf1 \<Rightarrow> do {
         s1 \<leftarrow> set_stereo_pt_idx s kf_prev_idx lm_ldx0 (max_pt_idx s);
         s2 \<leftarrow> set_stereo_pt_idx s1 kf_curr_idx lm_ldx1 (max_pt_idx s);
         desc0 \<leftarrow> vec_at (pdesc_l (stereo_frame kfp)) lm_ldx0;
         anchored \<leftarrow> map_points_kf_idx s2 kf_prev_idx;
         desc1 \<leftarrow> vec_at (pdesc_l (stereo_frame kfc)) lm_ldx1;
         g \<leftarrow> graph_inc (full_graph s2) kf_prev_idx kf_curr_idx;
         let P3d = transform_point (T_kf_w kfp) (pt_P pf0);
             map_point = new_MapPoint (max_pt_idx s) P3d desc0 (kf_idx kfp) (pt_pl pf0) (normalized P3d);
             P3d' = transform_point (T_kf_w kfc) (pt_P pf1);
             map_point' = addMapPointObservation map_point desc1 (kf_idx kfc) (pt_pl pf1) (normalized P3d')
         in Some (s2\<lparr>map_points := map_points s2 @ [Some map_point'],
                     map_points_kf_idx := (map_points_kf_idx s2)(kf_prev_idx \<mapsto> anchored @ [max_pt_idx s]),
                     max_pt_idx := max_pt_idx s + 1,
                     full_graph := g\<rparr>)
       }
     }
   }"

text \<open>Lines 5620-5639, the loop over the observations of the later landmark \<open>B\<close>
  (\<^verbatim>\<open>map_points[lm_idx1]\<close>): entry \<^verbatim>\<open>iter\<close> of each list of \<open>B\<close> is pushed onto the list
  of \<open>A\<close> (\<^verbatim>\<open>map_points[lm_idx0]\<close>), and the matrix is incremented between the keyframe
  of that entry and each of the first \<^verbatim>\<open>Nobs_lm_prev\<close> observers of \<open>A\<close>.\<close>

fun fuse_pt_loop :: "MapPoint \<Rightarrow> MapPoint \<Rightarrow> nat \<Rightarrow> graph \<Rightarrow> nat list \<Rightarrow> (MapPoint \<times> graph) option" where
  "fuse_pt_loop A B Nobs_lm_prev g [] = Some (A, g)"
| "fuse_pt_loop A B Nobs_lm_prev g (iter # rest) = do {
     desc \<leftarrow> vec_at (mp_desc_list B) iter;
     obs \<leftarrow> vec_at (mp_obs_list B) iter;
     dir \<leftarrow> vec_at (mp_dir_list B) iter;
     jdx \<leftarrow> vec_at (mp_kf_obs_list B) iter;
     let A1 = A\<lparr>mp_desc_list := mp_desc_list A @ [desc], mp_obs_list := mp_obs_list A @ [obs],
                 mp_dir_list := mp_dir_list A @ [dir], mp_kf_obs_list := mp_kf_obs_list A @ [jdx]\<rparr>
     in do {
       g' \<leftarrow> inc_each g (take Nobs_lm_prev (mp_kf_obs_list A1)) jdx;
       fuse_pt_loop A1 B Nobs_lm_prev g' rest
     }
   }"

text \<open>Lines 5612-5655: both features have a landmark. The test of line 5612 does not
  compare the two indices; when they are equal and the landmark has observations, the loop
  pushes onto the vector it iterates over, which has no defined result. After the loop the
  later landmark is removed from the list of the keyframe that anchors it
  (\<^verbatim>\<open>map_points_kf_idx.at(kf_obs_list[0])\<close>) and its slot is set to \<^verbatim>\<open>nullptr\<close>.\<close>

definition fuse_pt_merge :: "MapHandler \<Rightarrow> nat \<Rightarrow> int \<Rightarrow> int \<Rightarrow> nat \<Rightarrow> MapHandler option" where
  "fuse_pt_merge s kf_curr_idx lm_idx0 lm_idx1 lm_ldx1 = do {
     m0 \<leftarrow> idx_at (map_points s) lm_idx0;
     case m0 of None \<Rightarrow> Some s | Some A \<Rightarrow> do {
       m1 \<leftarrow> idx_at (map_points s) lm_idx1;
       case m1 of None \<Rightarrow> Some s | Some B \<Rightarrow> do {
         kfc \<leftarrow> keyframe_at s kf_curr_idx;
         f1 \<leftarrow> vec_at (stereo_pt (stereo_frame kfc)) lm_ldx1;
         case f1 of None \<Rightarrow> Some s | Some pf1 \<Rightarrow>
           if lm_idx0 = lm_idx1 \<and> mp_desc_list B \<noteq> [] then None
           else do {
             (A', g) \<leftarrow> fuse_pt_loop A B (length (mp_kf_obs_list A)) (full_graph s)
                          [0..<length (mp_desc_list B)];
             s1 \<leftarrow> (if mp_desc_list B = [] then Some s
                    else set_stereo_pt_idx s kf_curr_idx lm_ldx1 lm_idx0);
             kf_lm_obs \<leftarrow> vec_at (mp_kf_obs_list B) 0;
             anchored \<leftarrow> map_points_kf_idx s1 kf_lm_obs;
             Some (s1\<lparr>map_points := (map_points s1)[nat lm_idx0 := Some A', nat lm_idx1 := None],
                      map_points_kf_idx := (map_points_kf_idx s1)(kf_lm_obs \<mapsto> remove1 lm_idx1 anchored),
                      full_graph := g\<rparr>)
           }
       }
     }
   }"

text \<open>Lines 5544-5656, the body of the loop over the correspondences of one edge: four
  \<^verbatim>\<open>if\<close> statements in sequence over the same four local indices.\<close>

definition fuse_pt_match :: "MapHandler \<Rightarrow> nat \<Rightarrow> nat \<Rightarrow> Vector4i \<Rightarrow> MapHandler option" where
  "fuse_pt_match s kf_prev_idx kf_curr_idx lm =
     (case lm of (lm_idx0, lm_ldx0, lm_idx1, lm_ldx1) \<Rightarrow> do {
        s1 \<leftarrow> (if lm_idx0 = - 1 \<and> lm_idx1 \<noteq> - 1
               then fuse_pt_attach_prev s kf_prev_idx kf_curr_idx lm_ldx0 lm_idx1 else Some s);
        s2 \<leftarrow> (if lm_idx0 \<noteq> - 1 \<and> lm_idx1 = - 1
               then fuse_pt_attach_curr s1 kf_prev_idx kf_curr_idx lm_idx0 lm_ldx1 else Some s1);
        s3 \<leftarrow> (if lm_idx0 = - 1 \<and> lm_idx1 = - 1
               then fuse_pt_create s2 kf_prev_idx kf_curr_idx lm_ldx0 lm_ldx1 else Some s2);
        (if lm_idx0 \<noteq> - 1 \<and> lm_idx1 \<noteq> - 1
         then fuse_pt_merge s3 kf_curr_idx lm_idx0 lm_idx1 lm_ldx1 else Some s3)
      })"

fun fuse_pt_matches :: "MapHandler \<Rightarrow> nat \<Rightarrow> nat \<Rightarrow> Vector4i list \<Rightarrow> MapHandler option" where
  "fuse_pt_matches s kf_prev_idx kf_curr_idx [] = Some s"
| "fuse_pt_matches s kf_prev_idx kf_curr_idx (lm # rest) = do {
     s' \<leftarrow> fuse_pt_match s kf_prev_idx kf_curr_idx lm;
     fuse_pt_matches s' kf_prev_idx kf_curr_idx rest
   }"

text \<open>Lines 5537-5658, the loop over \<^verbatim>\<open>lc_pt_idxs\<close> with the running index
  \<^verbatim>\<open>lc_idx\<close>: an edge is fused only \<^verbatim>\<open>if( lc_idx_list[lc_idx](2) == 1 )\<close>.\<close>

fun fuse_pt_edges :: "MapHandler \<Rightarrow> nat \<Rightarrow> Vector4i list list \<Rightarrow> MapHandler option" where
  "fuse_pt_edges s lc_idx [] = Some s"
| "fuse_pt_edges s lc_idx (idxs # rest) = do {
     e \<leftarrow> vec_at (lc_idx_list s) lc_idx;
     s' \<leftarrow> (case e of (kf_prev_idx, kf_curr_idx, unoptimized) \<Rightarrow>
             if unoptimized = 1 then fuse_pt_matches s kf_prev_idx kf_curr_idx idxs else Some s);
     fuse_pt_edges s' (Suc lc_idx) rest
   }"

section \<open>Loop-closure landmark fusion: line correspondences\<close>

definition vec_add :: "vec \<Rightarrow> vec \<Rightarrow> vec" where
  "vec_add a b = map2 (+) a b"

definition vec_scale :: "real \<Rightarrow> vec \<Rightarrow> vec" where
  "vec_scale c a = map (\<lambda>x. c * x) a"

text \<open>Lines 5676-5697.\<close>

definition fuse_ls_attach_prev :: "MapHandler \<Rightarrow> nat \<Rightarrow> nat \<Rightarrow> nat \<Rightarrow> int \<Rightarrow> MapHandler option" where
  "fuse_ls_attach_prev s kf_prev_idx kf_curr_idx lm_ldx0 lm_idx1 = do {
     kfp \<leftarrow> keyframe_at s kf_prev_idx;
     f0 \<leftarrow> vec_at (stereo_ls (stereo_frame kfp)) lm_ldx0;
     case f0 of None \<Rightarrow> Some s | Some lf \<Rightarrow> do {
       m1 \<leftarrow> idx_at (map_lines s) lm_idx1;
       case m1 of None \<Rightarrow> Some s | Some ml \<Rightarrow> do {
         s1 \<leftarrow> set_stereo_ls_idx s kf_prev_idx lm_ldx0 lm_idx1;
         desc \<leftarrow> vec_at (ldesc_l (stereo_frame kfp)) lm_ldx0;
         let dir = normalized (vec_add (ls_sP lf) (ls_eP lf));
             pts = ls_spl_obs lf @ ls_epl_obs lf;
             ml' = addMapLineObservation ml desc (kf_idx kfp) (ls_le lf) dir pts
         in do {
           g \<leftarrow> inc_each (full_graph s1) (ml_kf_obs_list ml') kf_curr_idx;
           Some (s1\<lparr>map_lines := (map_lines s1)[nat lm_idx1 := Some ml'], full_graph := g\<rparr>)
         }
       }
     }
   }"

text \<open>Lines 5698-5718.\<close>

definition fuse_ls_attach_curr :: "MapHandler \<Rightarrow> nat \<Rightarrow> nat \<Rightarrow> int \<Rightarrow> nat \<Rightarrow> MapHandler option" where
  "fuse_ls_attach_curr s kf_prev_idx kf_curr_idx lm_idx0 lm_ldx1 = do {
     kfc \<leftarrow> keyframe_at s kf_curr_idx;
     f1 \<leftarrow> vec_at (stereo_ls (stereo_frame kfc)) lm_ldx1;
     case f1 of None \<Rightarrow> Some s | Some lf \<Rightarrow> do {
       m0 \<leftarrow> idx_at (map_lines s) lm_idx0;
       case m0 of None \<Rightarrow> Some s | Some ml \<Rightarrow> do {
         s1 \<leftarrow> set_stereo_ls_idx s kf_curr_idx lm_ldx1 lm_idx0;
         desc \<leftarrow> vec_at (ldesc_l (stereo_frame kfc)) lm_ldx1;
         let dir = normalized (vec_add (ls_sP lf) (ls_eP lf));
             pts = ls_spl_obs lf @ ls_epl_obs lf;
             ml' = addMapLineObservation ml desc (kf_idx kfc) (ls_le lf) dir pts
         in do {
           g \<leftarrow> inc_each (full_graph s1) (ml_kf_obs_list ml') kf_prev_idx;
           Some (s1\<lparr>map_lines := (map_lines s1)[nat lm_idx0 := Some ml'], full_graph := g\<rparr>)
         }
       }
     }
   }"

text \<open>Lines 5720-5757. Line 5747 takes the second endpoint of the later observation from
  \<^verbatim>\<open>map_keyframes[kf_prev_idx]->stereo_frame->stereo_ls[lm_ldx1]\<close>, which the source
  dereferences without a test.\<close>

definition fuse_ls_create :: "MapHandler \<Rightarrow> nat \<Rightarrow> nat \<Rightarrow> nat \<Rightarrow> nat \<Rightarrow> MapHandler option" where
  "fuse_ls_create s kf_prev_idx kf_curr_idx lm_ldx0 lm_ldx1 = do {
     kfp \<leftarrow> keyframe_at s kf_prev_idx;
     f0 \<leftarrow> vec_at (stereo_ls (stereo_frame kfp)) lm_ldx0;
     case f0 of None \<Rightarrow> Some s | Some lf0 \<Rightarrow> do {
       kfc \<leftarrow> keyframe_at s kf_curr_idx;
       f1 \<leftarrow> vec_at (stereo_ls (stereo_frame kfc)) lm_ldx1;
       case f1 of None \<Rightarrow> Some s | Some lf1 \<Rightarrow> do {
         s1 \<leftarrow> set_stereo_ls_idx s kf_prev_idx lm_ldx0 (max_ls_idx s);
         s2 \<leftarrow> set_stereo_ls_idx s1 kf_curr_idx lm_ldx1 (max_ls_idx s);
         desc0 \<leftarrow> vec_at (ldesc_l (stereo_frame kfp)) lm_ldx0;
         anchored \<leftarrow> map_lines_kf_idx s2 kf_prev_idx;
         other \<leftarrow> vec_at (stereo_ls (stereo_frame kfp)) lm_ldx1;
         lfx \<leftarrow> other;
         desc1 \<leftarrow> vec_at (ldesc_l (stereo_frame kfc)) lm_ldx1;
         g \<leftarrow> graph_inc (full_graph s2) kf_prev_idx kf_curr_idx;
         let sP3d = transform_point (T_kf_w kfp) (ls_sP lf0);
             eP3d = transform_point (T_kf_w kfp) (ls_eP lf0);
             mP3d = vec_scale (1 / 2) (vec_add sP3d eP3d);
             map_line = new_MapLine (max_ls_idx s) (sP3d @ eP3d) desc0 (kf_idx kfp) (ls_le lf0)
                          (normalized mP3d) (ls_spl lf0 @ ls_epl lf0);
             sP3d' = transform_point (T_kf_w kfc) (ls_sP lf1);
             eP3d' = transform_point (T_kf_w kfc) (ls_eP lf1);
             mP3d' = vec_scale (1 / 2) (vec_add sP3d' eP3d');
             map_line' = addMapLineObservation map_line desc1 (kf_idx kfc) (ls_le lf1)
                           (normalized mP3d') (ls_spl lf1 @ ls_epl lfx)
         in Some (s2\<lparr>map_lines := map_lines s2 @ [Some map_line'],
                     map_lines_kf_idx := (map_lines_kf_idx s2)(kf_prev_idx \<mapsto> anchored @ [max_ls_idx s]),
                     max_ls_idx := max_ls_idx s + 1,
                     full_graph := g\<rparr>)
       }
     }
   }"

text \<open>Lines 5767-5787.\<close>

fun fuse_ls_loop :: "MapLine \<Rightarrow> MapLine \<Rightarrow> nat \<Rightarrow> graph \<Rightarrow> nat list \<Rightarrow> (MapLine \<times> graph) option" where
  "fuse_ls_loop A B Nobs_lm_prev g [] = Some (A, g)"
| "fuse_ls_loop A B Nobs_lm_prev g (iter # rest) = do {
     desc \<leftarrow> vec_at (ml_desc_list B) iter;
     obs \<leftarrow> vec_at (ml_obs_list B) iter;
     dir \<leftarrow> vec_at (ml_dir_list B) iter;
     pts \<leftarrow> vec_at (ml_pts_list B) iter;
     jdx \<leftarrow> vec_at (ml_kf_obs_list B) iter;
     let A1 = A\<lparr>ml_desc_list := ml_desc_list A @ [desc], ml_obs_list := ml_obs_list A @ [obs],
                 ml_pts_list := ml_pts_list A @ [pts], ml_dir_list := ml_dir_list A @ [dir],
                 ml_kf_obs_list := ml_kf_obs_list A @ [jdx]\<rparr>
     in do {
       g' \<leftarrow> inc_each g (take Nobs_lm_prev (ml_kf_obs_list A1)) jdx;
       fuse_ls_loop A1 B Nobs_lm_prev g' rest
     }
   }"

text \<open>Lines 5759-5803.\<close>

definition fuse_ls_merge :: "MapHandler \<Rightarrow> nat \<Rightarrow> int \<Rightarrow> int \<Rightarrow> nat \<Rightarrow> MapHandler option" where
  "fuse_ls_merge s kf_curr_idx lm_idx0 lm_idx1 lm_ldx1 = do {
     m0 \<leftarrow> idx_at (map_lines s) lm_idx0;
     case m0 of None \<Rightarrow> Some s | Some A \<Rightarrow> do {
       m1 \<leftarrow> idx_at (map_lines s) lm_idx1;
       case m1 of None \<Rightarrow> Some s | Some B \<Rightarrow> do {
         kfc \<leftarrow> keyframe_at s kf_curr_idx;
         f1 \<leftarrow> vec_at (stereo_ls (stereo_frame kfc)) lm_ldx1;
         case f1 of None \<Rightarrow> Some s | Some lf1 \<Rightarrow>
           if lm_idx0 = lm_idx1 \<and> ml_desc_list B \<noteq> [] then None
           else do {
             (A', g) \<leftarrow> fuse_ls_loop A B (length (ml_kf_obs_list A)) (full_graph s)
                          [0..<length (ml_desc_list B)];
             s1 \<leftarrow> (if ml_desc_list B = [] then Some s
                    else set_stereo_ls_idx s kf_curr_idx lm_ldx1 lm_idx0);
             kf_lm_obs \<leftarrow> vec_at (ml_kf_obs_list B) 0;
             anchored \<leftarrow> map_lines_kf_idx s1 kf_lm_obs;
             Some (s1\<lparr>map_lines := (map_lines s1)[nat lm_idx0 := Some A', nat lm_idx1 := None],
                      map_lines_kf_idx := (map_lines_kf_idx s1)(kf_lm_obs \<mapsto> remove1 lm_idx1 anchored),
                      full_graph := g\<rparr>)
           }
       }
     }
   }"

text \<open>Lines 5668-5804.\<close>

definition fuse_ls_match :: "MapHandler \<Rightarrow> nat \<Rightarrow> nat \<Rightarrow> Vector4i \<Rightarrow> MapHandler option" where
  "fuse_ls_match s kf_prev_idx kf_curr_idx lm =
     (case lm of (lm_idx0, lm_ldx0, lm_idx1, lm_ldx1) \<Rightarrow> do {
        s1 \<leftarrow> (if lm_idx0 = - 1 \<and> lm_idx1 \<noteq> - 1
               then fuse_ls_attach_prev s kf_prev_idx kf_curr_idx lm_ldx0 lm_idx1 else Some s);
        s2 \<leftarrow> (if lm_idx0 \<noteq> - 1 \<and> lm_idx1 = - 1
               then fuse_ls_attach_curr s1 kf_prev_idx kf_curr_idx lm_idx0 lm_ldx1 else Some s1);
        s3 \<leftarrow> (if lm_idx0 = - 1 \<and> lm_idx1 = - 1
               then fuse_ls_create s2 kf_prev_idx kf_curr_idx lm_ldx0 lm_ldx1 else Some s2);
        (if lm_idx0 \<noteq> - 1 \<and> lm_idx1 \<noteq> - 1
         then fuse_ls_merge s3 kf_curr_idx lm_idx0 lm_idx1 lm_ldx1 else Some s3)
      })"

fun fuse_ls_matches :: "MapHandler \<Rightarrow> nat \<Rightarrow> nat \<Rightarrow> Vector4i list \<Rightarrow> MapHandler option" where
  "fuse_ls_matches s kf_prev_idx kf_curr_idx [] = Some s"
| "fuse_ls_matches s kf_prev_idx kf_curr_idx (lm # rest) = do {
     s' \<leftarrow> fuse_ls_match s kf_prev_idx kf_curr_idx lm;
     fuse_ls_matches s' kf_prev_idx kf_curr_idx rest
   }"

text \<open>Lines 5661-5806.\<close>

fun fuse_ls_edges :: "MapHandler \<Rightarrow> nat \<Rightarrow> Vector4i list list \<Rightarrow> MapHandler option" where
  "fuse_ls_edges s lc_idx [] = Some s"
| "fuse_ls_edges s lc_idx (idxs # rest) = do {
     e \<leftarrow> vec_at (lc_idx_list s) lc_idx;
     s' \<leftarrow> (case e of (kf_prev_idx, kf_curr_idx, unoptimized) \<Rightarrow>
             if unoptimized = 1 then fuse_ls_matches s kf_prev_idx kf_curr_idx idxs else Some s);
     fuse_ls_edges s' (Suc lc_idx) rest
   }"


section \<open>The end of the pose-graph correction\<close>

text \<open>\<^verbatim>\<open>loopClosureFuseLandmarks\<close>, lines 5533-5808: the point edges, then the line
  edges.\<close>

definition loopClosureFuseLandmarks :: "MapHandler \<Rightarrow> MapHandler option" where
  "loopClosureFuseLandmarks s = do {
     s1 \<leftarrow> fuse_pt_edges s 0 (lc_pt_idxs s);
     fuse_ls_edges s1 0 (lc_ls_idxs s1)
   }"

text \<open>\<^verbatim>\<open>loopClosureOptimizationCovGraphG2O\<close>, lines 5521-5530, and identically
  \<^verbatim>\<open>loopClosureOptimizationEssGraphG2O\<close>, lines 5289-5298. The state is the one the
  pose-graph optimizer and the propagation of the correction (lines 5304-5519) leave: they
  write keyframe poses and landmark coordinates only, and any such state is covered.
  The three statements are

  \<^verbatim>\<open>for( auto it = lc_idx_list.begin(); it != lc_idx_list.end(); it++) (*it)(2) = 0;\<close>
  \<^verbatim>\<open>loopClosureFuseLandmarks();\<close>
  \<^verbatim>\<open>lc_state = LC_IDLE;\<close>\<close>

definition mark_optimized :: "MapHandler \<Rightarrow> MapHandler" where
  "mark_optimized s =
     s\<lparr>lc_idx_list := map (\<lambda>(kf_prev_idx, kf_curr_idx, unoptimized). (kf_prev_idx, kf_curr_idx, 0))
                          (lc_idx_list s)\<rparr>"

definition loopClosureOptimization_finish :: "MapHandler \<Rightarrow> MapHandler option" where
  "loopClosureOptimization_finish s = do {
     s' \<leftarrow> loopClosureFuseLandmarks (mark_optimized s);
     Some (s'\<lparr>lc_state := LC_IDLE\<rparr>)
   }"

text \<open>\<^verbatim>\<open>loopClosure\<close>, lines 4108-4115: the correction runs when the state is
  \<^verbatim>\<open>LC_READY\<close>.\<close>

definition loopClosure_correct :: "MapHandler \<Rightarrow> MapHandler option" where
  "loopClosure_correct s =
     (if lc_state s = LC_READY
      then do { s' \<leftarrow> loopClosureOptimization_finish s; Some (s'\<lparr>lc_state := LC_IDLE\<rparr>) }
      else Some s)"

section \<open>Removal of landmarks and of observations\<close>

text \<open>Lines 3747-3755 (and 2234-2242, where the loop is left by moving the iterator to the
  last element): the first feature of the keyframe that points to landmark \<^verbatim>\<open>lm_idx\<close>
  is reset to \<open>-1\<close>. Every feature visited is dereferenced.\<close>

fun reset_first_pt_idx :: "PointFeature option list \<Rightarrow> int \<Rightarrow> PointFeature option list option" where
  "reset_first_pt_idx [] lm_idx = Some []"
| "reset_first_pt_idx (None # rest) lm_idx = None"
| "reset_first_pt_idx (Some f # rest) lm_idx =
     (if pt_idx f = lm_idx then Some (Some (f\<lparr>pt_idx := - 1\<rparr>) # rest)
      else map_option ((#) (Some f)) (reset_first_pt_idx rest lm_idx))"

fun reset_first_ls_idx :: "LineFeature option list \<Rightarrow> int \<Rightarrow> LineFeature option list option" where
  "reset_first_ls_idx [] lm_idx = Some []"
| "reset_first_ls_idx (None # rest) lm_idx = None"
| "reset_first_ls_idx (Some f # rest) lm_idx =
     (if ls_idx f = lm_idx then Some (Some (f\<lparr>ls_idx := - 1\<rparr>) # rest)
      else map_option ((#) (Some f)) (reset_first_ls_idx rest lm_idx))"

text \<open>\<^verbatim>\<open>removeBadMapLandmarks\<close>, lines 3736-3772, the body for the slot at position
  \<open>i\<close>. \<^verbatim>\<open>SlamConfig::minLMObs()\<close> is declared outside the file and is a parameter. The
  landmark is deleted whole, whatever the number of its observations; no statement of the
  function reads or writes \<^verbatim>\<open>full_graph\<close>.\<close>

definition cull_point :: "nat \<Rightarrow> MapHandler \<Rightarrow> nat \<Rightarrow> MapHandler option" where
  "cull_point minLMObs s i = do {
     slot \<leftarrow> vec_at (map_points s) i;
     case slot of None \<Rightarrow> Some s | Some mp \<Rightarrow>
       if mp_local mp then Some s
       else do {
         kf_obs \<leftarrow> vec_at (mp_kf_obs_list mp) 0;
         if max_kf_idx s - int kf_obs > 10 then
           if \<not> mp_inlier mp \<or> length (mp_obs_list mp) < minLMObs then do {
             kf \<leftarrow> keyframe_at s kf_obs;
             pts \<leftarrow> reset_first_pt_idx (stereo_pt (stereo_frame kf)) (mp_idx mp);
             anchored \<leftarrow> map_points_kf_idx s kf_obs;
             Some (s\<lparr>map_keyframes := (map_keyframes s)
                        [kf_obs := Some (kf\<lparr>stereo_frame := (stereo_frame kf)\<lparr>stereo_pt := pts\<rparr>\<rparr>)],
                     map_points_kf_idx := (map_points_kf_idx s)(kf_obs \<mapsto> remove1 (mp_idx mp) anchored),
                     map_points := (map_points s)[i := None]\<rparr>)
           }
           else Some s
         else Some s
       }
   }"

fun cull_points :: "nat \<Rightarrow> MapHandler \<Rightarrow> nat list \<Rightarrow> MapHandler option" where
  "cull_points minLMObs s [] = Some s"
| "cull_points minLMObs s (i # rest) = do { s' \<leftarrow> cull_point minLMObs s i; cull_points minLMObs s' rest }"

text \<open>Lines 3775-3812, the same for line landmarks.\<close>

definition cull_line :: "nat \<Rightarrow> MapHandler \<Rightarrow> nat \<Rightarrow> MapHandler option" where
  "cull_line minLMObs s i = do {
     slot \<leftarrow> vec_at (map_lines s) i;
     case slot of None \<Rightarrow> Some s | Some ml \<Rightarrow>
       if ml_local ml then Some s
       else do {
         kf_obs \<leftarrow> vec_at (ml_kf_obs_list ml) 0;
         if max_kf_idx s - int kf_obs > 10 then
           if \<not> ml_inlier ml \<or> length (ml_obs_list ml) < minLMObs then do {
             kf \<leftarrow> keyframe_at s kf_obs;
             lss \<leftarrow> reset_first_ls_idx (stereo_ls (stereo_frame kf)) (ml_idx ml);
             anchored \<leftarrow> map_lines_kf_idx s kf_obs;
             Some (s\<lparr>map_keyframes := (map_keyframes s)
                        [kf_obs := Some (kf\<lparr>stereo_frame := (stereo_frame kf)\<lparr>stereo_ls := lss\<rparr>\<rparr>)],
                     map_lines_kf_idx := (map_lines_kf_idx s)(kf_obs \<mapsto> remove1 (ml_idx ml) anchored),
                     map_lines := (map_lines s)[i := None]\<rparr>)
           }
           else Some s
         else Some s
       }
   }"

fun cull_lines :: "nat \<Rightarrow> MapHandler \<Rightarrow> nat list \<Rightarrow> MapHandler option" where
  "cull_lines minLMObs s [] = Some s"
| "cull_lines minLMObs s (i # rest) = do { s' \<leftarrow> cull_line minLMObs s i; cull_lines minLMObs s' rest }"

definition removeBadMapLandmarks :: "nat \<Rightarrow> MapHandler \<Rightarrow> MapHandler option" where
  "removeBadMapLandmarks minLMObs s = do {
     s1 \<leftarrow> cull_points minLMObs s [0..<length (map_points s)];
     cull_lines minLMObs s1 [0..<length (map_lines s1)]
   }"

text \<open>An entry of \<^verbatim>\<open>pt_obs_list\<close> and \<^verbatim>\<open>ls_obs_list\<close> (\<^verbatim>\<open>Vector6i\<close>), by component:
  (0) landmark index, (1) position of the landmark in the local window, (2) position of the
  observation in the landmark's lists, (3) keyframe index, (4) position of the keyframe in
  the local window or \<open>-1\<close>, (5) 1 for an inlier and \<open>-1\<close> for a removal candidate.\<close>

record ObsEntry =
  ob_lm_idx :: int
  ob_lm_local :: nat
  ob_obs :: nat
  ob_kf_idx :: nat
  ob_kf_local :: int
  ob_inlier :: int

text \<open>\<^verbatim>\<open>std::vector::erase(begin() + i)\<close>.\<close>

definition erase_at :: "'a list \<Rightarrow> nat \<Rightarrow> 'a list option" where
  "erase_at xs i = (if i < length xs then Some (take i xs @ drop (Suc i) xs) else None)"

text \<open>The local optimizer's removal of one observation of a point landmark, lines
  2204-2259 (the same statements at 2888-2943): a landmark with more than one observation
  loses the observation, is re-anchored when the observation was its first, and the matrix
  is decremented between the keyframe of the observation and every other remaining
  observer; a landmark with a single observation is flagged non-inlier instead.\<close>

definition remove_pt_observation :: "MapHandler \<Rightarrow> ObsEntry \<Rightarrow> MapHandler option" where
  "remove_pt_observation s ob =
     (if ob_inlier ob \<noteq> - 1 then Some s
      else do {
        slot \<leftarrow> idx_at (map_points s) (ob_lm_idx ob);
        case slot of None \<Rightarrow> Some s | Some mp \<Rightarrow> do {
          kf_obs \<leftarrow> vec_at (mp_kf_obs_list mp) (ob_obs ob);
          if length (mp_obs_list mp) > 1 then do {
            s1 \<leftarrow> (if ob_obs ob = 0 then do {
                     anchored \<leftarrow> map_points_kf_idx s kf_obs;
                     if ob_lm_idx ob \<in> set anchored then do {
                       new_kf_base \<leftarrow> vec_at (mp_kf_obs_list mp) 1;
                       others \<leftarrow> map_points_kf_idx s new_kf_base;
                       Some (s\<lparr>map_points_kf_idx :=
                                 (map_points_kf_idx s)(new_kf_base \<mapsto> others @ [ob_lm_idx ob])\<rparr>)
                     }
                     else Some s
                   }
                   else Some s);
            descs \<leftarrow> erase_at (mp_desc_list mp) (ob_obs ob);
            obss \<leftarrow> erase_at (mp_obs_list mp) (ob_obs ob);
            dirs \<leftarrow> erase_at (mp_dir_list mp) (ob_obs ob);
            kfs \<leftarrow> erase_at (mp_kf_obs_list mp) (ob_obs ob);
            kf \<leftarrow> keyframe_at s1 kf_obs;
            pts \<leftarrow> reset_first_pt_idx (stereo_pt (stereo_frame kf)) (ob_lm_idx ob);
            g \<leftarrow> dec_guarded (full_graph s1) kf_obs kfs;
            Some (s1\<lparr>map_points := (map_points s1)
                        [nat (ob_lm_idx ob) := Some (mp\<lparr>mp_desc_list := descs, mp_obs_list := obss,
                                                          mp_dir_list := dirs, mp_kf_obs_list := kfs\<rparr>)],
                     map_keyframes := (map_keyframes s1)
                        [kf_obs := Some (kf\<lparr>stereo_frame := (stereo_frame kf)\<lparr>stereo_pt := pts\<rparr>\<rparr>)],
                     full_graph := g\<rparr>)
          }
          else Some (s\<lparr>map_points := (map_points s)[nat (ob_lm_idx ob) := Some (mp\<lparr>mp_inlier := False\<rparr>)]\<rparr>)
        }
      })"

text \<open>Lines 2202-2260: the entries are visited from the last to the first.\<close>

fun remove_pt_observations :: "MapHandler \<Rightarrow> ObsEntry list \<Rightarrow> MapHandler option" where
  "remove_pt_observations s [] = Some s"
| "remove_pt_observations s (ob # rest) = do {
     s' \<leftarrow> remove_pt_observation s ob;
     remove_pt_observations s' rest
   }"

definition remove_bad_pt_observations :: "MapHandler \<Rightarrow> ObsEntry list \<Rightarrow> MapHandler option" where
  "remove_bad_pt_observations s pt_obs_list = remove_pt_observations s (rev pt_obs_list)"

section \<open>The local optimizer\<close>

text \<open>\<^verbatim>\<open>levMarquardtOptimizationLBAForPluker\<close> (lines 1618-2332) and
  \<^verbatim>\<open>levMarquardtOptimizationLBA\<close> (lines 2334-3016). The values of \<^verbatim>\<open>SlamConfig\<close> and
  \<^verbatim>\<open>Config\<close>, the maps \<^verbatim>\<open>expmap_se3\<close>, \<^verbatim>\<open>logmap_se3\<close>, \<^verbatim>\<open>inverse_se3\<close> and the
  static functions of \<^verbatim>\<open>MapLine\<close> are declared outside the file and are parameters.
  The evaluation of the residuals and the sparse solve are numerical routines; they enter
  as the functions that give the error of an observation, the normalized error at a
  parameter vector and the step for a parameter vector and a damping factor.\<close>

record LMConfig =
  lambdaLbaK :: real
  minErrorChange :: real
  minError :: real

record SE3_ops =
  expmap_se3 :: "vec \<Rightarrow> mat"
  logmap_se3 :: "mat \<Rightarrow> vec"
  inverse_se3 :: "mat \<Rightarrow> mat"

subsection \<open>The error sum and its normalization\<close>

text \<open>Lines 1634-1849. The declarations \<^verbatim>\<open>int Npt = 0, Npt_obs = 0;\<close> and
  \<^verbatim>\<open>int Nls = 0, Nls_obs = 0;\<close> are the only statements that write the two observation
  counters; the loops over the observations add to \<^verbatim>\<open>err\<close> (and to \<^verbatim>\<open>g\<close> and \<^verbatim>\<open>H\<close>)
  for every observation whose landmark and keyframe are not null. \<open>res ob\<close> is the
  weighted squared error of such an observation, and \<open>None\<close> for a skipped one.\<close>

record LMSums =
  err :: real
  Npt_obs :: int
  Nls_obs :: int

definition add_residual :: "(ObsEntry \<Rightarrow> real option) \<Rightarrow> LMSums \<Rightarrow> ObsEntry \<Rightarrow> LMSums" where
  "add_residual res a ob = (case res ob of None \<Rightarrow> a | Some e \<Rightarrow> a\<lparr>err := err a + e\<rparr>)"

definition accumulate ::
  "(ObsEntry \<Rightarrow> real option) \<Rightarrow> (ObsEntry \<Rightarrow> real option) \<Rightarrow> LMSums \<Rightarrow> ObsEntry list \<Rightarrow> ObsEntry list \<Rightarrow> LMSums" where
  "accumulate res_pt res_ls a pt_obs_list ls_obs_list =
     foldl (add_residual res_ls) (foldl (add_residual res_pt) a pt_obs_list) ls_obs_list"

text \<open>The sums before the first solve (lines 1641-1844), and those of an iteration (lines
  1907-2103), which restarts \<^verbatim>\<open>err\<close> at 0 and keeps the counters.\<close>

definition initial_sums ::
  "(ObsEntry \<Rightarrow> real option) \<Rightarrow> (ObsEntry \<Rightarrow> real option) \<Rightarrow> ObsEntry list \<Rightarrow> ObsEntry list \<Rightarrow> LMSums" where
  "initial_sums res_pt res_ls pt_obs_list ls_obs_list =
     accumulate res_pt res_ls \<lparr>err = 0, Npt_obs = 0, Nls_obs = 0\<rparr> pt_obs_list ls_obs_list"

definition iteration_sums ::
  "(ObsEntry \<Rightarrow> real option) \<Rightarrow> (ObsEntry \<Rightarrow> real option) \<Rightarrow> LMSums \<Rightarrow> ObsEntry list \<Rightarrow> ObsEntry list \<Rightarrow> LMSums" where
  "iteration_sums res_pt res_ls a pt_obs_list ls_obs_list =
     accumulate res_pt res_ls (a\<lparr>err := 0\<rparr>) pt_obs_list ls_obs_list"

text \<open>\<^verbatim>\<open>err /= (Npt_obs+Nls_obs);\<close> at lines 1849 and 2108: the divisor, and the quotient
  when the divisor is not zero.\<close>

definition divisor :: "LMSums \<Rightarrow> int" where
  "divisor a = Npt_obs a + Nls_obs a"

definition normalize_err :: "LMSums \<Rightarrow> real option" where
  "normalize_err a = (if divisor a = 0 then None else Some (err a / real_of_int (divisor a)))"

text \<open>\<^verbatim>\<open>localBundleAdjustmentForPluker\<close>, lines 1609-1614, calls the solver only
  \<^verbatim>\<open>if( pt_obs_list.size() + ls_obs_list.size() != 0 )\<close>.\<close>

definition solver_precondition :: "ObsEntry list \<Rightarrow> ObsEntry list \<Rightarrow> bool" where
  "solver_precondition pt_obs_list ls_obs_list \<longleftrightarrow> length pt_obs_list + length ls_obs_list \<noteq> 0"

subsection \<open>The step\<close>

text \<open>\<^verbatim>\<open>X.block(i,0,n,1)\<close> read and written; the callers build \<open>X\<close> and \<open>DX\<close> with
  \<open>6*Nkf + 3*Npt\<close> entries followed by the line blocks, so the blocks lie inside.\<close>

definition block :: "vec \<Rightarrow> nat \<Rightarrow> nat \<Rightarrow> vec" where
  "block v i n = take n (drop i v)"

definition set_block :: "vec \<Rightarrow> nat \<Rightarrow> vec \<Rightarrow> vec" where
  "set_block v i b = take i v @ b @ drop (i + length b) v"

definition mat_mul :: "mat \<Rightarrow> mat \<Rightarrow> mat" where
  "mat_mul A B = map (\<lambda>i. map (\<lambda>j. sum_list (map (\<lambda>k. A ! i ! k * B ! k ! j) [0..<4])) [0..<4]) [0..<4]"

text \<open>Lines 2131-2133:
  \<^verbatim>\<open>Tprev = expmap_se3(X.block(6*i,0,6,1)); Tcurr = Tprev * inverse_se3(expmap_se3(DX.block(6*i,0,6,1))); X.block(6*i,0,6,1) = logmap_se3(Tcurr);\<close>\<close>

definition pose_compose :: "SE3_ops \<Rightarrow> vec \<Rightarrow> vec \<Rightarrow> vec" where
  "pose_compose ops x dx =
     logmap_se3 ops (mat_mul (expmap_se3 ops x) (inverse_se3 ops (expmap_se3 ops dx)))"

fun update_KFs :: "SE3_ops \<Rightarrow> vec \<Rightarrow> vec \<Rightarrow> nat list \<Rightarrow> vec" where
  "update_KFs ops xs dxs [] = xs"
| "update_KFs ops xs dxs (i # rest) =
     update_KFs ops (set_block xs (6 * i) (pose_compose ops (block xs (6 * i) 6) (block dxs (6 * i) 6)))
       dxs rest"

text \<open>Lines 2136-2137 and 2830-2831: \<^verbatim>\<open>for (i = a; i < b; i++) X(i) += DX(i);\<close>\<close>

fun add_entries :: "vec \<Rightarrow> vec \<Rightarrow> nat list \<Rightarrow> vec" where
  "add_entries xs dxs [] = xs"
| "add_entries xs dxs (i # rest) = add_entries (xs[i := xs ! i + dxs ! i]) dxs rest"

text \<open>Lines 2139-2150: the orthonormal line blocks, four entries each, are replaced by
  \<^verbatim>\<open>updateOrthCoord(D, deltaD, plusD)\<close>.\<close>

fun update_orth_blocks :: "(vec \<Rightarrow> vec \<Rightarrow> vec) \<Rightarrow> vec \<Rightarrow> vec \<Rightarrow> nat list \<Rightarrow> vec" where
  "update_orth_blocks updateOrthCoord xs dxs [] = xs"
| "update_orth_blocks updateOrthCoord xs dxs (i # rest) =
     update_orth_blocks updateOrthCoord
       (set_block xs i (take 4 (updateOrthCoord (block xs i 4) (block dxs i 4)))) dxs rest"

text \<open>The two representations of a line landmark in the parameter vector: its two
  endpoints (six entries, \<^verbatim>\<open>levMarquardtOptimizationLBA\<close>) or its orthonormal
  parameters (four entries, \<^verbatim>\<open>levMarquardtOptimizationLBAForPluker\<close>).\<close>

datatype LineModel = Endpoints | Orthonormal "vec \<Rightarrow> vec \<Rightarrow> vec"

fun line_starts :: "nat \<Rightarrow> nat \<Rightarrow> nat \<Rightarrow> nat list" where
  "line_starts 0 i N = []"
| "line_starts (Suc fuel) i N = (if i < N then i # line_starts fuel (i + 4) N else [])"

definition apply_step :: "SE3_ops \<Rightarrow> LineModel \<Rightarrow> nat \<Rightarrow> nat \<Rightarrow> vec \<Rightarrow> vec \<Rightarrow> vec" where
  "apply_step ops lines Nkf Npt xs dxs =
     (let x1 = update_KFs ops xs dxs [0..<Nkf];
          x2 = add_entries x1 dxs [6 * Nkf..<6 * Nkf + 3 * Npt]
      in case lines of
           Endpoints \<Rightarrow> add_entries x2 dxs [6 * Nkf + 3 * Npt..<length xs]
         | Orthonormal updateOrthCoord \<Rightarrow>
             update_orth_blocks updateOrthCoord x2 dxs
               (line_starts (length xs) (6 * Nkf + 3 * Npt) (length xs)))"

subsection \<open>The normalized error\<close>

text \<open>\<^verbatim>\<open>err /= (Npt_obs+Nls_obs);\<close> (lines 1849 and 2108, and line 2551 of
  \<^verbatim>\<open>levMarquardtOptimizationLBA\<close>, whose lines 2350-2551 repeat 1634-1849) as the
  division of doubles that it is.\<close>

definition normalized_error :: "LMSums \<Rightarrow> double" where
  "normalized_error a = double_div (err a) (divisor a)"

text \<open>The error that enters the loop as \<^verbatim>\<open>err_prev\<close> (line 1895, and line 2589), and the
  error of an iteration of \<^verbatim>\<open>levMarquardtOptimizationLBAForPluker\<close> (lines 1907-2108), at
  the parameters \<open>X\<close>. The residual of an observation depends on \<open>X\<close>.\<close>

definition error_before_loop ::
  "(vec \<Rightarrow> ObsEntry \<Rightarrow> real option) \<Rightarrow> (vec \<Rightarrow> ObsEntry \<Rightarrow> real option) \<Rightarrow> ObsEntry list \<Rightarrow> ObsEntry list \<Rightarrow> vec \<Rightarrow> double" where
  "error_before_loop res_pt res_ls pt_obs_list ls_obs_list X =
     normalized_error (initial_sums (res_pt X) (res_ls X) pt_obs_list ls_obs_list)"

definition error_ForPluker ::
  "(vec \<Rightarrow> ObsEntry \<Rightarrow> real option) \<Rightarrow> (vec \<Rightarrow> ObsEntry \<Rightarrow> real option) \<Rightarrow> ObsEntry list \<Rightarrow> ObsEntry list \<Rightarrow> LMSums \<Rightarrow> vec \<Rightarrow> double" where
  "error_ForPluker res_pt res_ls pt_obs_list ls_obs_list a X =
     normalized_error (iteration_sums (res_pt X) (res_ls X) a pt_obs_list ls_obs_list)"

text \<open>\<^verbatim>\<open>levMarquardtOptimizationLBA\<close> divides the error of an iteration by the sizes of
  the window instead, line 2796: \<^verbatim>\<open>err /= (Npt+Nls);\<close>, which lines 2358-2360 and
  2440-2442 read from the last entry of each list:
  \<^verbatim>\<open>if( pt_obs_list.size() != 0 ) Npt = pt_obs_list.back()(1)+1;\<close>\<close>

definition window_size :: "ObsEntry list \<Rightarrow> int" where
  "window_size obs_list = (if obs_list = [] then 0 else int (ob_lm_local (last obs_list)) + 1)"

definition error_LBA ::
  "(vec \<Rightarrow> ObsEntry \<Rightarrow> real option) \<Rightarrow> (vec \<Rightarrow> ObsEntry \<Rightarrow> real option) \<Rightarrow> ObsEntry list \<Rightarrow> ObsEntry list \<Rightarrow> LMSums \<Rightarrow> vec \<Rightarrow> double" where
  "error_LBA res_pt res_ls pt_obs_list ls_obs_list a X =
     double_div (err (iteration_sums (res_pt X) (res_ls X) a pt_obs_list ls_obs_list))
       (window_size pt_obs_list + window_size ls_obs_list)"

subsection \<open>The loop\<close>

text \<open>The state of the loop at lines 1901-2158 and 2594-2839.\<close>

record LMState =
  lm_X :: vec
  lm_lambda :: real
  lm_err_prev :: double

text \<open>Lines 1851-1895 and 2553-2589, before the loop: the damping is scaled by the largest
  absolute diagonal entry \<^verbatim>\<open>Hmax\<close> of the system, the first step is solved and applied
  without a test, and \<^verbatim>\<open>err_prev = err;\<close>. \<open>solve\<close> gives the step \<^verbatim>\<open>DX\<close> of the system
  built at the parameters and damped with \<^verbatim>\<open>lambda\<close>; the sparse solver is declared
  outside the file.\<close>

definition lm_start ::
  "real \<Rightarrow> real \<Rightarrow> (vec \<Rightarrow> double) \<Rightarrow> (vec \<Rightarrow> real \<Rightarrow> vec) \<Rightarrow> (vec \<Rightarrow> vec \<Rightarrow> vec) \<Rightarrow> vec \<Rightarrow> LMState" where
  "lm_start lambdaLbaLM Hmax error_at solve step X =
     (let e = error_at X;
          lambda = lambdaLbaLM * Hmax;
          DX = solve X lambda
      in \<lparr>lm_X = step X DX, lm_lambda = lambda, lm_err_prev = e\<rparr>)"

datatype 'a flow = Break 'a | Continue 'a

text \<open>The body of the loop after the sums: \<open>error_at\<close> gives the normalized error at the
  parameters.

  \<^verbatim>\<open>if( abs(err-err_prev) < Config::minErrorChange() || err < Config::minError() ) break;\<close>
  \<^verbatim>\<open>... DX = solver1.solve( g );\<close>
  \<^verbatim>\<open>if( err > err_prev ){ lambda /= lambda_k; } else { lambda *= lambda_k; (update of X) }\<close>
  \<^verbatim>\<open>if( DX.norm() < Config::minErrorChange() ) break;\<close>
  \<^verbatim>\<open>err_prev = err;\<close>\<close>

definition lm_iteration ::
  "LMConfig \<Rightarrow> (vec \<Rightarrow> double) \<Rightarrow> (vec \<Rightarrow> real \<Rightarrow> vec) \<Rightarrow> (vec \<Rightarrow> vec \<Rightarrow> vec) \<Rightarrow> LMState \<Rightarrow> LMState flow" where
  "lm_iteration cfg error_at solve step st =
     (let e = error_at (lm_X st) in
      if double_less (double_abs (double_sub e (lm_err_prev st))) (Finite (minErrorChange cfg)) \<or>
         double_less e (Finite (minError cfg))
      then Break st
      else
        let DX = solve (lm_X st) (lm_lambda st);
            st1 = (if double_less (lm_err_prev st) e
                   then st\<lparr>lm_lambda := lm_lambda st / lambdaLbaK cfg\<rparr>
                   else st\<lparr>lm_lambda := lm_lambda st * lambdaLbaK cfg,
                           lm_X := step (lm_X st) DX\<rparr>)
        in if norm_vec DX < minErrorChange cfg then Break st1
           else Continue (st1\<lparr>lm_err_prev := e\<rparr>))"

text \<open>\<^verbatim>\<open>for( iters = 1; iters < max_iters; iters++)\<close>: at most \<open>n\<close> iterations.\<close>

fun lm_loop ::
  "LMConfig \<Rightarrow> (vec \<Rightarrow> double) \<Rightarrow> (vec \<Rightarrow> real \<Rightarrow> vec) \<Rightarrow> (vec \<Rightarrow> vec \<Rightarrow> vec) \<Rightarrow> nat \<Rightarrow> LMState \<Rightarrow> LMState" where
  "lm_loop cfg error_at solve step 0 st = st"
| "lm_loop cfg error_at solve step (Suc n) st =
     (case lm_iteration cfg error_at solve step st of
        Break st' \<Rightarrow> st'
      | Continue st' \<Rightarrow> lm_loop cfg error_at solve step n st')"

text \<open>The state an iteration leaves, whether it ends the loop or not.\<close>

fun flow_state :: "'a flow \<Rightarrow> 'a" where
  "flow_state (Break a) = a"
| "flow_state (Continue a) = a"

text \<open>The iteration went past the convergence test of its first statement.\<close>

definition past_convergence_test :: "LMConfig \<Rightarrow> double \<Rightarrow> LMState \<Rightarrow> bool" where
  "past_convergence_test cfg e st \<longleftrightarrow>
     \<not> (double_less (double_abs (double_sub e (lm_err_prev st))) (Finite (minErrorChange cfg)) \<or>
        double_less e (Finite (minError cfg)))"


definition levMarquardtOptimizationLBA_loop ::
  "LMConfig \<Rightarrow> real \<Rightarrow> real \<Rightarrow> nat \<Rightarrow> (vec \<Rightarrow> ObsEntry \<Rightarrow> real option) \<Rightarrow> (vec \<Rightarrow> ObsEntry \<Rightarrow> real option) \<Rightarrow> (vec \<Rightarrow> real \<Rightarrow> vec) \<Rightarrow> SE3_ops \<Rightarrow> nat \<Rightarrow> ObsEntry list \<Rightarrow> ObsEntry list \<Rightarrow> vec \<Rightarrow> LMState" where
  "levMarquardtOptimizationLBA_loop cfg lambdaLbaLM Hmax max_iters res_pt res_ls solve ops
       Nkf pt_obs_list ls_obs_list X =
     (let a = initial_sums (res_pt X) (res_ls X) pt_obs_list ls_obs_list;
          step = apply_step ops Endpoints Nkf (nat (window_size pt_obs_list));
          st = lm_start lambdaLbaLM Hmax (error_before_loop res_pt res_ls pt_obs_list ls_obs_list)
                 solve step X
      in lm_loop cfg (error_LBA res_pt res_ls pt_obs_list ls_obs_list a) solve step
           (max_iters - 1) st)"

subsection \<open>Publishing the result\<close>

definition vec_sub :: "vec \<Rightarrow> vec \<Rightarrow> vec" where
  "vec_sub a b = map2 (-) a b"

text \<open>\<^verbatim>\<open>levMarquardtOptimizationLBAForPluker\<close>, lines 2187-2198, for the line landmark at
  position \<open>i\<close> of the local window:

  \<^verbatim>\<open>Vector4d DX = X.block(6*Nkf+3*Npt+4*i,0,4,1) - map_lines[ ls_list[i] ]->orthNDw;\<close>
  \<^verbatim>\<open>if( DX.norm() > 0.01 ) map_lines[ ls_list[i] ]->inlier = false;\<close>
  \<^verbatim>\<open>Vector6d newPluker = MapLine::changeOrthToPluker(DX);\<close>
  \<^verbatim>\<open>map_lines[ ls_list[i] ]->NDw = newPluker;\<close>\<close>

definition publish_line :: "(vec \<Rightarrow> vec) \<Rightarrow> vec \<Rightarrow> nat \<Rightarrow> nat \<Rightarrow> int list \<Rightarrow> MapLine option list \<Rightarrow> nat \<Rightarrow> MapLine option list option" where
  "publish_line changeOrthToPluker xs Nkf Npt ls_list lines i = do {
     lm \<leftarrow> vec_at ls_list i;
     slot \<leftarrow> idx_at lines lm;
     ml \<leftarrow> slot;
     let DX = vec_sub (block xs (6 * Nkf + 3 * Npt + 4 * i) 4) (orthNDw ml);
         ml1 = (if norm_vec DX > 1 / 100 then ml\<lparr>ml_inlier := False\<rparr> else ml);
         newPluker = changeOrthToPluker DX
     in Some (lines[nat lm := Some (ml1\<lparr>NDw := newPluker\<rparr>)])
   }"

fun publish_lines :: "(vec \<Rightarrow> vec) \<Rightarrow> vec \<Rightarrow> nat \<Rightarrow> nat \<Rightarrow> int list \<Rightarrow> MapLine option list \<Rightarrow> nat list \<Rightarrow> MapLine option list option" where
  "publish_lines changeOrthToPluker xs Nkf Npt ls_list lines [] = Some lines"
| "publish_lines changeOrthToPluker xs Nkf Npt ls_list lines (i # rest) = do {
     lines' \<leftarrow> publish_line changeOrthToPluker xs Nkf Npt ls_list lines i;
     publish_lines changeOrthToPluker xs Nkf Npt ls_list lines' rest
   }"

text \<open>Lines 2174-2185, the point landmark at position \<open>i\<close>: the three entries of \<open>X\<close>
  are stored as they are.\<close>

definition publish_point :: "vec \<Rightarrow> nat \<Rightarrow> int list \<Rightarrow> MapPoint option list \<Rightarrow> nat \<Rightarrow> MapPoint option list option" where
  "publish_point xs Nkf pt_list points i = do {
     lm \<leftarrow> vec_at pt_list i;
     slot \<leftarrow> idx_at points lm;
     mp \<leftarrow> slot;
     let DX = vec_sub (block xs (6 * Nkf + 3 * i) 3) (point3D mp);
         mp1 = (if norm_vec DX > 1 / 100 then mp\<lparr>mp_inlier := False\<rparr> else mp)
     in Some (points[nat lm := Some (mp1\<lparr>point3D := block xs (6 * Nkf + 3 * i) 3\<rparr>)])
   }"

text \<open>The line landmarks after the publication of a window of \<open>Nls\<close> lines.\<close>

definition publish_window_lines :: "(vec \<Rightarrow> vec) \<Rightarrow> vec \<Rightarrow> nat \<Rightarrow> nat \<Rightarrow> nat \<Rightarrow> int list \<Rightarrow> MapLine option list \<Rightarrow> MapLine option list option" where
  "publish_window_lines changeOrthToPluker xs Nkf Npt Nls ls_list lines =
     publish_lines changeOrthToPluker xs Nkf Npt ls_list lines [0..<Nls]"

section \<open>Geometric verification of a loop candidate\<close>

text \<open>\<^verbatim>\<open>computeRelativePoseRobustGN\<close>, lines 4677-5068. The thresholds of \<^verbatim>\<open>SlamConfig\<close>
  are declared outside the file and are parameters.\<close>

record LCConfig =
  lcRes :: real
  lcUnc :: real
  lcInl :: real
  lcTrs :: real
  lcRot :: real
  homogTh :: real

text \<open>The members of a \<^verbatim>\<open>PointFeature\<close> and of a \<^verbatim>\<open>LineFeature\<close> that the function
  reads.\<close>

record LCPoint =
  lcp_inlier :: bool
  lcp_P :: vec
  lcp_pl_obs :: vec

record LCLine =
  lcl_inlier :: bool
  lcl_sP :: vec
  lcl_eP :: vec
  lcl_le_obs :: vec

subsection \<open>The sums of an iteration\<close>

text \<open>The six entries that lines 4888-4893 compute from a point \<open>(gx, gy, gz)\<close> of the
  camera frame, the factor \<^verbatim>\<open>fgz2\<close> and a pair \<open>(a, b)\<close>; lines 4929-4934 and 4942-4947
  compute the same entries.\<close>

definition jacobian_entries :: "real \<Rightarrow> vec \<Rightarrow> real \<Rightarrow> real \<Rightarrow> vec" where
  "jacobian_entries fgz2 g a b =
     (let gx = g ! 0; gy = g ! 1; gz = g ! 2
      in [fgz2 * a * gz,
          fgz2 * b * gz,
          - fgz2 * (gx * a + gy * b),
          - fgz2 * (gx * gy * a + gy * gy * b + gz * gz * b),
          fgz2 * (gx * gx * a + gz * gz * a + gx * gy * b),
          fgz2 * (gx * gz * b - gy * gz * a)])"

text \<open>Lines 4875-4895, for a point correspondence and the pose \<^verbatim>\<open>T_inc\<close>: the norm of
  the projection error and \<^verbatim>\<open>J_aux\<close>.\<close>

definition point_residual :: "LCConfig \<Rightarrow> Camera \<Rightarrow> mat \<Rightarrow> LCPoint \<Rightarrow> real \<times> vec" where
  "point_residual cfg cam T_inc pt =
     (let P' = transform_point T_inc (lcp_P pt);
          pl_proj = projection cam P';
          err_i = [pl_proj ! 0 - lcp_pl_obs pt ! 0, pl_proj ! 1 - lcp_pl_obs pt ! 1];
          err_i_norm = norm_vec err_i;
          gz2 = P' ! 2 * P' ! 2;
          fgz2 = getFx cam / max (homogTh cfg) gz2;
          J_aux = jacobian_entries fgz2 P' (err_i ! 0) (err_i ! 1)
      in (err_i_norm, map (\<lambda>x. x / max (homogTh cfg) err_i_norm) J_aux))"

text \<open>Lines 4910-4950, for a line correspondence.\<close>

definition vec_axpy :: "real \<Rightarrow> vec \<Rightarrow> real \<Rightarrow> vec \<Rightarrow> vec" where
  "vec_axpy a x b y = map2 (\<lambda>u v. u * a + v * b) x y"

definition line_residual :: "LCConfig \<Rightarrow> Camera \<Rightarrow> mat \<Rightarrow> LCLine \<Rightarrow> real \<times> vec" where
  "line_residual cfg cam T_inc ls =
     (let sP' = transform_point T_inc (lcl_sP ls);
          spl_proj = projection cam sP';
          eP' = transform_point T_inc (lcl_eP ls);
          epl_proj = projection cam eP';
          l_obs = lcl_le_obs ls;
          err_i = [l_obs ! 0 * spl_proj ! 0 + l_obs ! 1 * spl_proj ! 1 + l_obs ! 2,
                   l_obs ! 0 * epl_proj ! 0 + l_obs ! 1 * epl_proj ! 1 + l_obs ! 2];
          err_i_norm = norm_vec err_i;
          Js_aux = jacobian_entries (getFx cam / max (homogTh cfg) (sP' ! 2 * sP' ! 2)) sP'
                     (l_obs ! 0) (l_obs ! 1);
          Je_aux = jacobian_entries (getFx cam / max (homogTh cfg) (eP' ! 2 * eP' ! 2)) eP'
                     (l_obs ! 0) (l_obs ! 1);
          J_aux = map (\<lambda>x. x / max (homogTh cfg) err_i_norm)
                    (vec_axpy (err_i ! 0) Js_aux (err_i ! 1) Je_aux)
      in (err_i_norm, J_aux))"

text \<open>\<^verbatim>\<open>H_p += J_aux * J_aux.transpose() * w; g_p += J_aux * err_i_norm * w;\<close>
  \<^verbatim>\<open>e_p += err_i_norm * err_i_norm * w; N_p++;\<close> (lines 4900-4903, and 4959-4962 for the
  lines), from \<^verbatim>\<open>Matrix6d::Zero()\<close>, \<^verbatim>\<open>Vector6d::Zero()\<close>, 0 and 0. Only the
  correspondences whose \<^verbatim>\<open>inlier\<close> flag is set contribute. The weight function
  \<^verbatim>\<open>robustWeightCauchy\<close> is declared outside the file.\<close>

record GNSums =
  gn_H :: mat
  gn_g :: vec
  gn_e :: real
  gn_N :: int

definition outer_product :: "vec \<Rightarrow> real \<Rightarrow> mat" where
  "outer_product J w = map (\<lambda>a. map (\<lambda>b. a * b * w) J) J"

definition mat_add :: "mat \<Rightarrow> mat \<Rightarrow> mat" where
  "mat_add A B = map2 (map2 (+)) A B"

definition Zero6 :: mat where
  "Zero6 = replicate 6 (replicate 6 0)"

definition add_term :: "(real \<Rightarrow> real) \<Rightarrow> GNSums \<Rightarrow> bool \<times> real \<times> vec \<Rightarrow> GNSums" where
  "add_term robustWeightCauchy s c =
     (case c of (inlier, err_i_norm, J_aux) \<Rightarrow>
        if inlier then
          let w = robustWeightCauchy err_i_norm
          in \<lparr>gn_H = mat_add (gn_H s) (outer_product J_aux w),
              gn_g = map2 (+) (gn_g s) (map (\<lambda>x. x * err_i_norm * w) J_aux),
              gn_e = gn_e s + err_i_norm * err_i_norm * w,
              gn_N = gn_N s + 1\<rparr>
        else s)"

definition point_sums :: "LCConfig \<Rightarrow> (real \<Rightarrow> real) \<Rightarrow> Camera \<Rightarrow> mat \<Rightarrow> LCPoint list \<Rightarrow> GNSums" where
  "point_sums cfg robustWeightCauchy cam T_inc lc_points =
     foldl (add_term robustWeightCauchy) \<lparr>gn_H = Zero6, gn_g = replicate 6 0, gn_e = 0, gn_N = 0\<rparr>
       (map (\<lambda>pt. (lcp_inlier pt, point_residual cfg cam T_inc pt)) lc_points)"

definition line_sums :: "LCConfig \<Rightarrow> (real \<Rightarrow> real) \<Rightarrow> Camera \<Rightarrow> mat \<Rightarrow> LCLine list \<Rightarrow> GNSums" where
  "line_sums cfg robustWeightCauchy cam T_inc lc_lines =
     foldl (add_term robustWeightCauchy) \<lparr>gn_H = Zero6, gn_g = replicate 6 0, gn_e = 0, gn_N = 0\<rparr>
       (map (\<lambda>ls. (lcl_inlier ls, line_residual cfg cam T_inc ls)) lc_lines)"

subsection \<open>The two loops and the removal of outliers\<close>

text \<open>The variables that the loops share: \<^verbatim>\<open>T_inc\<close>, \<^verbatim>\<open>H\<close>, \<^verbatim>\<open>e\<close> and
  \<^verbatim>\<open>err_prev\<close>, declared at lines 4684-4694 with the values \<^verbatim>\<open>Matrix4d::Identity()\<close>,
  \<^verbatim>\<open>Matrix6d::Zero()\<close>, \<open>0.0\<close> and \<open>999999999.9\<close>.\<close>

record GNState =
  gs_T_inc :: mat
  gs_H :: mat
  gs_e :: double
  gs_err_prev :: double

definition gn_initial :: GNState where
  "gn_initial = \<lparr>gs_T_inc = identity_pose, gs_H = Zero6, gs_e = Finite 0,
                  gs_err_prev = Finite (9999999999 / 10)\<rparr>"

text \<open>\<^verbatim>\<open>numeric_limits<double>::epsilon()\<close>.\<close>

definition epsilon :: real where
  "epsilon = 1 / 2 ^ 52"

text \<open>The body of the loop of lines 4699-4823, and of the loop of lines 4864-4983, which
  has the same statements: the sums, and then

  \<^verbatim>\<open>H = H_p + H_l; g = g_p + g_l; e = e_p + e_l; e /= (N_l+N_p);\<close>
  \<^verbatim>\<open>if( abs(e-err_prev) < epsilon || e < epsilon ) break;\<close>
  \<^verbatim>\<open>x_inc = solver.solve( g ); T_inc = T_inc * inverse_se3( expmap_se3(x_inc) );\<close>
  \<^verbatim>\<open>if( x_inc.norm() < epsilon ) break;\<close>
  \<^verbatim>\<open>err_prev = e;\<close>

  \<open>solve H g\<close> stands for \<^verbatim>\<open>ColPivHouseholderQR<MatrixXd>(H).solve(g)\<close> of the Eigen
  library; the pose maps are declared outside the file.\<close>

definition gn_iteration ::
  "LCConfig \<Rightarrow> (real \<Rightarrow> real) \<Rightarrow> Camera \<Rightarrow> (mat \<Rightarrow> vec \<Rightarrow> vec) \<Rightarrow> SE3_ops \<Rightarrow> LCPoint list \<Rightarrow> LCLine list \<Rightarrow> GNState \<Rightarrow> GNState flow" where
  "gn_iteration cfg robustWeightCauchy cam solve ops lc_points lc_lines s =
     (let p = point_sums cfg robustWeightCauchy cam (gs_T_inc s) lc_points;
          l = line_sums cfg robustWeightCauchy cam (gs_T_inc s) lc_lines;
          H = mat_add (gn_H p) (gn_H l);
          g = map2 (+) (gn_g p) (gn_g l);
          e = double_div (gn_e p + gn_e l) (gn_N l + gn_N p);
          s1 = s\<lparr>gs_H := H, gs_e := e\<rparr>
      in if double_less (double_abs (double_sub e (gs_err_prev s))) (Finite epsilon) \<or>
            double_less e (Finite epsilon)
         then Break s1
         else
           let x_inc = solve H g;
               s2 = s1\<lparr>gs_T_inc := mat_mul (gs_T_inc s) (inverse_se3 ops (expmap_se3 ops x_inc))\<rparr>
           in if norm_vec x_inc < epsilon then Break s2
              else Continue (s2\<lparr>gs_err_prev := e\<rparr>))"

text \<open>\<^verbatim>\<open>for( int iters = 0; iters < max_iters; iters++)\<close>: at most \<open>n\<close> iterations.\<close>

fun gn_loop ::
  "LCConfig \<Rightarrow> (real \<Rightarrow> real) \<Rightarrow> Camera \<Rightarrow> (mat \<Rightarrow> vec \<Rightarrow> vec) \<Rightarrow> SE3_ops \<Rightarrow> LCPoint list \<Rightarrow> LCLine list \<Rightarrow> nat \<Rightarrow> GNState \<Rightarrow> GNState" where
  "gn_loop cfg robustWeightCauchy cam solve ops lc_points lc_lines 0 s = s"
| "gn_loop cfg robustWeightCauchy cam solve ops lc_points lc_lines (Suc n) s =
     (case gn_iteration cfg robustWeightCauchy cam solve ops lc_points lc_lines s of
        Break s' \<Rightarrow> s'
      | Continue s' \<Rightarrow> gn_loop cfg robustWeightCauchy cam solve ops lc_points lc_lines n s')"

text \<open>Lines 4826-4860, between the loops: a correspondence whose flag is set and whose
  projection error at \<^verbatim>\<open>T_inc\<close> has a norm above \<^verbatim>\<open>sqrt(7.815)\<close> loses its flag.\<close>

definition remove_outlier_point :: "Camera \<Rightarrow> mat \<Rightarrow> LCPoint \<Rightarrow> LCPoint" where
  "remove_outlier_point cam T_inc pt =
     (if lcp_inlier pt then
        let P' = transform_point T_inc (lcp_P pt);
            pl_proj = projection cam P';
            err_i = [pl_proj ! 0 - lcp_pl_obs pt ! 0, pl_proj ! 1 - lcp_pl_obs pt ! 1]
        in if norm_vec err_i > sqrt (7815 / 1000) then pt\<lparr>lcp_inlier := False\<rparr> else pt
      else pt)"

definition remove_outlier_line :: "Camera \<Rightarrow> mat \<Rightarrow> LCLine \<Rightarrow> LCLine" where
  "remove_outlier_line cam T_inc ls =
     (if lcl_inlier ls then
        let sP' = transform_point T_inc (lcl_sP ls);
            spl_proj = projection cam sP';
            eP' = transform_point T_inc (lcl_eP ls);
            epl_proj = projection cam eP';
            l_obs = lcl_le_obs ls;
            err_i = [l_obs ! 0 * spl_proj ! 0 + l_obs ! 1 * spl_proj ! 1 + l_obs ! 2,
                     l_obs ! 0 * epl_proj ! 0 + l_obs ! 1 * epl_proj ! 1 + l_obs ! 2]
        in if norm_vec err_i > sqrt (7815 / 1000) then ls\<lparr>lcl_inlier := False\<rparr> else ls
      else ls)"

subsection \<open>The decision\<close>

text \<open>Lines 5000-5011: \<^verbatim>\<open>double ratio_inliers = double(N_inl) / double(N);\<close>\<close>

definition ratio_inliers :: "LCPoint list \<Rightarrow> LCLine list \<Rightarrow> double" where
  "ratio_inliers lc_points lc_lines =
     (let N = length lc_points + length lc_lines;
          N_inl = length (filter lcp_inlier lc_points) + length (filter lcl_inlier lc_lines)
      in double_div (real N_inl) (int N))"

text \<open>Lines 4990-5023, with the statements in the order of the source:

  \<^verbatim>\<open>bool lc_res = ( e < SlamConfig::lcRes() );\<close>
  \<^verbatim>\<open>DT_cov = H.inverse(); ... bool lc_unc = ( DT_cov_eig(5) < SlamConfig::lcUnc() );\<close>
  \<^verbatim>\<open>bool lc_inl = ( ratio_inliers > SlamConfig::lcInl() );\<close>
  \<^verbatim>\<open>lc_inl = true;\<close>
  \<^verbatim>\<open>bool lc_trs = ( t < SlamConfig::lcTrs() ); bool lc_rot = ( r < SlamConfig::lcRot() );\<close>

  The inverse and the eigenvalues are computed by the Eigen library:
  \<open>largest_cov_eigenvalue H\<close> stands for \<^verbatim>\<open>DT_cov_eig(5)\<close>, the largest eigenvalue of the
  inverse of \<open>H\<close>. The result is the condition of the final \<^verbatim>\<open>if\<close>, which the function
  returns.\<close>

definition loop_closure_decision ::
  "LCConfig \<Rightarrow> (mat \<Rightarrow> double) \<Rightarrow> double \<Rightarrow> mat \<Rightarrow> vec \<Rightarrow> LCPoint list \<Rightarrow> LCLine list \<Rightarrow> bool" where
  "loop_closure_decision cfg largest_cov_eigenvalue e H x_inc lc_points lc_lines =
     (let lc_res = double_less e (Finite (lcRes cfg));
          DT_cov_eig5 = largest_cov_eigenvalue H;
          lc_unc = double_less DT_cov_eig5 (Finite (lcUnc cfg));
          lc_inl = double_less (Finite (lcInl cfg)) (ratio_inliers lc_points lc_lines);
          lc_inl = True;
          t = norm_vec (take 3 x_inc);
          r = norm_vec (drop 3 x_inc) * 180 / pi;
          lc_trs = (t < lcTrs cfg);
          lc_rot = (r < lcRot cfg)
      in lc_res \<and> lc_unc \<and> lc_inl \<and> lc_trs \<and> lc_rot)"

text \<open>The function, by its result: the first loop with \<^verbatim>\<open>SlamConfig::maxIters()\<close>
  iterations at most, the removal of outliers, the second loop with
  \<^verbatim>\<open>SlamConfig::maxItersRef()\<close> iterations at most, \<^verbatim>\<open>x_inc = logmap_se3(T_inc);\<close> (line
  4985) and the decision.\<close>

definition computeRelativePoseRobustGN ::
  "LCConfig \<Rightarrow> nat \<Rightarrow> nat \<Rightarrow> (real \<Rightarrow> real) \<Rightarrow> Camera \<Rightarrow> (mat \<Rightarrow> vec \<Rightarrow> vec) \<Rightarrow> SE3_ops \<Rightarrow> (mat \<Rightarrow> double) \<Rightarrow> LCPoint list \<Rightarrow> LCLine list \<Rightarrow> bool" where
  "computeRelativePoseRobustGN cfg maxIters maxItersRef robustWeightCauchy cam solve ops
       largest_cov_eigenvalue lc_points lc_lines =
     (let s1 = gn_loop cfg robustWeightCauchy cam solve ops lc_points lc_lines maxIters gn_initial;
          lc_points' = map (remove_outlier_point cam (gs_T_inc s1)) lc_points;
          lc_lines' = map (remove_outlier_line cam (gs_T_inc s1)) lc_lines;
          s2 = gn_loop cfg robustWeightCauchy cam solve ops lc_points' lc_lines' maxItersRef s1;
          x_inc = logmap_se3 ops (gs_T_inc s2)
      in loop_closure_decision cfg largest_cov_eigenvalue (gs_e s2) (gs_H s2) x_inc
           lc_points' lc_lines')"

text \<open>The inlier ratio that the function computes at lines 5000-5011, from the flags that
  the removal of outliers leaves.\<close>

definition final_ratio_inliers ::
  "LCConfig \<Rightarrow> nat \<Rightarrow> (real \<Rightarrow> real) \<Rightarrow> Camera \<Rightarrow> (mat \<Rightarrow> vec \<Rightarrow> vec) \<Rightarrow> SE3_ops \<Rightarrow> LCPoint list \<Rightarrow> LCLine list \<Rightarrow> double" where
  "final_ratio_inliers cfg maxIters robustWeightCauchy cam solve ops lc_points lc_lines =
     (let s1 = gn_loop cfg robustWeightCauchy cam solve ops lc_points lc_lines maxIters gn_initial
      in ratio_inliers (map (remove_outlier_point cam (gs_T_inc s1)) lc_points)
           (map (remove_outlier_line cam (gs_T_inc s1)) lc_lines))"

subsection \<open>What the Eigen calls compute\<close>

text \<open>The product of a 6x6 matrix with a vector and with a matrix, and the identity.\<close>

definition mat_vec :: "mat \<Rightarrow> vec \<Rightarrow> vec" where
  "mat_vec A v = map (\<lambda>row. sum_list (map2 (*) row v)) A"

definition mat_mul6 :: "mat \<Rightarrow> mat \<Rightarrow> mat" where
  "mat_mul6 A B = map (\<lambda>row. map (\<lambda>j. sum_list (map2 (\<lambda>a brow. a * brow ! j) row B)) [0..<6]) A"

definition Identity6 :: mat where
  "Identity6 = map (\<lambda>i. map (\<lambda>j. if i = j then 1 else 0) [0..<6]) [0..<(6::nat)]"

text \<open>\<open>\<mu>\<close> is an eigenvalue of the 6x6 matrix \<open>A\<close>.\<close>

definition eigenvalue :: "mat \<Rightarrow> real \<Rightarrow> bool" where
  "eigenvalue A \<mu> \<longleftrightarrow>
     (\<exists>v. length v = 6 \<and> (\<exists>x \<in> set v. x \<noteq> 0) \<and> mat_vec A v = map (\<lambda>x. \<mu> * x) v)"

text \<open>\<open>ev\<close> is the largest eigenvalue of the inverse of \<open>H\<close>: what
  \<^verbatim>\<open>SelfAdjointEigenSolver<Matrix6d>(H.inverse()).eigenvalues()(5)\<close> is, the eigenvalues
  being sorted in increasing order.\<close>

definition largest_eigenvalue_of_inverse :: "mat \<Rightarrow> real \<Rightarrow> bool" where
  "largest_eigenvalue_of_inverse H ev \<longleftrightarrow>
     (\<exists>C. mat_mul6 H C = Identity6 \<and> mat_mul6 C H = Identity6 \<and>
          eigenvalue C ev \<and> (\<forall>\<mu>. eigenvalue C \<mu> \<longrightarrow> \<mu> \<le> ev))"

section \<open>Matching line features against the local map\<close>

text \<open>\<^verbatim>\<open>matchMap2KFLines\<close>, lines 799-921. The members it touches are the current
  keyframe (not yet in \<^verbatim>\<open>map_keyframes\<close>), the line landmarks, the matrix and the local
  count of matches.\<close>

record LineMatching =
  lm_curr_kf :: KeyFrame
  lm_map_lines :: "MapLine option list"
  lm_full_graph :: graph
  lm_matches :: int

subsection \<open>The local map and the unmatched features\<close>

text \<open>Lines 815-820: the two endpoints of the landmark, taken to the frame by \<^verbatim>\<open>Twf\<close>,
  project inside the image and lie in front of the camera.\<close>

definition projects_inside :: "Camera \<Rightarrow> vec \<Rightarrow> bool" where
  "projects_inside cam Pf =
     (let pf = projection cam Pf
      in pf ! 0 > 0 \<and> pf ! 0 < getWidth cam \<and> pf ! 1 > 0 \<and> pf ! 1 < getHeight cam \<and> Pf ! 2 > 0)"

text \<open>Line 812:
  \<^verbatim>\<open>if (ls != nullptr && ls->local && ls->kf_obs_list.back() != kf2_idx)\<close>,
  and the test of lines 819-820. \<^verbatim>\<open>back()\<close> of an empty vector has no defined result.\<close>

definition local_line_selected :: "Camera \<Rightarrow> mat \<Rightarrow> nat \<Rightarrow> MapLine \<Rightarrow> bool option" where
  "local_line_selected cam Twf kf2_idx ls =
     (if ml_local ls then
        if ml_kf_obs_list ls = [] then None
        else if last (ml_kf_obs_list ls) \<noteq> kf2_idx then
          Some (projects_inside cam (transform_point Twf (take 3 (line3D ls))) \<and>
                projects_inside cam (transform_point Twf (drop 3 (line3D ls))))
        else Some False
      else Some False)"

text \<open>Lines 811-827, \<^verbatim>\<open>for (MapLine* ls : map_lines)\<close>: \<^verbatim>\<open>map_local_lines\<close> holds pointers
  to the selected landmarks, here their positions in \<^verbatim>\<open>map_lines\<close>, from position \<open>i\<close>
  on.\<close>

fun select_local_lines :: "Camera \<Rightarrow> mat \<Rightarrow> nat \<Rightarrow> MapLine option list \<Rightarrow> nat \<Rightarrow> nat list option" where
  "select_local_lines cam Twf kf2_idx [] i = Some []"
| "select_local_lines cam Twf kf2_idx (None # rest) i =
     select_local_lines cam Twf kf2_idx rest (Suc i)"
| "select_local_lines cam Twf kf2_idx (Some ls # rest) i = do {
     selected \<leftarrow> local_line_selected cam Twf kf2_idx ls;
     others \<leftarrow> select_local_lines cam Twf kf2_idx rest (Suc i);
     Some (if selected then i # others else others)
   }"

text \<open>Lines 830-838: \<^verbatim>\<open>unmatched_lines\<close> holds pointers to the features of the current
  keyframe that are not null and have no landmark, here their positions in
  \<^verbatim>\<open>stereo_ls\<close>; \<^verbatim>\<open>unmatched_ls_desc\<close> holds the rows of \<^verbatim>\<open>ldesc_l\<close> at the same
  positions.\<close>

definition select_unmatched :: "LineFeature option list \<Rightarrow> nat list" where
  "select_unmatched features =
     filter (\<lambda>idx. case features ! idx of None \<Rightarrow> False | Some ls \<Rightarrow> ls_idx ls = - 1)
       [0..<length features]"

subsection \<open>The gate\<close>

text \<open>Lines 885-893: the signed algebraic distances of the two projected endpoints of the
  landmark to the observed line \<^verbatim>\<open>l_obs\<close>.\<close>

definition line_epipolar_errors :: "Camera \<Rightarrow> mat \<Rightarrow> vec \<Rightarrow> vec \<Rightarrow> real \<times> real" where
  "line_epipolar_errors cam Twf L3D l_obs =
     (let sP' = transform_point Twf (take 3 L3D);
          spl_proj = projection cam sP';
          eP' = transform_point Twf (drop 3 L3D);
          epl_proj = projection cam eP'
      in (l_obs ! 0 * spl_proj ! 0 + l_obs ! 1 * spl_proj ! 1 + l_obs ! 2,
          l_obs ! 0 * epl_proj ! 0 + l_obs ! 1 * epl_proj ! 1 + l_obs ! 2))"

text \<open>Line 894:
  \<^verbatim>\<open>if( err_ls(0) < SlamConfig::maxKFEpipL() && err_ls(1) < SlamConfig::maxKFEpipL() )\<close>\<close>

definition epipolar_gate :: "real \<Rightarrow> real \<times> real \<Rightarrow> bool" where
  "epipolar_gate maxKFEpipL err_ls \<longleftrightarrow> fst err_ls < maxKFEpipL \<and> snd err_ls < maxKFEpipL"

subsection \<open>The loop over the matches\<close>

text \<open>Lines 881-918, the body of the loop for the match \<open>(i1, i2)\<close>.
  \<open>use_line_pluker\<close> says whether \<^verbatim>\<open>USE_LINE_PLUKER\<close> is defined, which selects the call
  of line 905 or that of line 907. A match that does not pass the gate takes one from the
  count of matches (line 917) and changes nothing else.\<close>

definition matchMap2KFLines_step ::
  "Camera \<Rightarrow> real \<Rightarrow> bool \<Rightarrow> mat \<Rightarrow> nat list \<Rightarrow> nat list \<Rightarrow> descr list \<Rightarrow> LineMatching \<Rightarrow> nat \<times> int \<Rightarrow> LineMatching option" where
  "matchMap2KFLines_step cam maxKFEpipL use_line_pluker Twf map_local_lines unmatched_lines
       unmatched_ls_desc st m =
     (case m of (i1, i2) \<Rightarrow>
        if i2 < 0 then Some st
        else do {
          p \<leftarrow> vec_at map_local_lines i1;
          slot \<leftarrow> vec_at (lm_map_lines st) p;
          ml \<leftarrow> slot;
          u \<leftarrow> idx_at unmatched_lines i2;
          fo \<leftarrow> vec_at (stereo_ls (stereo_frame (lm_curr_kf st))) u;
          lf \<leftarrow> fo;
          if epipolar_gate maxKFEpipL (line_epipolar_errors cam Twf (line3D ml) (ls_le lf))
          then do {
            desc \<leftarrow> idx_at unmatched_ls_desc i2;
            tslot \<leftarrow> idx_at (lm_map_lines st) (ml_idx ml);
            target \<leftarrow> tslot;
            let kf = lm_curr_kf st;
                kf2_idx = kf_idx kf;
                mP3d = normalized (transform_point (T_kf_w kf) (vec_scale (1 / 2) (vec_add (ls_sP lf) (ls_eP lf))));
                pts = ls_spl lf @ ls_epl lf;
                target' = (if use_line_pluker
                           then addMapLineObservation_pts target desc kf2_idx pts
                           else addMapLineObservation target desc kf2_idx (ls_le lf) mP3d pts)
            in do {
              g \<leftarrow> inc_guarded (lm_full_graph st) kf2_idx (ml_kf_obs_list target');
              Some (st\<lparr>lm_curr_kf := kf\<lparr>stereo_frame := (stereo_frame kf)
                           \<lparr>stereo_ls := (stereo_ls (stereo_frame kf))[u := Some (lf\<lparr>ls_idx := ml_idx ml\<rparr>)]\<rparr>\<rparr>,
                       lm_map_lines := (lm_map_lines st)[nat (ml_idx ml) := Some target'],
                       lm_full_graph := g\<rparr>)
            }
          }
          else Some (st\<lparr>lm_matches := lm_matches st - 1\<rparr>)
        })"

fun matchMap2KFLines_loop ::
  "Camera \<Rightarrow> real \<Rightarrow> bool \<Rightarrow> mat \<Rightarrow> nat list \<Rightarrow> nat list \<Rightarrow> descr list \<Rightarrow> LineMatching \<Rightarrow> (nat \<times> int) list \<Rightarrow> LineMatching option" where
  "matchMap2KFLines_loop cam maxKFEpipL use_line_pluker Twf map_local_lines unmatched_lines unmatched_ls_desc st [] = Some st"
| "matchMap2KFLines_loop cam maxKFEpipL use_line_pluker Twf map_local_lines unmatched_lines unmatched_ls_desc st (m # rest) = do {
     st' \<leftarrow> matchMap2KFLines_step cam maxKFEpipL use_line_pluker Twf map_local_lines unmatched_lines unmatched_ls_desc st m;
     matchMap2KFLines_loop cam maxKFEpipL use_line_pluker Twf map_local_lines unmatched_lines unmatched_ls_desc st' rest
   }"

text \<open>\<^verbatim>\<open>for (int i1 = 0; i1 < matches_12.size(); ++i1) { const int i2 = matches_12[i1]; ... }\<close>\<close>

definition matchMap2KFLines_matches ::
  "Camera \<Rightarrow> real \<Rightarrow> bool \<Rightarrow> mat \<Rightarrow> nat list \<Rightarrow> nat list \<Rightarrow> descr list \<Rightarrow> LineMatching \<Rightarrow> int list \<Rightarrow> LineMatching option" where
  "matchMap2KFLines_matches cam maxKFEpipL use_line_pluker Twf map_local_lines unmatched_lines unmatched_ls_desc st matches_12 =
     matchMap2KFLines_loop cam maxKFEpipL use_line_pluker Twf map_local_lines unmatched_lines unmatched_ls_desc st
       (zip [0..<length matches_12] matches_12)"

subsection \<open>The function\<close>

text \<open>Lines 799-921. The descriptor matchers (\<^verbatim>\<open>matchGrid\<close>, \<^verbatim>\<open>match\<close>) are declared
  outside the file: \<open>matcher\<close> gives, for the selected landmarks and features, the count of
  matches and \<^verbatim>\<open>matches_12\<close>. The function returns the count, which the state carries.\<close>

definition matchMap2KFLines ::
  "Camera \<Rightarrow> real \<Rightarrow> bool \<Rightarrow> bool \<Rightarrow> mat \<Rightarrow> (nat list \<Rightarrow> nat list \<Rightarrow> int \<times> int list) \<Rightarrow> LineMatching \<Rightarrow> LineMatching option" where
  "matchMap2KFLines cam maxKFEpipL use_line_pluker hasLines Twf matcher st =
     (let curr_frame = stereo_frame (lm_curr_kf st) in
      if \<not> hasLines \<or> stereo_ls curr_frame = [] then Some (st\<lparr>lm_matches := 0\<rparr>)
      else do {
        map_local_lines \<leftarrow> select_local_lines cam Twf (kf_idx (lm_curr_kf st)) (lm_map_lines st) 0;
        let unmatched_lines = select_unmatched (stereo_ls curr_frame) in do {
          unmatched_ls_desc \<leftarrow> those (map (vec_at (ldesc_l curr_frame)) unmatched_lines);
          if map_local_lines = [] \<or> unmatched_lines = [] then Some (st\<lparr>lm_matches := 0\<rparr>)
          else case matcher map_local_lines unmatched_lines of (matches, matches_12) \<Rightarrow>
            matchMap2KFLines_matches cam maxKFEpipL use_line_pluker Twf map_local_lines
              unmatched_lines unmatched_ls_desc (st\<lparr>lm_matches := matches\<rparr>) matches_12
        }
      })"

section \<open>Concrete maps\<close>

text \<open>Small maps on which the operations are run. A keyframe with one stereo point that
  observes landmark \<open>lm\<close> (or none, \<open>-1\<close>), at the identity pose.\<close>

definition keyframe_one_point :: "nat \<Rightarrow> int \<Rightarrow> KeyFrame option" where
  "keyframe_one_point k lm =
     Some \<lparr>kf_idx = k, T_kf_w = identity_pose, kf_local = False,
           stereo_frame = \<lparr>stereo_pt = [Some \<lparr>pt_idx = lm, pt_pl = [10, 10], pt_P = [0, 0, 1]\<rparr>],
                            stereo_ls = [], pdesc_l = [[1]], ldesc_l = []\<rparr>\<rparr>"

text \<open>A point landmark with one observation per keyframe of \<open>kfs\<close>.\<close>

definition point_seen_by :: "int \<Rightarrow> nat list \<Rightarrow> MapPoint" where
  "point_seen_by lm kfs =
     \<lparr>mp_idx = lm, point3D = [0, 0, 1], mp_desc_list = map (\<lambda>k. [1]) kfs,
      mp_obs_list = map (\<lambda>k. [10, 10]) kfs, mp_dir_list = map (\<lambda>k. [0, 0, 1]) kfs,
      mp_kf_obs_list = kfs, mp_local = False, mp_inlier = True\<rparr>"

text \<open>Two keyframes whose only features observe no landmark yet, and one pending loop
  edge between them with that one correspondence; the loop state is \<^verbatim>\<open>LC_READY\<close>.\<close>

definition pending_state :: MapHandler where
  "pending_state =
     \<lparr>map_keyframes = [keyframe_one_point 0 (- 1), keyframe_one_point 1 (- 1)],
      map_points = [],
      map_lines = [],
      map_points_kf_idx = [0 \<mapsto> [], 1 \<mapsto> []],
      map_lines_kf_idx = [0 \<mapsto> [], 1 \<mapsto> []],
      full_graph = [[0, 0], [0, 0]],
      max_pt_idx = 0, max_ls_idx = 0, max_kf_idx = 1,
      lc_idx_list = [(0, 1, 1)],
      lc_pt_idxs = [[(- 1, 0, - 1, 0)]],
      lc_ls_idxs = [[]],
      lc_state = LC_READY\<rparr>"

text \<open>Three keyframes and two landmarks: landmark 0 is observed by keyframes 0 and 1,
  landmark 1 by keyframes 1 and 2 (keyframe 1 sees both, through two features). The matrix
  counts one shared landmark for the pairs \<open>(0,1)\<close> and \<open>(1,2)\<close>. The loop edge joins
  keyframes 0 and 2 and matches the feature of landmark 0 with the feature of landmark 1.\<close>

definition overlap_state :: MapHandler where
  "overlap_state =
     \<lparr>map_keyframes =
        [keyframe_one_point 0 0,
         Some \<lparr>kf_idx = 1, T_kf_w = identity_pose, kf_local = False,
               stereo_frame = \<lparr>stereo_pt = [Some \<lparr>pt_idx = 0, pt_pl = [11, 10], pt_P = [0, 0, 1]\<rparr>,
                                             Some \<lparr>pt_idx = 1, pt_pl = [12, 10], pt_P = [0, 0, 1]\<rparr>],
                                stereo_ls = [], pdesc_l = [[1], [1]], ldesc_l = []\<rparr>\<rparr>,
         keyframe_one_point 2 1],
      map_points = [Some (point_seen_by 0 [0, 1]), Some (point_seen_by 1 [1, 2])],
      map_lines = [],
      map_points_kf_idx = [0 \<mapsto> [0], 1 \<mapsto> [1], 2 \<mapsto> []],
      map_lines_kf_idx = [0 \<mapsto> [], 1 \<mapsto> [], 2 \<mapsto> []],
      full_graph = [[0, 1, 0], [1, 0, 1], [0, 1, 0]],
      max_pt_idx = 2, max_ls_idx = 0, max_kf_idx = 2,
      lc_idx_list = [(0, 2, 1)],
      lc_pt_idxs = [[(0, 0, 1, 0)]],
      lc_ls_idxs = [[]],
      lc_state = LC_READY\<rparr>"

text \<open>The scenario of the specification: eight keyframes, landmark 0 with five
  observations (keyframes 0 to 4) and landmark 1 with three (keyframes 5 to 7); the loop
  edge joins keyframes 4 and 7.\<close>

definition scenario_state :: MapHandler where
  "scenario_state =
     \<lparr>map_keyframes =
        [keyframe_one_point 0 0, keyframe_one_point 1 0, keyframe_one_point 2 0,
         keyframe_one_point 3 0, keyframe_one_point 4 0, keyframe_one_point 5 1,
         keyframe_one_point 6 1, keyframe_one_point 7 1],
      map_points = [Some (point_seen_by 0 [0, 1, 2, 3, 4]), Some (point_seen_by 1 [5, 6, 7])],
      map_lines = [],
      map_points_kf_idx = (\<lambda>k. if k = 0 then Some [0] else if k = 5 then Some [1]
                                 else if k < 8 then Some [] else None),
      map_lines_kf_idx = (\<lambda>k. if k < 8 then Some [] else None),
      full_graph =
        [[0, 1, 1, 1, 1, 0, 0, 0],
         [1, 0, 1, 1, 1, 0, 0, 0],
         [1, 1, 0, 1, 1, 0, 0, 0],
         [1, 1, 1, 0, 1, 0, 0, 0],
         [1, 1, 1, 1, 0, 0, 0, 0],
         [0, 0, 0, 0, 0, 0, 1, 1],
         [0, 0, 0, 0, 0, 1, 0, 1],
         [0, 0, 0, 0, 0, 1, 1, 0]],
      max_pt_idx = 2, max_ls_idx = 0, max_kf_idx = 7,
      lc_idx_list = [(4, 7, 1)],
      lc_pt_idxs = [[(0, 0, 1, 0)]],
      lc_ls_idxs = [[]],
      lc_state = LC_READY\<rparr>"

text \<open>Twelve keyframes; landmark 0 was created at keyframe 0, is observed by keyframes 0
  and 1, is outside the local window and was flagged non-inlier. The matrix counts it once
  for the pair \<open>(0,1)\<close>.\<close>

definition cull_state :: MapHandler where
  "cull_state =
     \<lparr>map_keyframes = keyframe_one_point 0 0 # keyframe_one_point 1 0 #
                        map (\<lambda>k. keyframe_one_point k (- 1)) [2..<12],
      map_points = [Some ((point_seen_by 0 [0, 1])\<lparr>mp_inlier := False\<rparr>)],
      map_lines = [],
      map_points_kf_idx = (\<lambda>k. if k = 0 then Some [0] else if k < 12 then Some [] else None),
      map_lines_kf_idx = (\<lambda>k. if k < 12 then Some [] else None),
      full_graph = map (\<lambda>i. map (\<lambda>j. if (i = 0 \<and> j = 1) \<or> (i = 1 \<and> j = 0) then 1 else 0) [0..<12])
                       [0..<12],
      max_pt_idx = 1, max_ls_idx = 0, max_kf_idx = 11,
      lc_idx_list = [], lc_pt_idxs = [], lc_ls_idxs = [],
      lc_state = LC_IDLE\<rparr>"

text \<open>A loop candidate for the geometric verification. The camera has the focal length
  180 and the principal point \<open>(320, 240)\<close> on an image of 640 by 480; the weight is the
  Cauchy weight. There are 40 point correspondences and no line correspondence, and every
  \<^verbatim>\<open>inlier\<close> flag is set when the function is called.

  Sixteen correspondences are one pixel from their projection under the identity: each of
  the four points \<open>(\<plusminus>1/3, \<plusminus>1, 1)\<close> is observed one pixel to the left and one pixel to the
  right of it, each of the four points \<open>(\<plusminus>1/3, \<plusminus>1/2, 1)\<close> one pixel above and one pixel
  below it.\<close>

definition vga_camera :: Camera where
  "vga_camera = \<lparr>projection = (\<lambda>P. [180 * P ! 0 / P ! 2 + 320, 180 * P ! 1 / P ! 2 + 240]),
                  getFx = 180, getWidth = 640, getHeight = 480\<rparr>"

definition cauchy_weight :: "real \<Rightarrow> real" where
  "cauchy_weight x = 1 / (1 + x * x)"

definition lc_config_example :: LCConfig where
  "lc_config_example =
     \<lparr>lcRes = 2, lcUnc = 1 / 100, lcInl = 1 / 2, lcTrs = 5 / 2, lcRot = 35, homogTh = 1 / 10000000\<rparr>"

definition consistent_points :: "LCPoint list" where
  "consistent_points =
     [\<lparr>lcp_inlier = True, lcp_P = [1 / 3, 1, 1], lcp_pl_obs = [379, 420]\<rparr>,
      \<lparr>lcp_inlier = True, lcp_P = [1 / 3, 1, 1], lcp_pl_obs = [381, 420]\<rparr>,
      \<lparr>lcp_inlier = True, lcp_P = [- 1 / 3, 1, 1], lcp_pl_obs = [259, 420]\<rparr>,
      \<lparr>lcp_inlier = True, lcp_P = [- 1 / 3, 1, 1], lcp_pl_obs = [261, 420]\<rparr>,
      \<lparr>lcp_inlier = True, lcp_P = [1 / 3, - 1, 1], lcp_pl_obs = [379, 60]\<rparr>,
      \<lparr>lcp_inlier = True, lcp_P = [1 / 3, - 1, 1], lcp_pl_obs = [381, 60]\<rparr>,
      \<lparr>lcp_inlier = True, lcp_P = [- 1 / 3, - 1, 1], lcp_pl_obs = [259, 60]\<rparr>,
      \<lparr>lcp_inlier = True, lcp_P = [- 1 / 3, - 1, 1], lcp_pl_obs = [261, 60]\<rparr>,
      \<lparr>lcp_inlier = True, lcp_P = [1 / 3, 1 / 2, 1], lcp_pl_obs = [380, 329]\<rparr>,
      \<lparr>lcp_inlier = True, lcp_P = [1 / 3, 1 / 2, 1], lcp_pl_obs = [380, 331]\<rparr>,
      \<lparr>lcp_inlier = True, lcp_P = [- 1 / 3, 1 / 2, 1], lcp_pl_obs = [260, 329]\<rparr>,
      \<lparr>lcp_inlier = True, lcp_P = [- 1 / 3, 1 / 2, 1], lcp_pl_obs = [260, 331]\<rparr>,
      \<lparr>lcp_inlier = True, lcp_P = [1 / 3, - 1 / 2, 1], lcp_pl_obs = [380, 149]\<rparr>,
      \<lparr>lcp_inlier = True, lcp_P = [1 / 3, - 1 / 2, 1], lcp_pl_obs = [380, 151]\<rparr>,
      \<lparr>lcp_inlier = True, lcp_P = [- 1 / 3, - 1 / 2, 1], lcp_pl_obs = [260, 149]\<rparr>,
      \<lparr>lcp_inlier = True, lcp_P = [- 1 / 3, - 1 / 2, 1], lcp_pl_obs = [260, 151]\<rparr>]"

text \<open>Twenty-four correspondences are ten pixels and more from their projection: the twelve
  points \<open>(0, 0, 2 + k)\<close> of the optical axis, each observed \<open>10 + k\<close> pixels to the left and
  \<open>10 + k\<close> pixels to the right of the principal point.\<close>

definition inconsistent_pair :: "real \<Rightarrow> LCPoint list" where
  "inconsistent_pair k =
     [\<lparr>lcp_inlier = True, lcp_P = [0, 0, 2 + k], lcp_pl_obs = [310 - k, 240]\<rparr>,
      \<lparr>lcp_inlier = True, lcp_P = [0, 0, 2 + k], lcp_pl_obs = [330 + k, 240]\<rparr>]"

definition inconsistent_points :: "LCPoint list" where
  "inconsistent_points = concat (map inconsistent_pair [0, 1, 2, 3, 4, 5, 6, 7, 8, 9, 10, 11])"

definition forty_points :: "LCPoint list" where
  "forty_points = consistent_points @ inconsistent_points"

text \<open>The same correspondences with the flags of the twenty-four cleared.\<close>

definition sixteen_of_forty :: "LCPoint list" where
  "sixteen_of_forty =
     consistent_points @ map (\<lambda>pt. pt\<lparr>lcp_inlier := False\<rparr>) inconsistent_points"

text \<open>The matrix \<open>H\<close> that the sums over the sixteen correspondences give under the
  identity, and its inverse.\<close>

definition verification_H :: mat where
  "verification_H =
     [[129600, 0, 0, 0, 144000, 0],
      [0, 129600, 0, - 162000, 0, 0],
      [0, 0, 46800, 0, 0, 0],
      [0, - 162000, 0, 216900, 0, 0],
      [144000, 0, 0, 0, 163600, 0],
      [0, 0, 0, 0, 0, 144000]]"

definition verification_cov :: mat where
  "verification_cov =
     [[409 / 1166400, 0, 0, 0, - 1 / 3240, 0],
      [0, 241 / 2073600, 0, 1 / 11520, 0, 0],
      [0, 0, 1 / 46800, 0, 0, 0],
      [0, 1 / 11520, 0, 1 / 14400, 0, 0],
      [- 1 / 3240, 0, 0, 0, 1 / 3600, 0],
      [0, 0, 0, 0, 0, 1 / 144000]]"

text \<open>What the Eigen calls of lines 4994-4997 return for the matrix of the example: the
  largest eigenvalue of its inverse is \<open>1/1600\<close>.\<close>

definition verification_eigensolver :: "mat \<Rightarrow> double" where
  "verification_eigensolver H = (if H = verification_H then Finite (1 / 1600) else NaN)"

text \<open>What \<^verbatim>\<open>solver.solve(g)\<close> returns: the product of the inverse of the matrix of the
  example with \<open>g\<close>. In what follows the right-hand side is zero, and the product is the
  solution with every matrix.\<close>

definition verification_solver :: "mat \<Rightarrow> vec \<Rightarrow> vec" where
  "verification_solver H g = map (\<lambda>row. sum_list (map2 (*) row g)) verification_cov"

text \<open>The pose maps on translations: a step \<open>(x, y, z, 0, 0, 0)\<close> is the translation by
  \<open>(x, y, z)\<close>.\<close>

definition translation_se3 :: SE3_ops where
  "translation_se3 =
     \<lparr>expmap_se3 = (\<lambda>x. [[1, 0, 0, x ! 0], [0, 1, 0, x ! 1], [0, 0, 1, x ! 2], [0, 0, 0, 1]]),
      logmap_se3 = (\<lambda>M. [M ! 0 ! 3, M ! 1 ! 3, M ! 2 ! 3, 0, 0, 0]),
      inverse_se3 = (\<lambda>M. [[1, 0, 0, - (M ! 0 ! 3)], [0, 1, 0, - (M ! 1 ! 3)],
                           [0, 0, 1, - (M ! 2 ! 3)], [0, 0, 0, 1]])\<rparr>"

text \<open>A line landmark of the local window whose stored orthonormal parameters are
  \<open>[1, 2, 3, 4]\<close>.\<close>

definition line_at_rest :: MapLine where
  "line_at_rest =
     \<lparr>ml_idx = 0, line3D = [], NDw = [0, 0, 1, 1, 0, 0], orthNDw = [1, 2, 3, 4],
      ml_desc_list = [[1], [1]], ml_obs_list = [[0, 1, 0], [0, 1, 0]],
      ml_pts_list = [[0, 0, 1, 0], [0, 0, 1, 0]], ml_dir_list = [[0, 0, 1], [0, 0, 1]],
      ml_kf_obs_list = [0, 1], ml_local = True, ml_inlier = True\<rparr>"

text \<open>A matching pass of keyframe 2 with the camera above. The line landmark 0, seen by
  the keyframes 0 and 1, projects to the segment from \<open>(260, 150)\<close> to \<open>(380, 150)\<close>. The
  keyframe has two unmatched line features on the image row \<open>y = 410\<close>, 260 pixels from
  that segment: the first runs from \<open>(260, 410)\<close> to \<open>(380, 410)\<close> and has the line
  \<open>(0, 1, -410)\<close>; the second runs the other way, from \<open>(500, 410)\<close> to \<open>(420, 410)\<close>, and
  has the line \<open>(0, -1, 410)\<close>.\<close>

definition row_feature :: LineFeature where
  "row_feature =
     \<lparr>ls_idx = - 1, ls_sP = [- 1 / 3, 17 / 18, 1], ls_eP = [1 / 3, 17 / 18, 1],
      ls_le = [0, 1, - 410], ls_spl = [260, 410], ls_epl = [380, 410],
      ls_spl_obs = [260, 410], ls_epl_obs = [380, 410]\<rparr>"

definition reversed_feature :: LineFeature where
  "reversed_feature =
     \<lparr>ls_idx = - 1, ls_sP = [1, 17 / 18, 1], ls_eP = [5 / 9, 17 / 18, 1],
      ls_le = [0, - 1, 410], ls_spl = [500, 410], ls_epl = [420, 410],
      ls_spl_obs = [500, 410], ls_epl_obs = [420, 410]\<rparr>"

definition upper_landmark :: MapLine where
  "upper_landmark =
     \<lparr>ml_idx = 0, line3D = [- 1 / 3, - 1 / 2, 1, 1 / 3, - 1 / 2, 1], NDw = [], orthNDw = [],
      ml_desc_list = [[7], [7]], ml_obs_list = [[0, 1, - 150], [0, 1, - 150]],
      ml_pts_list = [[260, 150, 380, 150], [260, 150, 380, 150]],
      ml_dir_list = [[0, 0, 1], [0, 0, 1]], ml_kf_obs_list = [0, 1],
      ml_local = True, ml_inlier = True\<rparr>"

definition line_matching_example :: LineMatching where
  "line_matching_example =
     \<lparr>lm_curr_kf =
        \<lparr>kf_idx = 2, T_kf_w = identity_pose, kf_local = True,
         stereo_frame =
           \<lparr>stereo_pt = [], stereo_ls = [Some row_feature, Some reversed_feature],
            pdesc_l = [], ldesc_l = [[7], [7]]\<rparr>\<rparr>,
      lm_map_lines = [Some upper_landmark],
      lm_full_graph = [[0, 1, 0], [1, 0, 0], [0, 0, 0]],
      lm_matches = 1\<rparr>"

text \<open>A window of the local optimizer with one keyframe and one point landmark, observed
  once. The pose maps are \<open>translation_se3\<close>: the exponential puts the first three entries
  in the last column, the logarithm reads them back, and the inverse negates them. The norm of the error of the observation is the landmark's first
  coordinate, and its weighted squared error is that norm squared times its Cauchy weight.
  The solver returns a step that doubles that coordinate and moves the keyframe by one
  unit.\<close>

definition lba_observation :: ObsEntry where
  "lba_observation =
     \<lparr>ob_lm_idx = 0, ob_lm_local = 0, ob_obs = 0, ob_kf_idx = 0, ob_kf_local = 0, ob_inlier = 1\<rparr>"

definition lba_X :: vec where
  "lba_X = [1, 2, 3, 0, 0, 0, 1 / 2, 2, 3]"

definition coordinate_residual :: "vec \<Rightarrow> ObsEntry \<Rightarrow> real option" where
  "coordinate_residual X ob = Some (X ! 6 * X ! 6 * cauchy_weight (X ! 6))"

definition no_residual :: "vec \<Rightarrow> ObsEntry \<Rightarrow> real option" where
  "no_residual X ob = None"

definition doubling_solve :: "vec \<Rightarrow> real \<Rightarrow> vec" where
  "doubling_solve X lambda = [1, 0, 0, 0, 0, 0, X ! 6, 0, 0]"

definition lba_config :: LMConfig where
  "lba_config = \<lparr>lambdaLbaK = 1 / 10, minErrorChange = 1 / 10000000, minError = 1 / 10000000\<rparr>"

section \<open>Symmetry of the covisibility matrix\<close>

lemma symmetric_iff:
  "symmetric g \<longleftrightarrow>
     (\<forall>i<length g. length (g ! i) = length g) \<and>
     (\<forall>i<length g. \<forall>j<length g. g ! i ! j = g ! j ! i)"
  by (auto simp: symmetric_def list_all_iff in_set_conv_nth) (metis nth_mem)

lemma cell_upd_Some:
  assumes "cell_upd f g i j = Some g'"
  shows "length g' = length g"
    and "\<And>k. length (g' ! k) = length (g ! k)"
    and "\<And>k l. k < length g \<Longrightarrow> l < length (g ! k) \<Longrightarrow>
           g' ! k ! l = (if k = i \<and> l = j then f (g ! k ! l) else g ! k ! l)"
  using assms
  by (auto simp: cell_upd_def nth_list_update split: if_splits)

lemma pair_upd_symmetric:
  assumes "symmetric g" and "pair_upd f g a b = Some g2"
  shows "symmetric g2"
proof -
  from assms(2) obtain g1 where s1: "cell_upd f g a b = Some g1" and s2: "cell_upd f g1 b a = Some g2"
    by (auto simp: pair_upd_def bind_eq_Some_conv)
  note A = cell_upd_Some[OF s1] and B = cell_upd_Some[OF s2]
  from assms(1) have sq: "\<And>i. i < length g \<Longrightarrow> length (g ! i) = length g"
    and sy: "\<And>i j. i < length g \<Longrightarrow> j < length g \<Longrightarrow> g ! i ! j = g ! j ! i"
    by (simp_all add: symmetric_iff)
  have len: "length g2 = length g" by (simp add: A(1) B(1))
  have rows: "length (g2 ! k) = length g" if "k < length g" for k
    using that by (simp add: A(2) B(2) sq)
  have val: "g2 ! k ! l =
      (if k = b \<and> l = a then f (if k = a \<and> l = b then f (g ! k ! l) else g ! k ! l)
       else (if k = a \<and> l = b then f (g ! k ! l) else g ! k ! l))"
    if "k < length g" "l < length g" for k l
  proof -
    have v2: "g2 ! k ! l = (if k = b \<and> l = a then f (g1 ! k ! l) else g1 ! k ! l)"
      using that by (intro B(3)) (simp_all add: A(1) A(2) sq)
    have v1: "g1 ! k ! l = (if k = a \<and> l = b then f (g ! k ! l) else g ! k ! l)"
      using that by (intro A(3)) (simp_all add: sq)
    show ?thesis unfolding v2 v1 by (rule refl)
  qed
  have "g2 ! i ! j = g2 ! j ! i" if "i < length g" "j < length g" for i j
  proof -
    have e: "g ! j ! i = g ! i ! j" using that by (simp add: sy)
    show ?thesis
      unfolding val[OF that] val[OF that(2) that(1)] e
      by (cases "i = a"; cases "j = b"; cases "i = b"; cases "j = a"; simp)
  qed
  then show ?thesis
    unfolding symmetric_iff using len rows by simp
qed

lemma graph_inc_symmetric: "symmetric g \<Longrightarrow> graph_inc g a b = Some g' \<Longrightarrow> symmetric g'"
  unfolding graph_inc_def by (rule pair_upd_symmetric)

lemma graph_dec_symmetric: "symmetric g \<Longrightarrow> graph_dec g a b = Some g' \<Longrightarrow> symmetric g'"
  unfolding graph_dec_def by (rule pair_upd_symmetric)

lemma graph_zero_symmetric: "symmetric g \<Longrightarrow> graph_zero g a b = Some g' \<Longrightarrow> symmetric g'"
  unfolding graph_zero_def by (rule pair_upd_symmetric)

lemma inc_guarded_symmetric:
  "symmetric g \<Longrightarrow> inc_guarded g kf2_idx obs = Some g' \<Longrightarrow> symmetric g'"
proof (induction obs arbitrary: g)
  case Nil
  then show ?case by simp
next
  case (Cons o1 obs)
  then show ?case
    by (auto simp: bind_eq_Some_conv split: if_splits dest: graph_inc_symmetric)
qed

lemma dec_guarded_symmetric:
  "symmetric g \<Longrightarrow> dec_guarded g kf_obs obs = Some g' \<Longrightarrow> symmetric g'"
proof (induction obs arbitrary: g)
  case Nil
  then show ?case by simp
next
  case (Cons o1 obs)
  then show ?case
    by (auto simp: bind_eq_Some_conv split: if_splits dest: graph_dec_symmetric)
qed

lemma inc_each_symmetric:
  "symmetric g \<Longrightarrow> inc_each g obs other = Some g' \<Longrightarrow> symmetric g'"
proof (induction obs arbitrary: g)
  case Nil
  then show ?case by simp
next
  case (Cons o1 obs)
  then show ?case
    by (auto simp: bind_eq_Some_conv dest: graph_inc_symmetric)
qed

lemma zero_cols_symmetric:
  "symmetric g \<Longrightarrow> zero_cols g kf ks = Some g' \<Longrightarrow> symmetric g'"
proof (induction ks arbitrary: g)
  case Nil
  then show ?case by simp
next
  case (Cons k ks)
  then show ?case
    by (auto simp: bind_eq_Some_conv dest: graph_zero_symmetric)
qed

lemma zero_keyframe_symmetric:
  "symmetric g \<Longrightarrow> zero_keyframe g kf = Some g' \<Longrightarrow> symmetric g'"
  by (auto simp: zero_keyframe_def split: if_splits dest: zero_cols_symmetric)

lemma expandGraphs_nth:
  assumes "\<And>i. i < length g \<Longrightarrow> length (g ! i) = length g"
    and "i < Suc (length g)" and "j < Suc (length g)"
  shows "expandGraphs g ! i ! j = (if i < length g \<and> j < length g then g ! i ! j else 0)"
proof (cases "i < length g")
  case True
  then have "expandGraphs g ! i = g ! i @ [0]"
    using assms(1)[OF True] by (simp add: expandGraphs_def resize_def nth_append)
  then show ?thesis
    using True assms(1)[OF True] assms(3) by (auto simp: nth_append less_Suc_eq)
next
  case False
  then have "i = length g" using assms(2) by simp
  then have "expandGraphs g ! i = replicate (Suc (length g)) 0"
    by (simp add: expandGraphs_def resize_def nth_append)
  then show ?thesis
    using False assms(3) by (simp add: nth_Cons')
qed

lemma expandGraphs_symmetric:
  assumes "symmetric g"
  shows "symmetric (expandGraphs g)"
proof -
  from assms have sq: "\<And>i. i < length g \<Longrightarrow> length (g ! i) = length g"
    and sy: "\<And>i j. i < length g \<Longrightarrow> j < length g \<Longrightarrow> g ! i ! j = g ! j ! i"
    by (simp_all add: symmetric_iff)
  have len: "length (expandGraphs g) = Suc (length g)"
    by (simp add: expandGraphs_def resize_def)
  have rows: "length (expandGraphs g ! i) = Suc (length g)" if "i < Suc (length g)" for i
    using that sq[of i]
    by (cases "i < length g") (auto simp: expandGraphs_def resize_def nth_append less_Suc_eq)
  have "expandGraphs g ! i ! j = expandGraphs g ! j ! i"
    if "i < Suc (length g)" "j < Suc (length g)" for i j
    using that sy[of i j] by (simp add: expandGraphs_nth[OF sq])
  then show ?thesis
    unfolding symmetric_iff len using rows by simp
qed

lemma initial_graph_symmetric: "symmetric initial_graph"
  by (simp add: symmetric_def initial_graph_def)

text \<open>
  Claim C7. The covisibility matrix is symmetric after every mutation: starting from the
  matrix of \<^verbatim>\<open>initialize\<close>, every matrix produced by the increments of matching, the
  decrements of observation removal, the increments of loop-closure fusion, the growth by
  one keyframe and the zeroing of a removed keyframe is square and satisfies
  \<open>M[i][j] = M[j][i]\<close>. A mutation is the statement pair that writes \<open>(a,b)\<close> and
  \<open>(b,a)\<close>, as the source always writes them together.
\<close>

theorem covisibility_symmetric: "graph_reach g \<Longrightarrow> symmetric g"
proof (induction rule: graph_reach.induct)
  case initial
  show ?case by (rule initial_graph_symmetric)
next
  case (expand g)
  then show ?case by (simp add: expandGraphs_symmetric)
next
  case (new_landmark g a b g')
  then show ?case by (blast intro: graph_inc_symmetric)
next
  case (new_observation g kf2_idx obs g')
  then show ?case by (blast intro: inc_guarded_symmetric)
next
  case (removed_observation g kf_obs obs g')
  then show ?case by (blast intro: dec_guarded_symmetric)
next
  case (fused_observations g obs other g')
  then show ?case by (blast intro: inc_each_symmetric)
next
  case (removed_keyframe g kf g')
  then show ?case by (blast intro: zero_keyframe_symmetric)
qed

theorem covisibility_symmetric_witness:
  "graph_reach [[0, 2, 1], [2, 0, 0], [1, 0, 0]] \<and> symmetric [[0, 2, 1], [2, 0, 0], [1, 0, 0]]"
proof -
  have r1: "graph_reach (expandGraphs (expandGraphs initial_graph))"
    by (intro graph_reach.expand graph_reach.initial)
  have e: "expandGraphs (expandGraphs initial_graph) = [[0, 0, 0], [0, 0, 0], [0, 0, 0]]"
    by (simp add: expandGraphs_def resize_def initial_graph_def)
  have r2: "graph_reach [[0, 1, 0], [1, 0, 0], [0, 0, 0]]"
    by (rule graph_reach.new_landmark[OF r1, of 1 0])
       (simp add: e graph_inc_def pair_upd_def cell_upd_def)
  have r3: "graph_reach [[0, 2, 1], [2, 0, 0], [1, 0, 0]]"
    by (rule graph_reach.fused_observations[OF r2, of "[1, 2]" 0])
       (simp add: graph_inc_def pair_upd_def cell_upd_def)
  from covisibility_symmetric[OF r3] r3 show ?thesis by simp
qed

section \<open>Landmark fusion\<close>

lemma set_stereo_pt_idx_frame:
  "set_stereo_pt_idx s k l v = Some s' \<Longrightarrow>
     map_points s' = map_points s \<and> map_points_kf_idx s' = map_points_kf_idx s \<and>
     full_graph s' = full_graph s \<and> map_lines s' = map_lines s"
  by (auto simp: set_stereo_pt_idx_def bind_eq_Some_conv)

lemma fuse_pt_loop_lengths:
  "fuse_pt_loop A B N g iters = Some (A', g') \<Longrightarrow>
     length (mp_desc_list A') = length (mp_desc_list A) + length iters \<and>
     length (mp_obs_list A') = length (mp_obs_list A) + length iters \<and>
     length (mp_dir_list A') = length (mp_dir_list A) + length iters \<and>
     length (mp_kf_obs_list A') = length (mp_kf_obs_list A) + length iters"
proof (induction iters arbitrary: A g)
  case Nil
  then show ?case by simp
next
  case (Cons iter rest)
  from Cons.prems obtain A1 g1 where
    step: "fuse_pt_loop A1 B N g1 rest = Some (A', g')"
    and l1: "length (mp_desc_list A1) = Suc (length (mp_desc_list A))"
            "length (mp_obs_list A1) = Suc (length (mp_obs_list A))"
            "length (mp_dir_list A1) = Suc (length (mp_dir_list A))"
            "length (mp_kf_obs_list A1) = Suc (length (mp_kf_obs_list A))"
    by (auto simp: bind_eq_Some_conv Let_def)
  from Cons.IH[OF step] l1 show ?case by simp
qed

lemma fuse_pt_merge_result:
  assumes run: "fuse_pt_merge s kf_curr_idx lm_idx0 lm_idx1 lm_ldx1 = Some s'"
    and ne: "lm_idx0 \<noteq> lm_idx1"
    and A: "idx_at (map_points s) lm_idx0 = Some (Some A)"
    and B: "idx_at (map_points s) lm_idx1 = Some (Some B)"
    and kf: "keyframe_at s kf_curr_idx = Some kfc"
    and pf: "vec_at (stereo_pt (stereo_frame kfc)) lm_ldx1 = Some (Some pf)"
  shows "\<exists>A' g. fuse_pt_loop A B (length (mp_kf_obs_list A)) (full_graph s)
                   [0..<length (mp_desc_list B)] = Some (A', g) \<and>
                 map_points s' = (map_points s)[nat lm_idx0 := Some A', nat lm_idx1 := None] \<and>
                 full_graph s' = g"
  using run ne
  by (auto simp: fuse_pt_merge_def A B kf pf bind_eq_Some_conv
           dest!: set_stereo_pt_idx_frame split: if_splits)

text \<open>
  Claim C9. When the fusion step of a loop-edge correspondence merges two distinct resident
  point landmarks, \<open>B\<close> (\<^verbatim>\<open>map_points[lm_idx1]\<close>, the later keyframe's) into \<open>A\<close>
  (\<^verbatim>\<open>map_points[lm_idx0]\<close>), each of the four parallel lists of \<open>A\<close> (descriptors,
  observations, directions, owning keyframes) has afterwards the length it had before plus
  the length of the same list of \<open>B\<close>, and the slot of \<open>B\<close> is null. The merge happens
  when both slots are resident and the later keyframe's feature is not null; the lists of
  \<open>B\<close> are parallel, as the data model requires.
\<close>

theorem fusion_observation_count:
  assumes run: "fuse_pt_match s kf_prev_idx kf_curr_idx (lm_idx0, lm_ldx0, lm_idx1, lm_ldx1) = Some s'"
    and ne: "lm_idx0 \<noteq> lm_idx1"
    and A: "idx_at (map_points s) lm_idx0 = Some (Some A)"
    and B: "idx_at (map_points s) lm_idx1 = Some (Some B)"
    and kf: "keyframe_at s kf_curr_idx = Some kfc"
    and pf: "vec_at (stereo_pt (stereo_frame kfc)) lm_ldx1 = Some (Some pf)"
    and al: "mp_aligned B"
  shows "\<exists>A'. idx_at (map_points s') lm_idx0 = Some (Some A') \<and>
           length (mp_desc_list A') = length (mp_desc_list A) + length (mp_desc_list B) \<and>
           length (mp_obs_list A') = length (mp_obs_list A) + length (mp_obs_list B) \<and>
           length (mp_dir_list A') = length (mp_dir_list A) + length (mp_dir_list B) \<and>
           length (mp_kf_obs_list A') = length (mp_kf_obs_list A) + length (mp_kf_obs_list B) \<and>
           idx_at (map_points s') lm_idx1 = Some None"
proof -
  from A B have r0: "0 \<le> lm_idx0" "nat lm_idx0 < length (map_points s)"
    and r1: "0 \<le> lm_idx1" "nat lm_idx1 < length (map_points s)"
    by (auto simp: idx_at_def split: if_splits)
  then have sentinel: "lm_idx0 \<noteq> - 1" "lm_idx1 \<noteq> - 1" by auto
  from run sentinel have "fuse_pt_merge s kf_curr_idx lm_idx0 lm_idx1 lm_ldx1 = Some s'"
    by (simp add: fuse_pt_match_def)
  from fuse_pt_merge_result[OF this ne A B kf pf] obtain A' g where
    loop: "fuse_pt_loop A B (length (mp_kf_obs_list A)) (full_graph s)
             [0..<length (mp_desc_list B)] = Some (A', g)"
    and mp: "map_points s' = (map_points s)[nat lm_idx0 := Some A', nat lm_idx1 := None]"
    by blast
  from ne r0 r1 have nn: "nat lm_idx0 \<noteq> nat lm_idx1" by auto
  have a: "idx_at (map_points s') lm_idx0 = Some (Some A')"
    using r0 nn by (simp add: mp idx_at_def)
  have b: "idx_at (map_points s') lm_idx1 = Some None"
    using r1 by (simp add: mp idx_at_def)
  from fuse_pt_loop_lengths[OF loop] al a b show ?thesis
    by (auto simp: mp_aligned_def)
qed

lemmas fusion_eval =
  fuse_pt_match_def fuse_pt_merge_def fuse_pt_create_def idx_at_def vec_at_def keyframe_at_def
  keyframe_one_point_def point_seen_by_def set_stereo_pt_idx_def graph_inc_def pair_upd_def
  cell_upd_def new_MapPoint_def addMapPointObservation_def Let_def

theorem fusion_observation_count_witness:
  "\<exists>s' A'. fuse_pt_match scenario_state 4 7 (0, 0, 1, 0) = Some s' \<and>
     idx_at (map_points s') 0 = Some (Some A') \<and>
     length (mp_desc_list A') = 8 \<and> length (mp_obs_list A') = 8 \<and>
     length (mp_dir_list A') = 8 \<and> length (mp_kf_obs_list A') = 8 \<and>
     idx_at (map_points s') 1 = Some None"
proof -
  have "fuse_pt_match scenario_state 4 7 (0, 0, 1, 0) \<noteq> None"
    by (simp add: scenario_state_def fusion_eval upt_rec)
  then obtain s' where run: "fuse_pt_match scenario_state 4 7 (0, 0, 1, 0) = Some s'"
    by blast
  have A: "idx_at (map_points scenario_state) 0 = Some (Some (point_seen_by 0 [0, 1, 2, 3, 4]))"
    and B: "idx_at (map_points scenario_state) 1 = Some (Some (point_seen_by 1 [5, 6, 7]))"
    and kf: "keyframe_at scenario_state 7 = keyframe_one_point 7 1"
    by (simp_all add: scenario_state_def idx_at_def keyframe_at_def vec_at_def keyframe_one_point_def)
  have pf: "vec_at (stereo_pt (stereo_frame (the (keyframe_one_point 7 1)))) 0
              = Some (Some \<lparr>pt_idx = 1, pt_pl = [10, 10], pt_P = [0, 0, 1]\<rparr>)"
    by (simp add: keyframe_one_point_def vec_at_def)
  have kf': "keyframe_at scenario_state 7 = Some (the (keyframe_one_point 7 1))"
    by (simp add: kf keyframe_one_point_def)
  have al: "mp_aligned (point_seen_by 1 [5, 6, 7])"
    by (simp add: mp_aligned_def point_seen_by_def)
  from fusion_observation_count[OF run _ A B kf' pf al] run show ?thesis
    by (auto simp: point_seen_by_def)
qed

text \<open>
  Claim C8 asks that a merge increments the matrix once per keyframe pair that newly shares
  the merged landmark, not for pairs that shared one of the two landmarks before, and
  never on the diagonal. The merge loop (lines 5620-5634) increments \<open>(idx, jdx)\<close> and
  \<open>(jdx, idx)\<close> for every observer \<open>idx\<close> of \<open>A\<close> and every observer \<open>jdx\<close> of \<open>B\<close>,
  with no test that \<open>idx\<close> and \<open>jdx\<close> differ (the matching and removal loops have that
  test). On the map \<open>overlap_state\<close>, where keyframe 1 observes both landmarks, the
  matrix \<open>[[0,1,0],[1,0,1],[0,1,0]]\<close> becomes the one below: only the pair \<open>(0,2)\<close> is
  newly shared, but \<open>(0,1)\<close> and \<open>(1,2)\<close> are counted again and the diagonal cell
  \<open>(1,1)\<close> is incremented twice.
\<close>

theorem fusion_counts_shared_observer:
  "map_option full_graph (fuse_pt_match overlap_state 0 2 (0, 0, 1, 0))
     = Some [[0, 2, 1], [2, 2, 2], [1, 2, 0]]"
  by (simp add: overlap_state_def fusion_eval upt_rec)


section \<open>Pending loop edges at the end of the correction\<close>

lemma fuse_pt_edges_marked:
  assumes "\<forall>e \<in> set (lc_idx_list s). snd (snd e) \<noteq> 1"
    and "lc_idx + length idxss \<le> length (lc_idx_list s)"
  shows "fuse_pt_edges s lc_idx idxss = Some s"
  using assms(2)
proof (induction idxss arbitrary: lc_idx)
  case Nil
  show ?case by simp
next
  case (Cons idxs rest)
  then have in_range: "lc_idx < length (lc_idx_list s)" by simp
  then have "lc_idx_list s ! lc_idx \<in> set (lc_idx_list s)" by simp
  with assms(1) have "snd (snd (lc_idx_list s ! lc_idx)) \<noteq> 1" by blast
  moreover have "fuse_pt_edges s (Suc lc_idx) rest = Some s"
    using Cons.prems by (intro Cons.IH) simp
  ultimately show ?case
    using in_range by (auto simp: vec_at_def split: prod.splits)
qed

lemma fuse_ls_edges_marked:
  assumes "\<forall>e \<in> set (lc_idx_list s). snd (snd e) \<noteq> 1"
    and "lc_idx + length idxss \<le> length (lc_idx_list s)"
  shows "fuse_ls_edges s lc_idx idxss = Some s"
  using assms(2)
proof (induction idxss arbitrary: lc_idx)
  case Nil
  show ?case by simp
next
  case (Cons idxs rest)
  then have in_range: "lc_idx < length (lc_idx_list s)" by simp
  then have "lc_idx_list s ! lc_idx \<in> set (lc_idx_list s)" by simp
  with assms(1) have "snd (snd (lc_idx_list s ! lc_idx)) \<noteq> 1" by blast
  moreover have "fuse_ls_edges s (Suc lc_idx) rest = Some s"
    using Cons.prems by (intro Cons.IH) simp
  ultimately show ?case
    using in_range by (auto simp: vec_at_def split: prod.splits)
qed

lemma mark_optimized_markers: "\<forall>e \<in> set (lc_idx_list (mark_optimized s)). snd (snd e) \<noteq> 1"
  by (auto simp: mark_optimized_def)

text \<open>Whatever edges are pending, the end of the correction fuses none of them: the
  markers are cleared before \<^verbatim>\<open>loopClosureFuseLandmarks\<close> tests them.\<close>

lemma finish_skips_fusion:
  assumes "length (lc_pt_idxs s) \<le> length (lc_idx_list s)"
    and "length (lc_ls_idxs s) \<le> length (lc_idx_list s)"
  shows "loopClosureOptimization_finish s = Some ((mark_optimized s)\<lparr>lc_state := LC_IDLE\<rparr>)"
proof -
  have l: "length (lc_idx_list (mark_optimized s)) = length (lc_idx_list s)"
    "lc_pt_idxs (mark_optimized s) = lc_pt_idxs s" "lc_ls_idxs (mark_optimized s) = lc_ls_idxs s"
    by (simp_all add: mark_optimized_def)
  have p: "fuse_pt_edges (mark_optimized s) 0 (lc_pt_idxs s) = Some (mark_optimized s)"
    using assms(1) by (intro fuse_pt_edges_marked mark_optimized_markers) (simp add: l)
  have q: "fuse_ls_edges (mark_optimized s) 0 (lc_ls_idxs s) = Some (mark_optimized s)"
    using assms(2) by (intro fuse_ls_edges_marked mark_optimized_markers) (simp add: l)
  show ?thesis
    by (simp add: loopClosureOptimization_finish_def loopClosureFuseLandmarks_def l p q)
qed

lemma pending_marked: "mark_optimized pending_state = pending_state\<lparr>lc_idx_list := [(0, 1, 0)]\<rparr>"
  by (simp add: mark_optimized_def pending_state_def)

text \<open>
  Claim C1 asks that, once the loop state is \<^verbatim>\<open>LC_READY\<close> and the pose-graph
  optimization completes, the correspondences of every pending edge whose marker is still
  set are fused, the marker being cleared with or after the fusion. On \<open>pending_state\<close>
  (one pending edge between keyframes 0 and 1, one correspondence, neither feature having a
  landmark) the correction ends with the marker cleared, the state \<^verbatim>\<open>LC_IDLE\<close> and the
  map as it was: no landmark is created. The same \<^verbatim>\<open>loopClosureFuseLandmarks\<close>, run
  while the marker is still set, creates the landmark observed by keyframes 0 and 1.
\<close>

theorem pending_edge_not_fused:
  "loopClosure_correct pending_state
     = Some (pending_state\<lparr>lc_idx_list := [(0, 1, 0)], lc_state := LC_IDLE\<rparr>) \<and>
   map_option (map (map_option mp_kf_obs_list) \<circ> map_points) (loopClosureFuseLandmarks pending_state)
     = Some [Some [0, 1]]"
proof -
  have a: "loopClosureOptimization_finish pending_state
             = Some ((mark_optimized pending_state)\<lparr>lc_state := LC_IDLE\<rparr>)"
    by (rule finish_skips_fusion) (simp_all add: pending_state_def)
  have b: "lc_state pending_state = LC_READY" by (simp add: pending_state_def)
  have c: "map_option (map (map_option mp_kf_obs_list) \<circ> map_points)
             (loopClosureFuseLandmarks pending_state) = Some [Some [0, 1]]"
    by (simp add: loopClosureFuseLandmarks_def pending_state_def fusion_eval)
  show ?thesis
    by (simp add: loopClosure_correct_def a b c pending_marked)
qed

section \<open>Culling and the covisibility counts\<close>

lemma cull_point_full_graph: "cull_point n s i = Some s' \<Longrightarrow> full_graph s' = full_graph s"
  by (auto simp: cull_point_def bind_eq_Some_conv split: option.splits if_splits)

lemma cull_line_full_graph: "cull_line n s i = Some s' \<Longrightarrow> full_graph s' = full_graph s"
  by (auto simp: cull_line_def bind_eq_Some_conv split: option.splits if_splits)

lemma cull_points_full_graph: "cull_points n s is = Some s' \<Longrightarrow> full_graph s' = full_graph s"
  by (induction "is" arbitrary: s) (auto simp: bind_eq_Some_conv dest: cull_point_full_graph)

lemma cull_lines_full_graph: "cull_lines n s is = Some s' \<Longrightarrow> full_graph s' = full_graph s"
  by (induction "is" arbitrary: s) (auto simp: bind_eq_Some_conv dest: cull_line_full_graph)

text \<open>Culling never changes the matrix, whatever it deletes.\<close>

lemma removeBadMapLandmarks_full_graph:
  "removeBadMapLandmarks n s = Some s' \<Longrightarrow> full_graph s' = full_graph s"
  by (auto simp: removeBadMapLandmarks_def bind_eq_Some_conv
           dest!: cull_points_full_graph cull_lines_full_graph)

text \<open>The local optimizer's removal of the observation of keyframe 1 from the same
  landmark takes the count of the pair \<open>(0,1)\<close> from 1 to 0.\<close>

lemma lba_removal_decrements:
  "map_option (\<lambda>s'. (map (map_option mp_kf_obs_list) (map_points s'),
                      full_graph s' ! 0 ! 1, full_graph s' ! 1 ! 0))
     (remove_bad_pt_observations cull_state
        [\<lparr>ob_lm_idx = 0, ob_lm_local = 0, ob_obs = 1, ob_kf_idx = 1, ob_kf_local = 0,
          ob_inlier = - 1\<rparr>])
     = Some ([Some [0]], 0, 0)"
  by (simp add: remove_bad_pt_observations_def remove_pt_observation_def cull_state_def vec_at_def
        idx_at_def keyframe_at_def erase_at_def keyframe_one_point_def point_seen_by_def
        graph_dec_def pair_upd_def cell_upd_def nth_list_update)

text \<open>
  Claim C6 asks that every operation that removes a shared observation of a landmark,
  culling by \<^verbatim>\<open>removeBadMapLandmarks\<close> included, decrements \<^verbatim>\<open>full_graph[i][j]\<close> for
  each keyframe pair that no longer shares the landmark. On \<open>cull_state\<close> the landmark
  observed by keyframes 0 and 1 is culled with \<^verbatim>\<open>minLMObs\<close> 3: its slot becomes null and
  the cells \<open>(0,1)\<close> and \<open>(1,0)\<close> still hold 1, although the two keyframes share no
  landmark any more.
\<close>

theorem culled_landmark_still_counted:
  "map_option (\<lambda>s'. (map_points s', full_graph s' ! 0 ! 1, full_graph s' ! 1 ! 0))
     (removeBadMapLandmarks 3 cull_state) = Some ([None], 1, 1)"
  by (simp add: removeBadMapLandmarks_def cull_point_def cull_state_def vec_at_def keyframe_at_def
        keyframe_one_point_def point_seen_by_def)

section \<open>The decision of the geometric verification\<close>

text \<open>The accepting condition of \<^verbatim>\<open>computeRelativePoseRobustGN\<close> is the conjunction of
  four tests; the inlier ratio does not enter it.\<close>

lemma decision_ignores_ratio:
  "loop_closure_decision cfg eig e H x_inc lc_points lc_lines \<longleftrightarrow>
     double_less e (Finite (lcRes cfg)) \<and>
     double_less (eig H) (Finite (lcUnc cfg)) \<and>
     norm_vec (take 3 x_inc) < lcTrs cfg \<and>
     norm_vec (drop 3 x_inc) * 180 / pi < lcRot cfg"
  by (simp add: loop_closure_decision_def Let_def)

subsection \<open>The sums of the example\<close>

lemma upt_0_6: "[0..<6] = [0, 1, 2, 3, 4, 5]"
  by (simp add: upt_rec)

lemma Zero6_rows:
  "Zero6 = [[0, 0, 0, 0, 0, 0], [0, 0, 0, 0, 0, 0], [0, 0, 0, 0, 0, 0],
            [0, 0, 0, 0, 0, 0], [0, 0, 0, 0, 0, 0], [0, 0, 0, 0, 0, 0]]"
  by (simp add: Zero6_def eval_nat_numeral)

lemma norm_vec_axis: "norm_vec [a, 0] = \<bar>a\<bar>" "norm_vec [0, b] = \<bar>b\<bar>"
  by (simp_all add: norm_vec_def)

text \<open>The vector \<open>g\<close> of the sums, alone.\<close>

lemma gn_g_foldl:
  "gn_g (foldl (add_term w) s cs) =
     foldl (\<lambda>g c. if fst c then map2 (+) g (map (\<lambda>x. x * fst (snd c) * w (fst (snd c))) (snd (snd c))) else g)
       (gn_g s) cs"
  by (induction cs arbitrary: s) (auto simp: add_term_def Let_def split: prod.splits)

text \<open>The norm of the projection error and \<^verbatim>\<open>J_aux\<close> of the correspondences under the
  identity. The two observations of a point have opposite \<^verbatim>\<open>J_aux\<close>.\<close>

lemma point_residual_consistent:
  "map (point_residual lc_config_example vga_camera identity_pose) consistent_points =
     [(1, [180, 0, - 60, - 60, 200, - 180]),
      (1, [- 180, 0, 60, 60, - 200, 180]),
      (1, [180, 0, 60, 60, 200, - 180]),
      (1, [- 180, 0, - 60, - 60, - 200, 180]),
      (1, [180, 0, - 60, 60, 200, 180]),
      (1, [- 180, 0, 60, - 60, - 200, - 180]),
      (1, [180, 0, 60, - 60, 200, 180]),
      (1, [- 180, 0, - 60, 60, - 200, - 180]),
      (1, [0, 180, - 90, - 225, 30, 60]),
      (1, [0, - 180, 90, 225, - 30, - 60]),
      (1, [0, 180, - 90, - 225, - 30, - 60]),
      (1, [0, - 180, 90, 225, 30, 60]),
      (1, [0, 180, 90, - 225, - 30, 60]),
      (1, [0, - 180, - 90, 225, 30, - 60]),
      (1, [0, 180, 90, - 225, 30, - 60]),
      (1, [0, - 180, - 90, 225, - 30, 60])]"
  by (simp add: consistent_points_def point_residual_def lc_config_example_def vga_camera_def
        identity_pose_def transform_point_def norm_vec_def jacobian_entries_def Let_def)

lemma point_residual_inconsistent:
  "map (point_residual lc_config_example vga_camera identity_pose) inconsistent_points =
     concat (map (\<lambda>k. [(10 + k, [180 / (2 + k), 0, 0, 0, 180, 0]),
                        (10 + k, [- 180 / (2 + k), 0, 0, 0, - 180, 0])])
       [0, 1, 2, 3, 4, 5, 6, 7, 8, 9, 10, 11])"
  by (simp add: inconsistent_points_def inconsistent_pair_def point_residual_def
        lc_config_example_def vga_camera_def identity_pose_def transform_point_def norm_vec_axis
        jacobian_entries_def Let_def)

text \<open>With all forty flags set, \<open>g\<close> is zero under the identity: the identity is a
  stationary pose of the first loop.\<close>

lemma forty_points_gradient:
  "gn_g (point_sums lc_config_example cauchy_weight vga_camera identity_pose forty_points)
     = [0, 0, 0, 0, 0, 0]"
proof -
  have r: "map (\<lambda>pt. (lcp_inlier pt, point_residual lc_config_example vga_camera identity_pose pt))
             forty_points
        = map (Pair True) (map (point_residual lc_config_example vga_camera identity_pose) forty_points)"
    by (simp add: forty_points_def consistent_points_def inconsistent_points_def
          inconsistent_pair_def)
  show ?thesis
    unfolding point_sums_def gn_g_foldl r
    by (simp add: forty_points_def point_residual_consistent point_residual_inconsistent
          cauchy_weight_def eval_nat_numeral)
qed

lemma no_lines:
  "line_sums cfg w cam T [] = \<lparr>gn_H = Zero6, gn_g = replicate 6 0, gn_e = 0, gn_N = 0\<rparr>"
  by (simp add: line_sums_def)

lemma flagged_out_skipped:
  "foldl (add_term w) s
     (map (\<lambda>pt. (lcp_inlier pt, f pt)) (map (\<lambda>pt. pt\<lparr>lcp_inlier := False\<rparr>) inconsistent_points)) = s"
  by (simp add: inconsistent_points_def inconsistent_pair_def add_term_def)

text \<open>With the sixteen flags that the removal of outliers leaves, the sums under the
  identity.\<close>

lemma verification_sums:
  "point_sums lc_config_example cauchy_weight vga_camera identity_pose sixteen_of_forty
     = \<lparr>gn_H = verification_H, gn_g = [0, 0, 0, 0, 0, 0], gn_e = 8, gn_N = 16\<rparr>"
proof -
  have "foldl (add_term cauchy_weight) \<lparr>gn_H = Zero6, gn_g = replicate 6 0, gn_e = 0, gn_N = 0\<rparr>
          (map (\<lambda>pt. (lcp_inlier pt, point_residual lc_config_example vga_camera identity_pose pt))
             consistent_points)
        = \<lparr>gn_H = verification_H, gn_g = [0, 0, 0, 0, 0, 0], gn_e = 8, gn_N = 16\<rparr>"
    using point_residual_consistent
    by (simp add: consistent_points_def add_term_def cauchy_weight_def Zero6_rows mat_add_def
          outer_product_def verification_H_def Let_def eval_nat_numeral)
  then show ?thesis
    by (simp add: point_sums_def sixteen_of_forty_def flagged_out_skipped del: map_map)
qed

subsection \<open>The solver and the pose maps of the example\<close>

text \<open>\<open>verification_solver\<close> solves the system of the matrix of the example, and returns
  zero for the right-hand side zero.\<close>

lemma verification_solver_solves:
  "mat_vec verification_H (verification_solver H [g0, g1, g2, g3, g4, g5])
     = [g0, g1, g2, g3, g4, g5]"
  by (simp add: mat_vec_def verification_solver_def verification_H_def verification_cov_def
        algebra_simps)

lemma zero_step:
  "verification_solver H [0, 0, 0, 0, 0, 0] = [0, 0, 0, 0, 0, 0]"
  by (simp add: verification_solver_def verification_cov_def)

lemma zero_step_pose:
  "mat_mul identity_pose (inverse_se3 translation_se3 (expmap_se3 translation_se3 [0, 0, 0, 0, 0, 0]))
     = identity_pose"
  by (simp add: mat_mul_def identity_pose_def translation_se3_def upt_rec)

lemma epsilon_pos: "0 < epsilon"
  by (simp add: epsilon_def)

subsection \<open>The first loop and the removal of outliers\<close>

text \<open>An iteration of the first loop from the identity leaves the loop with the identity,
  at one of the two \<^verbatim>\<open>break\<close> statements, and \<^verbatim>\<open>err_prev\<close> as it was.\<close>

lemma first_loop_iteration:
  assumes "gs_T_inc s = identity_pose"
  shows "\<exists>s'. gn_iteration lc_config_example cauchy_weight vga_camera verification_solver
                translation_se3 forty_points [] s = Break s' \<and>
              gs_T_inc s' = identity_pose \<and> gs_err_prev s' = gs_err_prev s"
  using epsilon_pos
  by (simp add: gn_iteration_def Let_def assms forty_points_gradient no_lines eval_nat_numeral
        zero_step zero_step_pose norm_vec_def)

lemma first_loop:
  "gs_T_inc (gn_loop lc_config_example cauchy_weight vga_camera verification_solver
       translation_se3 forty_points [] maxIters gn_initial) = identity_pose \<and>
   gs_err_prev (gn_loop lc_config_example cauchy_weight vga_camera verification_solver
       translation_se3 forty_points [] maxIters gn_initial) = Finite (9999999999 / 10)"
proof (cases maxIters)
  case 0
  then show ?thesis by (simp add: gn_initial_def)
next
  case (Suc n)
  have "gs_T_inc gn_initial = identity_pose" by (simp add: gn_initial_def)
  from first_loop_iteration[OF this] obtain s' where
    "gn_iteration lc_config_example cauchy_weight vga_camera verification_solver
                translation_se3 forty_points [] gn_initial = Break s'"
    "gs_T_inc s' = identity_pose" "gs_err_prev s' = gs_err_prev gn_initial" by blast
  then show ?thesis using Suc by (simp add: gn_initial_def)
qed

lemma chi_square_bound: "1 < sqrt (7815 / 1000)" "sqrt (7815 / 1000) < 3"
proof -
  have "sqrt 1 < sqrt (7815 / 1000)" by (subst real_sqrt_less_iff) simp
  then show "1 < sqrt (7815 / 1000)" by simp
  have "sqrt (7815 / 1000) < sqrt (3 * 3)" by (subst real_sqrt_less_iff) simp
  then show "sqrt (7815 / 1000) < 3" by simp
qed

text \<open>The removal of outliers under the identity clears the flags of the twenty-four.\<close>

lemma outliers_removed:
  "map (remove_outlier_point vga_camera identity_pose) forty_points = sixteen_of_forty"
  using chi_square_bound
  by (simp add: forty_points_def consistent_points_def inconsistent_points_def inconsistent_pair_def
        sixteen_of_forty_def remove_outlier_point_def vga_camera_def identity_pose_def
        transform_point_def norm_vec_axis Let_def)

lemma verification_ratio:
  "final_ratio_inliers lc_config_example maxIters cauchy_weight vga_camera verification_solver
     translation_se3 forty_points [] = Finite (2 / 5)"
  by (simp add: final_ratio_inliers_def Let_def first_loop outliers_removed)
     (simp add: ratio_inliers_def consistent_points_def sixteen_of_forty_def inconsistent_points_def
        inconsistent_pair_def double_div_def Let_def)

subsection \<open>The second loop\<close>

text \<open>The first iteration of the second loop computes the sums over the sixteen, finds the
  step zero and leaves the loop at the second \<^verbatim>\<open>break\<close>.\<close>

lemma second_loop_iteration:
  assumes "gs_T_inc s = identity_pose" and "gs_err_prev s = Finite (9999999999 / 10)"
  shows "\<exists>s'. gn_iteration lc_config_example cauchy_weight vga_camera verification_solver
                translation_se3 sixteen_of_forty [] s = Break s' \<and>
              gs_T_inc s' = identity_pose \<and> gs_H s' = verification_H \<and> gs_e s' = Finite (1 / 2)"
proof -
  have H: "mat_add verification_H Zero6 = verification_H"
    by (simp add: mat_add_def verification_H_def Zero6_rows)
  have e: "\<not> (1 / 2 :: real) < epsilon" "\<not> \<bar>1 / 2 - 9999999999 / 10\<bar> < epsilon"
    by (simp_all add: epsilon_def)
  show ?thesis
    using epsilon_pos e
    by (simp add: gn_iteration_def Let_def assms verification_sums no_lines H eval_nat_numeral
          zero_step zero_step_pose norm_vec_def double_div_def)
qed

subsection \<open>The covariance of the example\<close>

lemma verification_cov_inverse:
  "mat_mul6 verification_H verification_cov = Identity6 \<and>
   mat_mul6 verification_cov verification_H = Identity6"
  by (simp add: mat_mul6_def verification_H_def verification_cov_def Identity6_def upt_0_6)

lemma verification_cov_eigenvector:
  "mat_vec verification_cov [9, 0, 0, 0, - 8, 0] = map (\<lambda>x. 1 / 1600 * x) [9, 0, 0, 0, - 8, 0]"
  by (simp add: mat_vec_def verification_cov_def)

text \<open>No eigenvalue of the inverse is above \<open>1/1600\<close>: for an eigenvector \<open>v\<close> with
  eigenvalue \<open>\<mu>\<close>, the number \<open>(1/1600 - \<mu>) |v|\<^sup>2\<close> is a sum of squares.\<close>

lemma verification_cov_largest:
  assumes "eigenvalue verification_cov \<mu>"
  shows "\<mu> \<le> 1 / 1600"
proof -
  from assms obtain v where len: "length v = 6" and nz: "\<exists>x \<in> set v. x \<noteq> 0"
    and eq: "mat_vec verification_cov v = map (\<lambda>x. \<mu> * x) v"
    by (auto simp: eigenvalue_def)
  from len obtain v0 v1 v2 v3 v4 v5 where v: "v = [v0, v1, v2, v3, v4, v5]"
    by (auto simp: length_Suc_conv eval_nat_numeral)
  from eq have e0: "\<mu> * v0 = 409 / 1166400 * v0 - 1 / 3240 * v4"
    and e1: "\<mu> * v1 = 241 / 2073600 * v1 + 1 / 11520 * v3"
    and e2: "\<mu> * v2 = 1 / 46800 * v2"
    and e3: "\<mu> * v3 = 1 / 11520 * v1 + 1 / 14400 * v3"
    and e4: "\<mu> * v4 = - (1 / 3240) * v0 + 1 / 3600 * v4"
    and e5: "\<mu> * v5 = 1 / 144000 * v5"
    by (simp_all add: v mat_vec_def verification_cov_def)
  define S where "S = v0 * v0 + v1 * v1 + v2 * v2 + v3 * v3 + v4 * v4 + v5 * v5"
  have Spos: "0 < S"
  proof -
    have "0 \<le> S" by (simp add: S_def)
    moreover have "S \<noteq> 0"
    proof
      assume "S = 0"
      then have "v0 = 0 \<and> v1 = 0 \<and> v2 = 0 \<and> v3 = 0 \<and> v4 = 0 \<and> v5 = 0"
        unfolding S_def by (simp add: add_nonneg_eq_0_iff)
      with nz show False by (simp add: v)
    qed
    ultimately show ?thesis by simp
  qed
  have "\<mu> * S = v0 * (\<mu> * v0) + v1 * (\<mu> * v1) + v2 * (\<mu> * v2) + v3 * (\<mu> * v3)
                 + v4 * (\<mu> * v4) + v5 * (\<mu> * v5)"
    by (simp add: S_def algebra_simps)
  also have "\<dots> = v0 * (409 / 1166400 * v0 - 1 / 3240 * v4) + v1 * (241 / 2073600 * v1 + 1 / 11520 * v3)
                 + v2 * (1 / 46800 * v2) + v3 * (1 / 11520 * v1 + 1 / 14400 * v3)
                 + v4 * (- (1 / 3240) * v0 + 1 / 3600 * v4) + v5 * (1 / 144000 * v5)"
    by (simp only: e0 e1 e2 e3 e4 e5)
  finally have Q: "\<mu> * S = v0 * (409 / 1166400 * v0 - 1 / 3240 * v4)
                 + v1 * (241 / 2073600 * v1 + 1 / 11520 * v3)
                 + v2 * (1 / 46800 * v2) + v3 * (1 / 11520 * v1 + 1 / 14400 * v3)
                 + v4 * (- (1 / 3240) * v0 + 1 / 3600 * v4) + v5 * (1 / 144000 * v5)" .
  have sos: "1 / 1600 * S - \<mu> * S =
               1 / 3645 * ((v0 + 9 / 8 * v4) * (v0 + 9 / 8 * v4))
             + 1 / 1800 * ((v3 - 5 / 32 * v1) * (v3 - 5 / 32 * v1)) + 1643 / 3317760 * (v1 * v1)
             + 113 / 187200 * (v2 * v2) + 89 / 144000 * (v5 * v5)"
    unfolding Q by (simp add: S_def algebra_simps)
  have "0 \<le> 1 / 1600 * S - \<mu> * S"
    unfolding sos by (intro add_nonneg_nonneg zero_le_square mult_nonneg_nonneg) simp_all
  then have "\<mu> * S \<le> 1 / 1600 * S" by simp
  with Spos show ?thesis by (simp add: mult_le_cancel_right)
qed

text \<open>So \<open>1/1600\<close> is \<^verbatim>\<open>DT_cov_eig(5)\<close> for the matrix of the example.\<close>

lemma verification_eigenvalue: "largest_eigenvalue_of_inverse verification_H (1 / 1600)"
proof -
  have "eigenvalue verification_cov (1 / 1600)"
    unfolding eigenvalue_def
    by (intro exI[of _ "[9, 0, 0, 0, - 8, 0]"]) (simp add: verification_cov_eigenvector)
  then show ?thesis
    unfolding largest_eigenvalue_of_inverse_def
    using verification_cov_inverse verification_cov_largest by blast
qed

subsection \<open>The candidate is accepted\<close>

text \<open>
  Claim C2 asks that \<^verbatim>\<open>computeRelativePoseRobustGN\<close> returns true only when five tests
  hold jointly, and in particular that a candidate whose final inlier ratio is at or below
  \<^verbatim>\<open>SlamConfig::lcInl()\<close> is rejected. The function is called with forty point
  correspondences, all flagged, of which sixteen are one pixel and twenty-four ten pixels
  and more from their projection under the identity. For every number of iterations of the
  first loop and every positive number of iterations of the second, the first loop ends
  with the identity, the removal of outliers clears twenty-four flags, and the inlier ratio
  that the function computes is \<open>2/5\<close>, below the threshold \<open>1/2\<close>: the test
  \<^verbatim>\<open>ratio_inliers > lcInl\<close> is false. The second loop leaves a matrix \<open>H\<close> of full rank,
  whose inverse has the largest eigenvalue \<open>1/1600\<close>, below \<^verbatim>\<open>lcUnc\<close>, and the normalized
  error \<open>1/2\<close>, below \<^verbatim>\<open>lcRes\<close>; the translation and the rotation of \<^verbatim>\<open>x_inc\<close> are
  zero. The function returns true, because \<^verbatim>\<open>lc_inl = true;\<close> (line 5014) overwrites the
  result of the ratio test.
\<close>

theorem below_threshold_ratio_accepted:
  "final_ratio_inliers lc_config_example maxIters cauchy_weight vga_camera verification_solver
     translation_se3 forty_points [] = Finite (2 / 5) \<and>
   lcInl lc_config_example = 1 / 2 \<and>
   \<not> double_less (Finite (lcInl lc_config_example))
       (final_ratio_inliers lc_config_example maxIters cauchy_weight vga_camera verification_solver
          translation_se3 forty_points []) \<and>
   computeRelativePoseRobustGN lc_config_example maxIters (Suc n) cauchy_weight vga_camera
     verification_solver translation_se3 verification_eigensolver forty_points []"
proof -
  define s1 where "s1 = gn_loop lc_config_example cauchy_weight vga_camera verification_solver
       translation_se3 forty_points [] maxIters gn_initial"
  have s1: "gs_T_inc s1 = identity_pose" "gs_err_prev s1 = Finite (9999999999 / 10)"
    using first_loop[of maxIters] by (simp_all add: s1_def)
  from second_loop_iteration[OF s1] obtain s2 where
    it: "gn_iteration lc_config_example cauchy_weight vga_camera verification_solver
           translation_se3 sixteen_of_forty [] s1 = Break s2"
    and s2: "gs_T_inc s2 = identity_pose" "gs_H s2 = verification_H" "gs_e s2 = Finite (1 / 2)"
    by blast
  have loop: "gn_loop lc_config_example cauchy_weight vga_camera verification_solver
           translation_se3 sixteen_of_forty [] (Suc n) s1 = s2"
    by (simp add: it)
  have log: "logmap_se3 translation_se3 identity_pose = [0, 0, 0, 0, 0, 0]"
    by (simp add: translation_se3_def identity_pose_def)
  have acc: "computeRelativePoseRobustGN lc_config_example maxIters (Suc n) cauchy_weight vga_camera
     verification_solver translation_se3 verification_eigensolver forty_points []"
    unfolding computeRelativePoseRobustGN_def Let_def s1_def[symmetric]
    by (simp only: s1 outliers_removed list.map loop s2 log)
       (simp add: loop_closure_decision_def Let_def verification_eigensolver_def norm_vec_def
          lc_config_example_def)
  have inl: "lcInl lc_config_example = 1 / 2"
    by (simp add: lc_config_example_def)
  show ?thesis
    using acc by (simp add: verification_ratio inl)
qed
section \<open>The error normalization of the local optimizer\<close>

lemma foldl_add_residual_counters:
  "Npt_obs (foldl (add_residual res) a obs) = Npt_obs a \<and>
   Nls_obs (foldl (add_residual res) a obs) = Nls_obs a"
  by (induction obs arbitrary: a) (auto simp: add_residual_def split: option.splits)

lemma accumulate_divisor: "divisor (accumulate res_pt res_ls a pts lss) = divisor a"
  by (simp add: divisor_def accumulate_def foldl_add_residual_counters)

text \<open>
  Claim C3 asks that the normalization \<^verbatim>\<open>err /= (Npt_obs+Nls_obs)\<close> of
  \<^verbatim>\<open>levMarquardtOptimizationLBAForPluker\<close> never has a zero divisor when the solver is
  called with at least one observation. The two counters are written once, by their
  initialization to 0; for all observation lists and all residuals, the divisor is 0 before
  the first solve and in every iteration, and the quotient is not a real number.
\<close>

theorem normalization_divisor_zero:
  "divisor (initial_sums res_pt res_ls pt_obs_list ls_obs_list) = 0 \<and>
   normalize_err (initial_sums res_pt res_ls pt_obs_list ls_obs_list) = None \<and>
   divisor (iteration_sums res_pt res_ls (initial_sums res_pt res_ls pt_obs_list ls_obs_list)
              pt_obs_list ls_obs_list) = 0 \<and>
   normalize_err (iteration_sums res_pt res_ls (initial_sums res_pt res_ls pt_obs_list ls_obs_list)
              pt_obs_list ls_obs_list) = None"
  by (simp add: normalize_err_def initial_sums_def iteration_sums_def accumulate_divisor)
     (simp add: divisor_def accumulate_def foldl_add_residual_counters)

text \<open>A call that passes the test of \<^verbatim>\<open>localBundleAdjustmentForPluker\<close> with a single
  point observation is such a call.\<close>

lemma called_solver_divides_by_zero:
  "solver_precondition [ob] [] \<and>
   normalize_err (initial_sums res_pt res_ls [ob] []) = None"
  by (simp add: solver_precondition_def normalize_err_def initial_sums_def accumulate_divisor)
     (simp add: divisor_def)


section \<open>The publication of line landmarks\<close>

text \<open>What the publication stores is the conversion of the difference between the block
  of \<open>X\<close> and the stored orthonormal parameters.\<close>

lemma publish_line_NDw:
  assumes "publish_line conv xs Nkf Npt ls_list lines i = Some lines'"
    and "vec_at ls_list i = Some lm" and "idx_at lines lm = Some (Some ml)"
  shows "map_option (map_option NDw) (idx_at lines' lm)
           = Some (Some (conv (vec_sub (block xs (6 * Nkf + 3 * Npt + 4 * i) 4) (orthNDw ml))))"
  using assms
  by (auto simp: publish_line_def Let_def idx_at_def split: if_splits)

text \<open>
  Claim C4 asks that the published Pluecker coordinates \<^verbatim>\<open>NDw\<close> of a local line landmark
  are \<^verbatim>\<open>changeOrthToPluker\<close> of its optimized orthonormal parameters in the final \<open>X\<close>.
  For a window with one line landmark whose parameters the optimizer left at
  \<open>[1, 2, 3, 4]\<close>, the value stored is, for every conversion function, the conversion of
  \<open>[0, 0, 0, 0]\<close>, the difference \<^verbatim>\<open>DX\<close>, and not of \<open>[1, 2, 3, 4]\<close>.
\<close>

theorem published_line_is_converted_difference:
  "map_option (map (map_option NDw))
     (publish_window_lines changeOrthToPluker [1, 2, 3, 4] 0 0 1 [0] [Some line_at_rest])
     = Some [Some (changeOrthToPluker [0, 0, 0, 0])]"
  by (simp add: publish_window_lines_def publish_line_def line_at_rest_def vec_at_def idx_at_def
        block_def vec_sub_def norm_vec_def Let_def)


section \<open>The accept/reject step of the local optimizer\<close>

lemma set_block_length: "i + length b \<le> length v \<Longrightarrow> length (set_block v i b) = length v"
  by (simp add: set_block_def)

lemma set_block_nth:
  "i + length b \<le> length v \<Longrightarrow> j < length v \<Longrightarrow>
     set_block v i b ! j = (if i \<le> j \<and> j < i + length b then b ! (j - i) else v ! j)"
  by (auto simp: set_block_def nth_append)

lemma set_block_below:
  "j < i \<Longrightarrow> j < length v \<Longrightarrow> set_block v i b ! j = v ! j \<and> j < length (set_block v i b)"
  by (auto simp: set_block_def nth_append)

lemma block_eqI:
  assumes "i + n \<le> length v" "i + n \<le> length w"
    and "\<And>j. i \<le> j \<Longrightarrow> j < i + n \<Longrightarrow> v ! j = w ! j"
  shows "block v i n = block w i n"
  using assms by (intro nth_equalityI) (auto simp: block_def)

lemma block_set_block_same:
  "i + length b \<le> length v \<Longrightarrow> block (set_block v i b) i (length b) = b"
  by (simp add: block_def set_block_def)

lemma update_KFs_props:
  assumes logm: "\<And>M. length (logmap_se3 ops M) = 6"
    and "\<forall>i \<in> set is. 6 * i + 6 \<le> length xs" and "distinct is"
  shows "length (update_KFs ops xs dxs is) = length xs \<and>
         (\<forall>j < length xs. (\<forall>i \<in> set is. j < 6 * i \<or> 6 * i + 6 \<le> j) \<longrightarrow>
             update_KFs ops xs dxs is ! j = xs ! j) \<and>
         (\<forall>i \<in> set is. block (update_KFs ops xs dxs is) (6 * i) 6
             = pose_compose ops (block xs (6 * i) 6) (block dxs (6 * i) 6))"
  using assms(2,3)
proof (induction "is" arbitrary: xs)
  case Nil
  then show ?case by simp
next
  case (Cons i0 rest)
  define b where "b = pose_compose ops (block xs (6 * i0) 6) (block dxs (6 * i0) 6)"
  define ys where "ys = set_block xs (6 * i0) b"
  have lb: "length b = 6" by (simp add: b_def pose_compose_def logm)
  from Cons.prems have r0: "6 * i0 + 6 \<le> length xs" by simp
  have ly: "length ys = length xs" using r0 by (simp add: ys_def set_block_length lb)
  have ynth: "ys ! j = (if 6 * i0 \<le> j \<and> j < 6 * i0 + 6 then b ! (j - 6 * i0) else xs ! j)"
    if "j < length xs" for j
    using that r0 by (simp add: ys_def set_block_nth lb)
  have pre: "\<forall>i \<in> set rest. 6 * i + 6 \<le> length ys" "distinct rest"
    using Cons.prems by (simp_all add: ly)
  note IH = Cons.IH[OF pre]
  have step: "update_KFs ops xs dxs (i0 # rest) = update_KFs ops ys dxs rest"
    by (simp add: ys_def b_def)
  have len: "length (update_KFs ops ys dxs rest) = length xs" using IH ly by simp
  have untouched: "update_KFs ops ys dxs rest ! j = ys ! j"
    if "j < length xs" "\<forall>i \<in> set rest. j < 6 * i \<or> 6 * i + 6 \<le> j" for j
    using IH that ly by simp
  have i0_rest: "\<forall>i \<in> set rest. i \<noteq> i0" using Cons.prems by auto
  have blk0: "block (update_KFs ops ys dxs rest) (6 * i0) 6 = b"
  proof -
    have "block (update_KFs ops ys dxs rest) (6 * i0) 6 = block ys (6 * i0) 6"
    proof (rule block_eqI)
      show "6 * i0 + 6 \<le> length (update_KFs ops ys dxs rest)" using len r0 by simp
      show "6 * i0 + 6 \<le> length ys" using ly r0 by simp
      fix j assume j: "6 * i0 \<le> j" "j < 6 * i0 + 6"
      have "\<forall>i \<in> set rest. j < 6 * i \<or> 6 * i + 6 \<le> j"
      proof
        fix i assume "i \<in> set rest"
        with i0_rest have "i \<noteq> i0" by blast
        then have "i < i0 \<or> i0 < i" by auto
        with j show "j < 6 * i \<or> 6 * i + 6 \<le> j" by auto
      qed
      with j r0 show "update_KFs ops ys dxs rest ! j = ys ! j" by (intro untouched) simp_all
    qed
    also have "\<dots> = b"
      using block_set_block_same[of "6 * i0" b xs] r0 by (simp add: ys_def lb)
    finally show ?thesis .
  qed
  have blk_rest: "block ys (6 * i) 6 = block xs (6 * i) 6" if "i \<in> set rest" for i
  proof (rule block_eqI)
    from that Cons.prems have ri: "6 * i + 6 \<le> length xs" by simp
    show "6 * i + 6 \<le> length ys" using ri ly by simp
    show "6 * i + 6 \<le> length xs" by (rule ri)
    fix j assume j: "6 * i \<le> j" "j < 6 * i + 6"
    from that i0_rest have "i < i0 \<or> i0 < i" by auto
    with j have out: "\<not> (6 * i0 \<le> j \<and> j < 6 * i0 + 6)" by auto
    from j ri have "j < length xs" by simp
    from ynth[OF this] out show "ys ! j = xs ! j" by (simp only: if_False)
  qed
  show ?case
  proof (intro conjI allI impI ballI)
    show "length (update_KFs ops xs dxs (i0 # rest)) = length xs" by (simp only: step len)
  next
    fix j assume j: "j < length xs" "\<forall>i \<in> set (i0 # rest). j < 6 * i \<or> 6 * i + 6 \<le> j"
    then have "update_KFs ops ys dxs rest ! j = ys ! j" by (intro untouched) simp_all
    also have "ys ! j = xs ! j" using j by (auto simp: ynth)
    finally show "update_KFs ops xs dxs (i0 # rest) ! j = xs ! j" by (simp only: step)
  next
    fix i assume "i \<in> set (i0 # rest)"
    then consider "i = i0" | "i \<in> set rest" by auto
    then show "block (update_KFs ops xs dxs (i0 # rest)) (6 * i) 6
                 = pose_compose ops (block xs (6 * i) 6) (block dxs (6 * i) 6)"
    proof cases
      case 1
      then show ?thesis by (simp only: step blk0 b_def)
    next
      case 2
      with IH have "block (update_KFs ops ys dxs rest) (6 * i) 6
                      = pose_compose ops (block ys (6 * i) 6) (block dxs (6 * i) 6)" by blast
      then show ?thesis by (simp only: step blk_rest[OF 2])
    qed
  qed
qed

lemma add_entries_props:
  assumes "\<forall>i \<in> set is. i < length xs" and "distinct is"
  shows "length (add_entries xs dxs is) = length xs \<and>
         (\<forall>j < length xs. add_entries xs dxs is ! j = (if j \<in> set is then xs ! j + dxs ! j else xs ! j))"
  using assms
proof (induction "is" arbitrary: xs)
  case Nil
  then show ?case by simp
next
  case (Cons i0 rest)
  let ?ys = "xs[i0 := xs ! i0 + dxs ! i0]"
  have pre: "\<forall>i \<in> set rest. i < length ?ys" "distinct rest" using Cons.prems by simp_all
  note IH = Cons.IH[OF pre]
  from Cons.prems have "i0 \<notin> set rest" "i0 < length xs" by simp_all
  with IH show ?case by (auto simp: nth_list_update)
qed

lemma update_orth_blocks_below:
  assumes "\<forall>i \<in> set is. n \<le> i" and "n \<le> length xs"
  shows "n \<le> length (update_orth_blocks f xs dxs is) \<and>
         (\<forall>j < n. update_orth_blocks f xs dxs is ! j = xs ! j)"
  using assms
proof (induction "is" arbitrary: xs)
  case Nil
  then show ?case by simp
next
  case (Cons i0 rest)
  let ?ys = "set_block xs i0 (take 4 (f (block xs i0 4) (block dxs i0 4)))"
  from Cons.prems have n0: "n \<le> i0" by simp
  have below: "?ys ! j = xs ! j \<and> j < length ?ys" if "j < n" for j
    using that n0 Cons.prems(2) by (intro set_block_below) simp_all
  have ly: "n \<le> length ?ys"
  proof (cases n)
    case 0
    then show ?thesis by simp
  next
    case (Suc m)
    with below[of m] show ?thesis by simp
  qed
  have "\<forall>i \<in> set rest. n \<le> i" using Cons.prems by simp
  from Cons.IH[OF this ly] below show ?case by simp
qed

lemma line_starts_ge: "i \<in> set (line_starts fuel i0 N) \<Longrightarrow> i0 \<le> i"
  by (induction fuel i0 N arbitrary: i rule: line_starts.induct) (fastforce split: if_splits)+

lemma apply_step_props:
  assumes logm: "\<And>M. length (logmap_se3 ops M) = 6"
    and size: "6 * Nkf + 3 * Npt \<le> length xs"
  shows "(\<forall>i < Nkf. block (apply_step ops lines Nkf Npt xs dxs) (6 * i) 6
            = pose_compose ops (block xs (6 * i) 6) (block dxs (6 * i) 6)) \<and>
         (\<forall>j. 6 * Nkf \<le> j \<and> j < 6 * Nkf + 3 * Npt \<longrightarrow>
            apply_step ops lines Nkf Npt xs dxs ! j = xs ! j + dxs ! j)"
proof -
  define x1 where "x1 = update_KFs ops xs dxs [0..<Nkf]"
  define x2 where "x2 = add_entries x1 dxs [6 * Nkf..<6 * Nkf + 3 * Npt]"
  define n where "n = 6 * Nkf + 3 * Npt"
  have "\<forall>i \<in> set [0..<Nkf]. 6 * i + 6 \<le> length xs" using size by auto
  from update_KFs_props[OF logm this, of dxs] have
    l1: "length x1 = length xs"
    and u1: "\<And>j. j < length xs \<Longrightarrow> 6 * Nkf \<le> j \<Longrightarrow> x1 ! j = xs ! j"
    and b1: "\<And>i. i < Nkf \<Longrightarrow> block x1 (6 * i) 6
               = pose_compose ops (block xs (6 * i) 6) (block dxs (6 * i) 6)"
    by (auto simp: x1_def)
  have "\<forall>i \<in> set [6 * Nkf..<6 * Nkf + 3 * Npt]. i < length x1" using size l1 by auto
  from add_entries_props[OF this, of dxs] have
    l2: "length x2 = length xs"
    and u2: "\<And>j. j < length xs \<Longrightarrow>
               x2 ! j = (if 6 * Nkf \<le> j \<and> j < 6 * Nkf + 3 * Npt then x1 ! j + dxs ! j else x1 ! j)"
    by (auto simp: x2_def l1)
  have final: "n \<le> length (apply_step ops lines Nkf Npt xs dxs) \<and>
               (\<forall>j < n. apply_step ops lines Nkf Npt xs dxs ! j = x2 ! j)"
  proof (cases lines)
    case Endpoints
    have eq: "apply_step ops lines Nkf Npt xs dxs = add_entries x2 dxs [n..<length xs]"
      by (simp add: apply_step_def Endpoints x1_def x2_def n_def Let_def)
    have "\<forall>i \<in> set [n..<length xs]. i < length x2" by (simp add: l2)
    from add_entries_props[OF this, of dxs] have
      "length (add_entries x2 dxs [n..<length xs]) = length xs"
      "\<And>j. j < length xs \<Longrightarrow> add_entries x2 dxs [n..<length xs] ! j
          = (if j \<in> set [n..<length xs] then x2 ! j + dxs ! j else x2 ! j)"
      by (simp_all add: l2)
    then show ?thesis
      unfolding eq using size by (auto simp: n_def)
  next
    case (Orthonormal f)
    have "\<forall>i \<in> set (line_starts (length xs) n (length xs)). n \<le> i"
      by (auto dest: line_starts_ge)
    moreover have "n \<le> length x2" using size by (simp add: l2 n_def)
    moreover have eq: "apply_step ops lines Nkf Npt xs dxs
        = update_orth_blocks f x2 dxs (line_starts (length xs) n (length xs))"
      by (simp add: apply_step_def Orthonormal x1_def x2_def n_def Let_def)
    ultimately show ?thesis
      unfolding eq
      using update_orth_blocks_below[of "line_starts (length xs) n (length xs)" n x2 f dxs]
      by simp
  qed
  show ?thesis
  proof (intro conjI allI impI)
    fix i assume i: "i < Nkf"
    have "block (apply_step ops lines Nkf Npt xs dxs) (6 * i) 6 = block x1 (6 * i) 6"
    proof (rule block_eqI)
      show "6 * i + 6 \<le> length (apply_step ops lines Nkf Npt xs dxs)"
        using final i by (simp add: n_def)
      show "6 * i + 6 \<le> length x1" using i size l1 by simp
      fix j assume j: "6 * i \<le> j" "j < 6 * i + 6"
      with i have jn: "j < 6 * Nkf" by simp
      then have "j < n" "j < length xs" using size by (simp_all add: n_def)
      with final u2[of j] jn show "apply_step ops lines Nkf Npt xs dxs ! j = x1 ! j" by simp
    qed
    with b1[OF i] show "block (apply_step ops lines Nkf Npt xs dxs) (6 * i) 6
       = pose_compose ops (block xs (6 * i) 6) (block dxs (6 * i) 6)" by simp
  next
    fix j assume j: "6 * Nkf \<le> j \<and> j < 6 * Nkf + 3 * Npt"
    then have "j < n" "j < length xs" using size by (simp_all add: n_def)
    with final u2[of j] u1[of j] j show "apply_step ops lines Nkf Npt xs dxs ! j = xs ! j + dxs ! j"
      by simp
  qed
qed

lemma apply_step_endpoints:
  assumes logm: "\<And>M. length (logmap_se3 ops M) = 6"
    and size: "6 * Nkf + 3 * Npt \<le> length xs"
  shows "\<forall>j. 6 * Nkf \<le> j \<and> j < length xs \<longrightarrow>
           apply_step ops Endpoints Nkf Npt xs dxs ! j = xs ! j + dxs ! j"
proof -
  define x1 where "x1 = update_KFs ops xs dxs [0..<Nkf]"
  define x2 where "x2 = add_entries x1 dxs [6 * Nkf..<6 * Nkf + 3 * Npt]"
  define n where "n = 6 * Nkf + 3 * Npt"
  have "\<forall>i \<in> set [0..<Nkf]. 6 * i + 6 \<le> length xs" using size by auto
  from update_KFs_props[OF logm this, of dxs] have
    l1: "length x1 = length xs"
    and u1: "\<And>j. j < length xs \<Longrightarrow> 6 * Nkf \<le> j \<Longrightarrow> x1 ! j = xs ! j"
    by (auto simp: x1_def)
  have "\<forall>i \<in> set [6 * Nkf..<6 * Nkf + 3 * Npt]. i < length x1" using size l1 by auto
  from add_entries_props[OF this, of dxs] have
    l2: "length x2 = length xs"
    and u2: "\<And>j. j < length xs \<Longrightarrow>
               x2 ! j = (if 6 * Nkf \<le> j \<and> j < 6 * Nkf + 3 * Npt then x1 ! j + dxs ! j else x1 ! j)"
    by (auto simp: x2_def l1)
  have eq: "apply_step ops Endpoints Nkf Npt xs dxs = add_entries x2 dxs [n..<length xs]"
    by (simp add: apply_step_def x1_def x2_def n_def Let_def)
  have "\<forall>i \<in> set [n..<length xs]. i < length x2" by (simp add: l2)
  from add_entries_props[OF this, of dxs] have
    u3: "\<And>j. j < length xs \<Longrightarrow> add_entries x2 dxs [n..<length xs] ! j
          = (if j \<in> set [n..<length xs] then x2 ! j + dxs ! j else x2 ! j)"
    by (simp_all add: l2)
  show ?thesis
  proof (intro allI impI)
    fix j assume j: "6 * Nkf \<le> j \<and> j < length xs"
    then show "apply_step ops Endpoints Nkf Npt xs dxs ! j = xs ! j + dxs ! j"
      unfolding eq using u3[of j] u2[of j] u1[of j] by (auto simp: n_def)
  qed
qed

subsection \<open>Iterations with finite errors\<close>

text \<open>When the error of the iteration and the previous error are finite and the iteration
  passes the convergence test: if the error did not increase, the damping factor is
  multiplied by \<^verbatim>\<open>lambdaLbaK\<close> and the step is applied, by composition on the manifold for
  every pose block and by \<open>+=\<close> for every entry of a point block (and of a line block in
  the endpoint representation); if the error increased, the damping factor is divided by
  \<^verbatim>\<open>lambdaLbaK\<close> and the parameter vector is unchanged.\<close>

lemma lm_iteration_accept_reject:
  assumes past: "past_convergence_test cfg (Finite e) st"
    and logm: "\<And>M. length (logmap_se3 ops M) = 6"
    and size: "6 * Nkf + 3 * Npt \<le> length (lm_X st)"
    and e: "error_at (lm_X st) = Finite e"
    and prev: "lm_err_prev st = Finite e_prev"
    and DX: "DX = solve (lm_X st) (lm_lambda st)"
    and st': "st' = flow_state (lm_iteration cfg error_at solve (apply_step ops lines Nkf Npt) st)"
  shows "(e \<le> e_prev \<longrightarrow>
            lm_lambda st' = lm_lambda st * lambdaLbaK cfg \<and>
            lm_X st' = apply_step ops lines Nkf Npt (lm_X st) DX \<and>
            (\<forall>i < Nkf. block (lm_X st') (6 * i) 6
               = pose_compose ops (block (lm_X st) (6 * i) 6) (block DX (6 * i) 6)) \<and>
            (\<forall>j. 6 * Nkf \<le> j \<and> j < 6 * Nkf + 3 * Npt \<longrightarrow> lm_X st' ! j = lm_X st ! j + DX ! j) \<and>
            (lines = Endpoints \<longrightarrow>
               (\<forall>j. 6 * Nkf \<le> j \<and> j < length (lm_X st) \<longrightarrow> lm_X st' ! j = lm_X st ! j + DX ! j))) \<and>
         (e_prev < e \<longrightarrow>
            lm_lambda st' = lm_lambda st / lambdaLbaK cfg \<and> lm_X st' = lm_X st)"
proof -
  from past have nb: "\<not> (\<bar>e - e_prev\<bar> < minErrorChange cfg \<or> e < minError cfg)"
    by (simp add: past_convergence_test_def prev)
  have acc: "lm_lambda st' = lm_lambda st * lambdaLbaK cfg \<and>
             lm_X st' = apply_step ops lines Nkf Npt (lm_X st) DX" if "e \<le> e_prev"
    using that nb by (simp add: st' lm_iteration_def Let_def e prev DX)
  have rej: "lm_lambda st' = lm_lambda st / lambdaLbaK cfg \<and> lm_X st' = lm_X st"
    if "e_prev < e"
    using that nb by (simp add: st' lm_iteration_def Let_def e prev DX)
  note props = apply_step_props[OF logm size, of lines DX]
  have ends: "\<forall>j. 6 * Nkf \<le> j \<and> j < length (lm_X st) \<longrightarrow>
                apply_step ops Endpoints Nkf Npt (lm_X st) DX ! j = lm_X st ! j + DX ! j"
    by (rule apply_step_endpoints[OF logm size])
  show ?thesis
    using acc rej props ends by auto
qed

subsection \<open>Iterations with a quotient by zero\<close>

lemma double_div_zero_nonneg: "0 \<le> x \<Longrightarrow> double_div x 0 \<in> {PlusInfinity, NaN}"
  by (simp add: double_div_def)

lemma foldl_add_residual_nonneg:
  "0 \<le> err a \<Longrightarrow> (\<forall>ob e. res ob = Some e \<longrightarrow> 0 \<le> e) \<Longrightarrow> 0 \<le> err (foldl (add_residual res) a obs)"
  by (induction obs arbitrary: a) (auto simp: add_residual_def split: option.splits)

lemma accumulate_nonneg:
  "0 \<le> err a \<Longrightarrow> (\<forall>ob e. res_pt ob = Some e \<longrightarrow> 0 \<le> e) \<Longrightarrow>
     (\<forall>ob e. res_ls ob = Some e \<longrightarrow> 0 \<le> e) \<Longrightarrow>
     0 \<le> err (accumulate res_pt res_ls a pts lss)"
  by (simp add: accumulate_def foldl_add_residual_nonneg)

text \<open>With weighted squared errors that are not negative, the error that enters either
  loop as \<^verbatim>\<open>err_prev\<close>, and the error of every iteration of
  \<^verbatim>\<open>levMarquardtOptimizationLBAForPluker\<close>, is \<open>+\<infinity>\<close> or NaN.\<close>

lemma error_before_loop_values:
  assumes "\<forall>ob e. res_pt X ob = Some e \<longrightarrow> 0 \<le> e" "\<forall>ob e. res_ls X ob = Some e \<longrightarrow> 0 \<le> e"
  shows "error_before_loop res_pt res_ls pts lss X \<in> {PlusInfinity, NaN}"
proof -
  have d: "divisor (initial_sums (res_pt X) (res_ls X) pts lss) = 0"
    by (simp add: initial_sums_def accumulate_divisor) (simp add: divisor_def)
  have "0 \<le> err (initial_sums (res_pt X) (res_ls X) pts lss)"
    unfolding initial_sums_def using assms by (intro accumulate_nonneg) simp_all
  then show ?thesis
    unfolding error_before_loop_def normalized_error_def d by (rule double_div_zero_nonneg)
qed

lemma error_ForPluker_values:
  assumes "\<forall>ob e. res_pt X ob = Some e \<longrightarrow> 0 \<le> e" "\<forall>ob e. res_ls X ob = Some e \<longrightarrow> 0 \<le> e"
  shows "error_ForPluker res_pt res_ls pts lss (initial_sums rp rl pts' lss') X \<in> {PlusInfinity, NaN}"
proof -
  let ?a = "initial_sums rp rl pts' lss'"
  have d: "divisor (iteration_sums (res_pt X) (res_ls X) ?a pts lss) = 0"
    by (simp add: iteration_sums_def initial_sums_def accumulate_divisor)
       (simp add: divisor_def accumulate_def foldl_add_residual_counters)
  have "0 \<le> err (iteration_sums (res_pt X) (res_ls X) ?a pts lss)"
    unfolding iteration_sums_def using assms by (intro accumulate_nonneg) simp_all
  then show ?thesis
    unfolding error_ForPluker_def normalized_error_def d by (rule double_div_zero_nonneg)
qed

text \<open>An iteration whose error and previous error are \<open>+\<infinity>\<close> or NaN passes the
  convergence test and takes the branch that applies the step: neither
  \<^verbatim>\<open>abs(err-err_prev) < ...\<close>, nor \<^verbatim>\<open>err < ...\<close>, nor \<^verbatim>\<open>err > err_prev\<close> holds. The
  previous error it leaves is \<open>+\<infinity>\<close> or NaN again, so this is every iteration of
  \<^verbatim>\<open>levMarquardtOptimizationLBAForPluker\<close>.\<close>

lemma lm_iteration_unordered:
  assumes "error_at (lm_X st) \<in> {PlusInfinity, NaN}" "lm_err_prev st \<in> {PlusInfinity, NaN}"
  shows "lm_iteration cfg error_at solve step st =
           (let DX = solve (lm_X st) (lm_lambda st);
                st1 = st\<lparr>lm_lambda := lm_lambda st * lambdaLbaK cfg, lm_X := step (lm_X st) DX\<rparr>
            in if norm_vec DX < minErrorChange cfg then Break st1
               else Continue (st1\<lparr>lm_err_prev := error_at (lm_X st)\<rparr>))"
  using assms by (auto simp: lm_iteration_def Let_def)

lemma lm_iteration_unordered_state:
  assumes "error_at (lm_X st) \<in> {PlusInfinity, NaN}" "lm_err_prev st \<in> {PlusInfinity, NaN}"
  shows "lm_X (flow_state (lm_iteration cfg error_at solve step st))
           = step (lm_X st) (solve (lm_X st) (lm_lambda st)) \<and>
         lm_lambda (flow_state (lm_iteration cfg error_at solve step st))
           = lm_lambda st * lambdaLbaK cfg \<and>
         lm_err_prev (flow_state (lm_iteration cfg error_at solve step st)) \<in> {PlusInfinity, NaN}"
  using assms
  by (auto simp: lm_iteration_unordered[where error_at = error_at and st = st, OF assms] Let_def)

text \<open>The first iteration of \<^verbatim>\<open>levMarquardtOptimizationLBA\<close>, whose previous error is the
  quotient of line 2551, applies its step whenever its own error is finite and not below
  \<^verbatim>\<open>minError\<close>.\<close>

lemma lm_iteration_first_LBA:
  assumes "lm_err_prev st \<in> {PlusInfinity, NaN}" "error_at (lm_X st) = Finite e"
    and "\<not> e < minError cfg"
  shows "lm_X (flow_state (lm_iteration cfg error_at solve step st))
           = step (lm_X st) (solve (lm_X st) (lm_lambda st)) \<and>
         lm_lambda (flow_state (lm_iteration cfg error_at solve step st))
           = lm_lambda st * lambdaLbaK cfg"
  using assms by (auto simp: lm_iteration_def Let_def)

subsection \<open>A step that increases the error\<close>

lemma upt_0_4: "[0..<4] = [0, 1, 2, 3]"
  by (simp add: upt_rec)

lemma lba_window: "nat (window_size [lba_observation]) = 1"
  by (simp add: window_size_def lba_observation_def)

lemma first_step:
  "lm_start lam Hmax (error_before_loop coordinate_residual no_residual [lba_observation] [])
     doubling_solve (apply_step translation_se3 lines 1 1) lba_X
   = \<lparr>lm_X = [0, 2, 3, 0, 0, 0, 1, 2, 3], lm_lambda = lam * Hmax, lm_err_prev = PlusInfinity\<rparr>"
  by (cases lines)
     (simp_all add: lm_start_def error_before_loop_def normalized_error_def initial_sums_def
        accumulate_def add_residual_def coordinate_residual_def cauchy_weight_def lba_X_def
        divisor_def double_div_def doubling_solve_def apply_step_def translation_se3_def
        pose_compose_def mat_mul_def upt_0_4 block_def set_block_def Let_def)

lemma second_step:
  "apply_step translation_se3 lines 1 1 [0, 2, 3, 0, 0, 0, 1, 2, 3]
     (doubling_solve [0, 2, 3, 0, 0, 0, 1, 2, 3] lambda) = [- 1, 2, 3, 0, 0, 0, 2, 2, 3]"
  by (cases lines)
     (simp_all add: doubling_solve_def apply_step_def translation_se3_def pose_compose_def
        mat_mul_def upt_0_4 block_def set_block_def Let_def)



subsection \<open>The same window in the endpoint optimizer\<close>

lemma doubling_solve_norm: "\<not> norm_vec (doubling_solve X lambda) < minErrorChange lba_config"
proof -
  have "1 \<le> sqrt (1 + X ! 6 * X ! 6)" by simp
  then have "\<not> sqrt (1 + X ! 6 * X ! 6) < 1 / 10000000" by linarith
  then show ?thesis
    by (simp add: norm_vec_def doubling_solve_def lba_config_def
          del: divide_less_eq_numeral1 less_divide_eq_numeral1)
qed

lemma LBA_errors:
  "error_LBA coordinate_residual no_residual [lba_observation] [] a X
     = Finite (X ! 6 * X ! 6 * cauchy_weight (X ! 6))"
  by (simp add: error_LBA_def iteration_sums_def accumulate_def add_residual_def
        coordinate_residual_def window_size_def lba_observation_def double_div_def)

text \<open>\<^verbatim>\<open>levMarquardtOptimizationLBA\<close> on the same window: its first iteration, whose
  previous error is the quotient by zero of line 2551, applies the same step; its second
  iteration, where the error goes from \<open>1/2\<close> to \<open>4/5\<close>, divides the damping factor and
  leaves the parameters as they are.\<close>

lemma LBA_rejects_increased_error:
  "levMarquardtOptimizationLBA_loop lba_config lambdaLbaLM Hmax 3 coordinate_residual no_residual
     doubling_solve translation_se3 1 [lba_observation] [] lba_X
   = \<lparr>lm_X = [- 1, 2, 3, 0, 0, 0, 2, 2, 3],
      lm_lambda = lambdaLbaLM * Hmax * lambdaLbaK lba_config / lambdaLbaK lba_config,
      lm_err_prev = Finite (4 / 5)\<rparr>"
proof -
  let ?a = "initial_sums (coordinate_residual lba_X) (no_residual lba_X) [lba_observation] []"
  let ?step = "apply_step translation_se3 Endpoints 1 1"
  let ?err = "error_LBA coordinate_residual no_residual [lba_observation] [] ?a"
  let ?st0 = "\<lparr>lm_X = [0, 2, 3, 0, 0, 0, 1, 2, 3], lm_lambda = lambdaLbaLM * Hmax,
               lm_err_prev = PlusInfinity\<rparr>"
  let ?st1 = "\<lparr>lm_X = [- 1, 2, 3, 0, 0, 0, 2, 2, 3],
               lm_lambda = lambdaLbaLM * Hmax * lambdaLbaK lba_config, lm_err_prev = Finite (1 / 2)\<rparr>"
  let ?st2 = "\<lparr>lm_X = [- 1, 2, 3, 0, 0, 0, 2, 2, 3],
               lm_lambda = lambdaLbaLM * Hmax * lambdaLbaK lba_config / lambdaLbaK lba_config,
               lm_err_prev = Finite (4 / 5)\<rparr>"
  have it1: "lm_iteration lba_config ?err doubling_solve ?step ?st0 = Continue ?st1"
    using second_step[of Endpoints "lambdaLbaLM * Hmax"]
    by (simp add: lm_iteration_def LBA_errors doubling_solve_norm cauchy_weight_def Let_def)
       (simp add: lba_config_def)
  have it2: "lm_iteration lba_config ?err doubling_solve ?step ?st1 = Continue ?st2"
    by (simp add: lm_iteration_def LBA_errors doubling_solve_norm cauchy_weight_def Let_def)
       (simp add: lba_config_def)
  show ?thesis
    using first_step[of lambdaLbaLM Hmax Endpoints] it1 it2
    by (simp add: levMarquardtOptimizationLBA_loop_def lba_window Let_def numeral_3_eq_3)
qed

section \<open>The epipolar gate of map-to-keyframe line matching\<close>

subsection \<open>The matching pass of the example\<close>

text \<open>The landmark of the example passes the selection of the local map, and the two
  features are unmatched; the signed distances of the projected endpoints of the landmark
  are \<open>-260\<close> to the line of the first feature and \<open>260\<close> to the line of the second.\<close>

lemma example_selection:
  "select_local_lines vga_camera identity_pose 2 (lm_map_lines line_matching_example) 0 = Some [0] \<and>
   select_unmatched (stereo_ls (stereo_frame (lm_curr_kf line_matching_example))) = [0, 1]"
  by (simp add: line_matching_example_def upper_landmark_def row_feature_def
        reversed_feature_def local_line_selected_def projects_inside_def vga_camera_def identity_pose_def transform_point_def select_unmatched_def upt_rec Let_def)

lemma example_errors:
  "line_epipolar_errors vga_camera identity_pose (line3D upper_landmark) (ls_le row_feature)
     = (- 260, - 260)"
  "line_epipolar_errors vga_camera identity_pose (line3D upper_landmark) (ls_le reversed_feature)
     = (260, 260)"
  by (simp_all add: upper_landmark_def row_feature_def reversed_feature_def line_epipolar_errors_def
        vga_camera_def identity_pose_def transform_point_def Let_def)

lemma example_parts:
  "stereo_ls (stereo_frame (lm_curr_kf line_matching_example)) = [Some row_feature, Some reversed_feature]"
  "lm_map_lines line_matching_example = [Some upper_landmark]"
  "kf_idx (lm_curr_kf line_matching_example) = 2"
  "ml_idx upper_landmark = 0"
  "ml_kf_obs_list upper_landmark = [0, 1]"
  "lm_full_graph line_matching_example = [[0, 1, 0], [1, 0, 0], [0, 0, 0]]"
  "ldesc_l (stereo_frame (lm_curr_kf line_matching_example)) = [[7], [7]]"
  by (simp_all add: line_matching_example_def upper_landmark_def)

lemma example_accepts:
  "matchMap2KFLines_step vga_camera 1 upl identity_pose [0] [0, 1] [[7], [7]]
     line_matching_example (0, 0) \<noteq> None"
  by (simp add: matchMap2KFLines_step_def vec_at_def idx_at_def example_parts example_errors
        epipolar_gate_def addMapLineObservation_def addMapLineObservation_pts_def graph_inc_def
        pair_upd_def cell_upd_def Let_def)

lemma example_rejects:
  "matchMap2KFLines_step vga_camera 1 upl identity_pose [0] [0, 1] [[7], [7]]
     line_matching_example (0, 1) = Some (line_matching_example\<lparr>lm_matches := 0\<rparr>)"
  by (simp add: matchMap2KFLines_step_def vec_at_def idx_at_def example_parts example_errors
        epipolar_gate_def Let_def)
     (simp add: line_matching_example_def)
text \<open>With a matcher that returns one match, the function is that step.\<close>

lemma example_pass:
  "matchMap2KFLines vga_camera th upl True identity_pose (\<lambda>ls fs. (1, [i2])) line_matching_example
     = matchMap2KFLines_step vga_camera th upl identity_pose [0] [0, 1] [[7], [7]]
         line_matching_example (0, i2)"
proof -
  have s: "line_matching_example\<lparr>lm_matches := 1\<rparr> = line_matching_example"
    by (simp add: line_matching_example_def)
  have sel: "local_line_selected vga_camera identity_pose 2 upper_landmark = Some True"
    by (simp add: upper_landmark_def local_line_selected_def projects_inside_def
          vga_camera_def identity_pose_def transform_point_def Let_def)
  have unm: "select_unmatched [Some row_feature, Some reversed_feature] = [0, 1]"
    using example_selection by (simp add: example_parts)
  show ?thesis
    by (simp add: matchMap2KFLines_def Let_def example_parts sel unm s
          matchMap2KFLines_matches_def vec_at_def)
qed

subsection \<open>The gate\<close>

text \<open>
  Claim C10, as amended. The acceptance gate of \<^verbatim>\<open>matchMap2KFLines\<close> compares the two
  signed endpoint distances with the threshold \<^verbatim>\<open>maxKFEpipL\<close> without absolute values.
  For a match whose lookups are defined: when both distances are below the threshold the
  match is accepted (the feature takes the landmark's index, the observation of the current
  keyframe is appended to the landmark's lists, in either build, and the count of matches is
  kept); when one of them is at or above the threshold the match is rejected (the count of
  matches is reduced and nothing else changes). So for a threshold that is not negative,
  every match whose two signed distances are negative, whatever their magnitude, is
  accepted: the gate bounds the distances from above only.
\<close>

theorem signed_gate_bounds_one_side:
  assumes i2: "0 \<le> i2"
    and p: "vec_at map_local_lines i1 = Some p"
    and ml: "vec_at (lm_map_lines st) p = Some (Some ml)"
    and u: "idx_at unmatched_lines i2 = Some u"
    and lf: "vec_at (stereo_ls (stereo_frame (lm_curr_kf st))) u = Some (Some lf)"
    and target: "idx_at (lm_map_lines st) (ml_idx ml) = Some (Some target)"
    and errs: "line_epipolar_errors cam Twf (line3D ml) (ls_le lf) = (e0, e1)"
    and run: "matchMap2KFLines_step cam maxKFEpipL use_line_pluker Twf map_local_lines
                unmatched_lines unmatched_ls_desc st (i1, i2) = Some st'"
  shows "(e0 < maxKFEpipL \<and> e1 < maxKFEpipL \<longrightarrow>
            vec_at (stereo_ls (stereo_frame (lm_curr_kf st'))) u = Some (Some (lf\<lparr>ls_idx := ml_idx ml\<rparr>)) \<and>
            (\<exists>target' desc. idx_at unmatched_ls_desc i2 = Some desc \<and>
               idx_at (lm_map_lines st') (ml_idx ml) = Some (Some target') \<and>
               ml_kf_obs_list target' = ml_kf_obs_list target @ [kf_idx (lm_curr_kf st)] \<and>
               ml_desc_list target' = ml_desc_list target @ [desc] \<and>
               ml_pts_list target' = ml_pts_list target @ [ls_spl lf @ ls_epl lf]) \<and>
            lm_matches st' = lm_matches st) \<and>
         (maxKFEpipL \<le> e0 \<or> maxKFEpipL \<le> e1 \<longrightarrow> st' = st\<lparr>lm_matches := lm_matches st - 1\<rparr>) \<and>
         (0 \<le> maxKFEpipL \<and> e0 < 0 \<and> e1 < 0 \<longrightarrow>
            vec_at (stereo_ls (stereo_frame (lm_curr_kf st'))) u = Some (Some (lf\<lparr>ls_idx := ml_idx ml\<rparr>)) \<and>
            (\<exists>target' desc. idx_at unmatched_ls_desc i2 = Some desc \<and>
               idx_at (lm_map_lines st') (ml_idx ml) = Some (Some target') \<and>
               ml_kf_obs_list target' = ml_kf_obs_list target @ [kf_idx (lm_curr_kf st)] \<and>
               ml_desc_list target' = ml_desc_list target @ [desc] \<and>
               ml_pts_list target' = ml_pts_list target @ [ls_spl lf @ ls_epl lf]) \<and>
            lm_matches st' = lm_matches st)"
proof -
  let ?A = "vec_at (stereo_ls (stereo_frame (lm_curr_kf st'))) u = Some (Some (lf\<lparr>ls_idx := ml_idx ml\<rparr>)) \<and>
            (\<exists>target' desc. idx_at unmatched_ls_desc i2 = Some desc \<and>
               idx_at (lm_map_lines st') (ml_idx ml) = Some (Some target') \<and>
               ml_kf_obs_list target' = ml_kf_obs_list target @ [kf_idx (lm_curr_kf st)] \<and>
               ml_desc_list target' = ml_desc_list target @ [desc] \<and>
               ml_pts_list target' = ml_pts_list target @ [ls_spl lf @ ls_epl lf]) \<and>
            lm_matches st' = lm_matches st"
  from i2 have ni: "\<not> i2 < 0" by simp
  from target have r: "0 \<le> ml_idx ml" "nat (ml_idx ml) < length (lm_map_lines st)"
    by (auto simp: idx_at_def split: if_splits)
  from lf have ur: "u < length (stereo_ls (stereo_frame (lm_curr_kf st)))"
    by (auto simp: vec_at_def split: if_splits)
  have acc: ?A if below: "e0 < maxKFEpipL" "e1 < maxKFEpipL"
  proof -
    have gate: "epipolar_gate maxKFEpipL (line_epipolar_errors cam Twf (line3D ml) (ls_le lf))"
      unfolding errs using below by (simp add: epipolar_gate_def)
    from run obtain desc g where
      desc: "idx_at unmatched_ls_desc i2 = Some desc" and
      st': "st' = st\<lparr>lm_curr_kf := (lm_curr_kf st)\<lparr>stereo_frame := (stereo_frame (lm_curr_kf st))
                     \<lparr>stereo_ls := (stereo_ls (stereo_frame (lm_curr_kf st)))[u := Some (lf\<lparr>ls_idx := ml_idx ml\<rparr>)]\<rparr>\<rparr>,
                   lm_map_lines := (lm_map_lines st)[nat (ml_idx ml) :=
                      Some (if use_line_pluker
                            then addMapLineObservation_pts target desc (kf_idx (lm_curr_kf st))
                                   (ls_spl lf @ ls_epl lf)
                            else addMapLineObservation target desc (kf_idx (lm_curr_kf st)) (ls_le lf)
                                   (normalized (transform_point (T_kf_w (lm_curr_kf st))
                                      (vec_scale (1 / 2) (vec_add (ls_sP lf) (ls_eP lf)))))
                                   (ls_spl lf @ ls_epl lf))],
                   lm_full_graph := g\<rparr>"
      by (auto simp: matchMap2KFLines_step_def ni p ml u lf target gate Let_def bind_eq_Some_conv)
    show ?thesis
      using r ur desc
      by (simp add: st' vec_at_def idx_at_def addMapLineObservation_def addMapLineObservation_pts_def)
  qed
  have rej: "st' = st\<lparr>lm_matches := lm_matches st - 1\<rparr>" if above: "maxKFEpipL \<le> e0 \<or> maxKFEpipL \<le> e1"
  proof -
    have gate: "\<not> epipolar_gate maxKFEpipL (line_epipolar_errors cam Twf (line3D ml) (ls_le lf))"
      unfolding errs using above by (auto simp: epipolar_gate_def)
    from run show ?thesis
      by (simp add: matchMap2KFLines_step_def ni p ml u lf gate)
  qed
  have neg: ?A if "0 \<le> maxKFEpipL \<and> e0 < 0 \<and> e1 < 0"
    using that by (intro acc) simp_all
  from acc rej neg show ?thesis by blast
qed

theorem signed_gate_bounds_one_side_witness:
  "(\<exists>st'. matchMap2KFLines_step vga_camera 1 True identity_pose [0] [0, 1] [[7], [7]]
            line_matching_example (0, 0) = Some st' \<and>
      vec_at (stereo_ls (stereo_frame (lm_curr_kf st'))) 0 = Some (Some (row_feature\<lparr>ls_idx := 0\<rparr>)) \<and>
      (\<exists>target'. idx_at (lm_map_lines st') 0 = Some (Some target') \<and>
         ml_kf_obs_list target' = [0, 1, 2] \<and>
         ml_desc_list target' = [[7], [7], [7]] \<and>
         ml_pts_list target' = [[260, 150, 380, 150], [260, 150, 380, 150], [260, 410, 380, 410]]) \<and>
      lm_matches st' = 1) \<and>
   (\<exists>st'. matchMap2KFLines_step vga_camera 1 False identity_pose [0] [0, 1] [[7], [7]]
            line_matching_example (0, 0) = Some st' \<and>
      vec_at (stereo_ls (stereo_frame (lm_curr_kf st'))) 0 = Some (Some (row_feature\<lparr>ls_idx := 0\<rparr>)) \<and>
      (\<exists>target'. idx_at (lm_map_lines st') 0 = Some (Some target') \<and>
         ml_kf_obs_list target' = [0, 1, 2] \<and>
         ml_desc_list target' = [[7], [7], [7]] \<and>
         ml_pts_list target' = [[260, 150, 380, 150], [260, 150, 380, 150], [260, 410, 380, 410]]) \<and>
      lm_matches st' = 1) \<and>
   matchMap2KFLines_step vga_camera 1 True identity_pose [0] [0, 1] [[7], [7]]
     line_matching_example (0, 1) = Some (line_matching_example\<lparr>lm_matches := 0\<rparr>) \<and>
   line_epipolar_errors vga_camera identity_pose (line3D upper_landmark) (ls_le row_feature)
     = (- 260, - 260) \<and>
   line_epipolar_errors vga_camera identity_pose (line3D upper_landmark) (ls_le reversed_feature)
     = (260, 260)"
proof -
  have p: "vec_at [0::nat] 0 = Some 0"
    and ml: "vec_at (lm_map_lines line_matching_example) 0 = Some (Some upper_landmark)"
    and u0: "idx_at [0::nat, 1] 0 = Some 0"
    and u1: "idx_at [0::nat, 1] 1 = Some 1"
    and lf0: "vec_at (stereo_ls (stereo_frame (lm_curr_kf line_matching_example))) 0
                = Some (Some row_feature)"
    and lf1: "vec_at (stereo_ls (stereo_frame (lm_curr_kf line_matching_example))) 1
                = Some (Some reversed_feature)"
    and tg: "idx_at (lm_map_lines line_matching_example) (ml_idx upper_landmark)
               = Some (Some upper_landmark)"
    by (simp_all add: example_parts vec_at_def idx_at_def)
  have accepted: "\<exists>st'. matchMap2KFLines_step vga_camera 1 upl identity_pose [0] [0, 1] [[7], [7]]
            line_matching_example (0, 0) = Some st' \<and>
      vec_at (stereo_ls (stereo_frame (lm_curr_kf st'))) 0 = Some (Some (row_feature\<lparr>ls_idx := 0\<rparr>)) \<and>
      (\<exists>target'. idx_at (lm_map_lines st') 0 = Some (Some target') \<and>
         ml_kf_obs_list target' = [0, 1, 2] \<and>
         ml_desc_list target' = [[7], [7], [7]] \<and>
         ml_pts_list target' = [[260, 150, 380, 150], [260, 150, 380, 150], [260, 410, 380, 410]]) \<and>
      lm_matches st' = 1" for upl
  proof -
    from example_accepts[of upl] obtain st' where
      run: "matchMap2KFLines_step vga_camera 1 upl identity_pose [0] [0, 1] [[7], [7]]
              line_matching_example (0, 0) = Some st'"
      by blast
    from signed_gate_bounds_one_side[OF _ p ml u0 lf0 tg example_errors(1) run]
    have "vec_at (stereo_ls (stereo_frame (lm_curr_kf st'))) 0
            = Some (Some (row_feature\<lparr>ls_idx := ml_idx upper_landmark\<rparr>)) \<and>
          (\<exists>target' desc. idx_at [[7], [7::nat]] 0 = Some desc \<and>
             idx_at (lm_map_lines st') (ml_idx upper_landmark) = Some (Some target') \<and>
             ml_kf_obs_list target'
               = ml_kf_obs_list upper_landmark @ [kf_idx (lm_curr_kf line_matching_example)] \<and>
             ml_desc_list target' = ml_desc_list upper_landmark @ [desc] \<and>
             ml_pts_list target' = ml_pts_list upper_landmark @ [ls_spl row_feature @ ls_epl row_feature]) \<and>
          lm_matches st' = lm_matches line_matching_example"
      by simp
    then show ?thesis
      using run
      by (auto simp: example_parts idx_at_def upper_landmark_def row_feature_def
            line_matching_example_def)
  qed
  have "\<exists>st'. matchMap2KFLines_step vga_camera 1 True identity_pose [0] [0, 1] [[7], [7]]
               line_matching_example (0, 1) = Some st'"
    using example_rejects[of True] by blast
  then obtain st'' where
    run': "matchMap2KFLines_step vga_camera 1 True identity_pose [0] [0, 1] [[7], [7]]
             line_matching_example (0, 1) = Some st''"
    by blast
  from signed_gate_bounds_one_side[OF _ p ml u1 lf1 tg example_errors(2) run']
  have "st'' = line_matching_example\<lparr>lm_matches := lm_matches line_matching_example - 1\<rparr>"
    by simp
  then have rejected: "matchMap2KFLines_step vga_camera 1 True identity_pose [0] [0, 1] [[7], [7]]
                         line_matching_example (0, 1) = Some (line_matching_example\<lparr>lm_matches := 0\<rparr>)"
    using run' by (simp add: line_matching_example_def)
  from accepted[of True] accepted[of False] rejected example_errors show ?thesis
    by blast
qed

text \<open>
  Claim C10 as stated fails for a negative threshold: with \<^verbatim>\<open>maxKFEpipL\<close> at \<open>-300\<close> the
  match whose two signed distances are \<open>-260\<close> is rejected, in either build.
\<close>

theorem negative_threshold_rejects:
  "line_epipolar_errors vga_camera identity_pose (line3D upper_landmark) (ls_le row_feature)
     = (- 260, - 260) \<and>
   matchMap2KFLines_step vga_camera (- 300) True identity_pose [0] [0, 1] [[7], [7]]
     line_matching_example (0, 0) = Some (line_matching_example\<lparr>lm_matches := 0\<rparr>) \<and>
   matchMap2KFLines_step vga_camera (- 300) False identity_pose [0] [0, 1] [[7], [7]]
     line_matching_example (0, 0) = Some (line_matching_example\<lparr>lm_matches := 0\<rparr>)"
  by (simp add: matchMap2KFLines_step_def vec_at_def idx_at_def example_parts example_errors
        epipolar_gate_def Let_def)
     (simp add: line_matching_example_def)

section \<open>Symmetry of the matrix along the functions of the map handler\<close>

text \<open>The functions of the embedding that write \<^verbatim>\<open>full_graph\<close> do so through the paired
  updates of the first section only, so each of them takes a symmetric matrix to a symmetric
  matrix whenever it returns: the fusion of landmarks after a loop closure, the removal of
  observations by the local optimizer, the matching of map lines with a keyframe, and the
  culling of landmarks, which leaves the matrix as it is.\<close>

lemma set_stereo_ls_idx_frame:
  "set_stereo_ls_idx s k l v = Some s' \<Longrightarrow>
     map_points s' = map_points s \<and> map_lines_kf_idx s' = map_lines_kf_idx s \<and>
     full_graph s' = full_graph s \<and> map_lines s' = map_lines s"
  by (auto simp: set_stereo_ls_idx_def bind_eq_Some_conv)

lemma fuse_pt_loop_symmetric:
  "fuse_pt_loop A B N g iters = Some (A', g') \<Longrightarrow> symmetric g \<Longrightarrow> symmetric g'"
proof (induction iters arbitrary: A g)
  case Nil
  then show ?case by simp
next
  case (Cons iter rest)
  then show ?case
    by (auto simp: bind_eq_Some_conv Let_def dest: inc_each_symmetric)
qed

lemma fuse_ls_loop_symmetric:
  "fuse_ls_loop A B N g iters = Some (A', g') \<Longrightarrow> symmetric g \<Longrightarrow> symmetric g'"
proof (induction iters arbitrary: A g)
  case Nil
  then show ?case by simp
next
  case (Cons iter rest)
  then show ?case
    by (auto simp: bind_eq_Some_conv Let_def dest: inc_each_symmetric)
qed

lemma fuse_pt_attach_prev_symmetric:
  "fuse_pt_attach_prev s kp kc l0 m1 = Some s' \<Longrightarrow> symmetric (full_graph s) \<Longrightarrow> symmetric (full_graph s')"
  by (auto simp: fuse_pt_attach_prev_def bind_eq_Some_conv Let_def split: option.splits
           dest!: set_stereo_pt_idx_frame)
     (erule inc_each_symmetric[rotated], assumption)+

lemma fuse_pt_attach_curr_symmetric:
  "fuse_pt_attach_curr s kp kc m0 l1 = Some s' \<Longrightarrow> symmetric (full_graph s) \<Longrightarrow> symmetric (full_graph s')"
  by (auto simp: fuse_pt_attach_curr_def bind_eq_Some_conv Let_def split: option.splits
           dest!: set_stereo_pt_idx_frame)
     (erule inc_each_symmetric[rotated], assumption)+

lemma fuse_pt_create_symmetric:
  "fuse_pt_create s kp kc l0 l1 = Some s' \<Longrightarrow> symmetric (full_graph s) \<Longrightarrow> symmetric (full_graph s')"
  by (auto simp: fuse_pt_create_def bind_eq_Some_conv Let_def split: option.splits
           dest!: set_stereo_pt_idx_frame)
     (erule graph_inc_symmetric[rotated], assumption)+

lemma fuse_pt_merge_symmetric:
  "fuse_pt_merge s kc m0 m1 l1 = Some s' \<Longrightarrow> symmetric (full_graph s) \<Longrightarrow> symmetric (full_graph s')"
  by (auto simp: fuse_pt_merge_def Let_def split: bind_splits option.splits if_splits prod.splits
           dest!: set_stereo_pt_idx_frame dest: fuse_pt_loop_symmetric)

lemma fuse_pt_match_symmetric:
  "fuse_pt_match s kp kc lm = Some s' \<Longrightarrow> symmetric (full_graph s) \<Longrightarrow> symmetric (full_graph s')"
  by (cases lm)
     (auto simp: fuse_pt_match_def split: if_splits
           dest: fuse_pt_attach_prev_symmetric fuse_pt_attach_curr_symmetric
                 fuse_pt_create_symmetric fuse_pt_merge_symmetric)

lemma fuse_pt_matches_symmetric:
  "fuse_pt_matches s kp kc lms = Some s' \<Longrightarrow> symmetric (full_graph s) \<Longrightarrow> symmetric (full_graph s')"
  by (induction lms arbitrary: s) (auto simp: bind_eq_Some_conv dest: fuse_pt_match_symmetric)

lemma fuse_pt_edges_symmetric:
  "fuse_pt_edges s i idxss = Some s' \<Longrightarrow> symmetric (full_graph s) \<Longrightarrow> symmetric (full_graph s')"
  by (induction idxss arbitrary: s i)
     (auto simp: bind_eq_Some_conv split: prod.splits if_splits dest: fuse_pt_matches_symmetric)

lemma fuse_ls_attach_prev_symmetric:
  "fuse_ls_attach_prev s kp kc l0 m1 = Some s' \<Longrightarrow> symmetric (full_graph s) \<Longrightarrow> symmetric (full_graph s')"
  by (auto simp: fuse_ls_attach_prev_def bind_eq_Some_conv Let_def split: option.splits
           dest!: set_stereo_ls_idx_frame)
     (erule inc_each_symmetric[rotated], assumption)+

lemma fuse_ls_attach_curr_symmetric:
  "fuse_ls_attach_curr s kp kc m0 l1 = Some s' \<Longrightarrow> symmetric (full_graph s) \<Longrightarrow> symmetric (full_graph s')"
  by (auto simp: fuse_ls_attach_curr_def bind_eq_Some_conv Let_def split: option.splits
           dest!: set_stereo_ls_idx_frame)
     (erule inc_each_symmetric[rotated], assumption)+

lemma fuse_ls_create_symmetric:
  "fuse_ls_create s kp kc l0 l1 = Some s' \<Longrightarrow> symmetric (full_graph s) \<Longrightarrow> symmetric (full_graph s')"
  by (auto simp: fuse_ls_create_def bind_eq_Some_conv Let_def split: option.splits
           dest!: set_stereo_ls_idx_frame)
     (erule graph_inc_symmetric[rotated], assumption)+

lemma fuse_ls_merge_symmetric:
  "fuse_ls_merge s kc m0 m1 l1 = Some s' \<Longrightarrow> symmetric (full_graph s) \<Longrightarrow> symmetric (full_graph s')"
  by (auto simp: fuse_ls_merge_def Let_def split: bind_splits option.splits if_splits prod.splits
           dest!: set_stereo_ls_idx_frame dest: fuse_ls_loop_symmetric)

lemma fuse_ls_match_symmetric:
  "fuse_ls_match s kp kc lm = Some s' \<Longrightarrow> symmetric (full_graph s) \<Longrightarrow> symmetric (full_graph s')"
  by (cases lm)
     (auto simp: fuse_ls_match_def split: if_splits
           dest: fuse_ls_attach_prev_symmetric fuse_ls_attach_curr_symmetric
                 fuse_ls_create_symmetric fuse_ls_merge_symmetric)

lemma fuse_ls_matches_symmetric:
  "fuse_ls_matches s kp kc lms = Some s' \<Longrightarrow> symmetric (full_graph s) \<Longrightarrow> symmetric (full_graph s')"
  by (induction lms arbitrary: s) (auto simp: bind_eq_Some_conv dest: fuse_ls_match_symmetric)

lemma fuse_ls_edges_symmetric:
  "fuse_ls_edges s i idxss = Some s' \<Longrightarrow> symmetric (full_graph s) \<Longrightarrow> symmetric (full_graph s')"
  by (induction idxss arbitrary: s i)
     (auto simp: bind_eq_Some_conv split: prod.splits if_splits dest: fuse_ls_matches_symmetric)

lemma loopClosureFuseLandmarks_symmetric:
  "loopClosureFuseLandmarks s = Some s' \<Longrightarrow> symmetric (full_graph s) \<Longrightarrow> symmetric (full_graph s')"
  by (auto simp: loopClosureFuseLandmarks_def bind_eq_Some_conv
           dest: fuse_pt_edges_symmetric fuse_ls_edges_symmetric)

lemma remove_pt_observation_symmetric:
  "remove_pt_observation s ob = Some s' \<Longrightarrow> symmetric (full_graph s) \<Longrightarrow> symmetric (full_graph s')"
  by (auto simp: remove_pt_observation_def bind_eq_Some_conv Let_def
           split: option.splits if_splits)
     (erule dec_guarded_symmetric[rotated], assumption)+

lemma matchMap2KFLines_step_symmetric:
  "matchMap2KFLines_step cam th upl Twf mll ul ud st m = Some st' \<Longrightarrow>
     symmetric (lm_full_graph st) \<Longrightarrow> symmetric (lm_full_graph st')"
  apply (cases m)
  apply (auto simp: matchMap2KFLines_step_def bind_eq_Some_conv Let_def
           split: option.splits if_splits)
  apply (erule inc_guarded_symmetric[rotated], assumption)+
  done

lemma remove_pt_observations_symmetric:
  "remove_pt_observations s obs = Some s' \<Longrightarrow> symmetric (full_graph s) \<Longrightarrow> symmetric (full_graph s')"
  by (induction obs arbitrary: s)
     (auto simp: bind_eq_Some_conv dest: remove_pt_observation_symmetric)

lemma remove_bad_pt_observations_symmetric:
  "remove_bad_pt_observations s pt_obs_list = Some s' \<Longrightarrow> symmetric (full_graph s) \<Longrightarrow>
     symmetric (full_graph s')"
  unfolding remove_bad_pt_observations_def by (rule remove_pt_observations_symmetric)

lemma matchMap2KFLines_loop_symmetric:
  "matchMap2KFLines_loop cam th upl Twf mll ul ud st ms = Some st' \<Longrightarrow>
     symmetric (lm_full_graph st) \<Longrightarrow> symmetric (lm_full_graph st')"
  by (induction ms arbitrary: st)
     (auto simp: bind_eq_Some_conv dest: matchMap2KFLines_step_symmetric)

lemma matchMap2KFLines_matches_symmetric:
  "matchMap2KFLines_matches cam th upl Twf mll ul ud st matches_12 = Some st' \<Longrightarrow>
     symmetric (lm_full_graph st) \<Longrightarrow> symmetric (lm_full_graph st')"
  unfolding matchMap2KFLines_matches_def by (rule matchMap2KFLines_loop_symmetric)

lemma loopClosure_correct_symmetric:
  "loopClosure_correct s = Some s' \<Longrightarrow> symmetric (full_graph s) \<Longrightarrow> symmetric (full_graph s')"
  by (auto simp: loopClosure_correct_def loopClosureOptimization_finish_def mark_optimized_def
                 bind_eq_Some_conv split: if_splits
           dest: loopClosureFuseLandmarks_symmetric)

lemma removeBadMapLandmarks_symmetric:
  "removeBadMapLandmarks minLMObs s = Some s' \<Longrightarrow> symmetric (full_graph s) \<Longrightarrow>
     symmetric (full_graph s')"
  by (simp add: removeBadMapLandmarks_full_graph)

lemma matchMap2KFLines_symmetric:
  "matchMap2KFLines cam th upl hasLines Twf matcher st = Some st' \<Longrightarrow>
     symmetric (lm_full_graph st) \<Longrightarrow> symmetric (lm_full_graph st')"
  by (auto simp: matchMap2KFLines_def Let_def bind_eq_Some_conv
           split: if_splits prod.splits dest: matchMap2KFLines_matches_symmetric)


end
